theory Spec2Isabelle
  imports Complex_Main "HOL-Library.Multiset"
begin

section \<open>Data model\<close>

text \<open>
  Objects of the editor (nodes, group nodes, connections) live on the C++ heap and are
  referred to by pointer. A pointer is modelled by a natural number, \<open>0\<close> being
  \<open>nullptr\<close>. \<open>qreal\<close> is modelled by \<open>real\<close> (arithmetic without rounding) and
  \<open>QPointF\<close> by a pair of reals; C++ \<open>int\<close> values (port counts, port indices) are
  modelled by \<open>int\<close>, none of the arithmetic done on them can overflow for lists that
  fit in memory.
\<close>

type_synonym ptr = nat
type_synonym QPointF = "real \<times> real"

definition nullptr :: ptr where
  "nullptr = 0"

definition padd :: "QPointF \<Rightarrow> QPointF \<Rightarrow> QPointF" where
  "padd p q = (fst p + fst q, snd p + snd q)"

definition psub :: "QPointF \<Rightarrow> QPointF \<Rightarrow> QPointF" where
  "psub p q = (fst p - fst q, snd p - snd q)"

definition pdiv :: "QPointF \<Rightarrow> real \<Rightarrow> QPointF" where
  "pdiv p c = (fst p / c, snd p / c)"

datatype LineType = Bezier | Straight | Orthogonal

text \<open>GroupNode.h: \<open>struct PortMapping\<close> and \<open>struct ExternalConnection\<close>.\<close>

record PortMapping =
  pm_internalNode :: ptr
  pm_internalPortIndex :: int
  pm_isInput :: bool
  pm_portLabel :: string

record ExternalConnection =
  externalNode :: ptr
  externalPortIndex :: int
  internalNode :: ptr
  internalPortIndex :: int
  isInput :: bool
  originalConnection :: ptr

text \<open>
  The members a \<open>GroupNode\<close> adds to \<open>Node\<close>. \<open>QMap<Node*, QPointF>\<close> is an association
  list kept sorted by key with one entry per key, which is the order a \<open>QMap\<close> iterates in.
\<close>

record GroupData =
  m_internalNodes :: "ptr list"
  m_internalConnections :: "ptr list"
  m_externalConnections :: "ExternalConnection list"
  m_inputPortMappings :: "PortMapping list"
  m_outputPortMappings :: "PortMapping list"
  m_originalPositions :: "(ptr \<times> QPointF) list"
  m_groupLevel :: int

text \<open>
  Node.h: the members of \<open>Node\<close> that are not paint or mouse state. \<open>m_group\<close> is
  \<open>Some\<close> exactly for an object of the subclass \<open>GroupNode\<close>. \<open>m_customColor\<close> holds
  the colour's name (\<open>QColor::name()\<close>).
\<close>

record Node =
  m_type :: string
  m_name :: string
  pos :: QPointF
  m_customColor :: string
  m_useCustomColor :: bool
  m_displayTypeName :: string
  m_inputPortCount :: int
  m_outputPortCount :: int
  m_width :: real
  m_height :: real
  m_parameters :: "string list"
  m_connections :: "ptr list"
  m_group :: "GroupData option"

record Connection =
  m_fromNode :: ptr
  m_toNode :: ptr
  m_fromPortIndex :: int
  m_toPortIndex :: int
  m_lineType :: LineType

text \<open>NodeTemplate.h: the members of a node template the node constructor reads.\<close>

record NodeTemplate =
  t_typeId :: string
  t_displayName :: string
  t_color :: string
  t_inputPortCount :: int
  t_outputPortCount :: int

definition isValid :: "NodeTemplate \<Rightarrow> bool" where
  "isValid t = (t_typeId t \<noteq> [] \<and> t_displayName t \<noteq> [])"

text \<open>\<open>NodeTemplate::NodeTemplate()\<close>; \<open>Qt::gray\<close> has the name \<open>#a0a0a4\<close>.\<close>

definition NodeTemplate_default :: NodeTemplate where
  "NodeTemplate_default =
     \<lparr>t_typeId = [], t_displayName = [], t_color = ''#a0a0a4'',
      t_inputPortCount = 1, t_outputPortCount = 1\<rparr>"

text \<open>
  The node library (\<open>NodeLibrary::instance()\<close>) is a \<open>QMap\<close> from type id to template;
  \<open>getTemplate\<close> returns a default-constructed (invalid) template for an unknown id.
\<close>

type_synonym NodeLibrary = "string \<rightharpoonup> NodeTemplate"

definition getTemplate :: "NodeLibrary \<Rightarrow> string \<Rightarrow> NodeTemplate" where
  "getTemplate lib typeId = (case lib typeId of Some t \<Rightarrow> t | None \<Rightarrow> NodeTemplate_default)"

section \<open>Node (Node.cpp)\<close>

definition DEFAULT_WIDTH :: real where "DEFAULT_WIDTH = 120"
definition DEFAULT_HEIGHT :: real where "DEFAULT_HEIGHT = 70"
definition MIN_WIDTH :: real where "MIN_WIDTH = 80"
definition MIN_HEIGHT :: real where "MIN_HEIGHT = 50"
definition MAX_WIDTH :: real where "MAX_WIDTH = 300"
definition MAX_HEIGHT :: real where "MAX_HEIGHT = 200"

text \<open>\<open>qBound(min, val, max)\<close> of QtGlobal is \<open>qMax(min, qMin(max, val))\<close>.\<close>

definition qBound :: "real \<Rightarrow> real \<Rightarrow> real \<Rightarrow> real" where
  "qBound lo v hi = max lo (min hi v)"

text \<open>\<open>Node::Node(type, name, position)\<close>.\<close>

definition Node_new :: "NodeLibrary \<Rightarrow> string \<Rightarrow> string \<Rightarrow> QPointF \<Rightarrow> Node" where
  "Node_new lib type name position =
     (let n = \<lparr>m_type = type, m_name = name, pos = position,
                m_customColor = ''#a0a0a4'', m_useCustomColor = False,
                m_displayTypeName = [], m_inputPortCount = 1, m_outputPortCount = 1,
                m_width = DEFAULT_WIDTH, m_height = DEFAULT_HEIGHT,
                m_parameters = [], m_connections = [], m_group = None\<rparr>;
          tmpl = getTemplate lib type
      in if isValid tmpl
         then n\<lparr>m_customColor := t_color tmpl, m_useCustomColor := True,
                m_displayTypeName := t_displayName tmpl,
                m_inputPortCount := t_inputPortCount tmpl,
                m_outputPortCount := t_outputPortCount tmpl\<rparr>
         else n)"

text \<open>\<open>Node::setType\<close>: a changed type copies the colour, name and port counts of a valid template.\<close>

definition setType :: "NodeLibrary \<Rightarrow> string \<Rightarrow> Node \<Rightarrow> Node" where
  "setType lib type n =
     (if m_type n \<noteq> type
      then (let n1 = n\<lparr>m_type := type\<rparr>; tmpl = getTemplate lib type
            in if isValid tmpl
               then n1\<lparr>m_customColor := t_color tmpl, m_useCustomColor := True,
                       m_displayTypeName := t_displayName tmpl,
                       m_inputPortCount := t_inputPortCount tmpl,
                       m_outputPortCount := t_outputPortCount tmpl\<rparr>
               else n1)
      else n)"

definition setName :: "string \<Rightarrow> Node \<Rightarrow> Node" where
  "setName name n = (if m_name n \<noteq> name then n\<lparr>m_name := name\<rparr> else n)"

definition setParameters :: "string list \<Rightarrow> Node \<Rightarrow> Node" where
  "setParameters params n = n\<lparr>m_parameters := params\<rparr>"

definition setCustomColor :: "string \<Rightarrow> Node \<Rightarrow> Node" where
  "setCustomColor color n = n\<lparr>m_customColor := color, m_useCustomColor := True\<rparr>"

definition setDisplayTypeName :: "string \<Rightarrow> Node \<Rightarrow> Node" where
  "setDisplayTypeName name n =
     (if m_displayTypeName n \<noteq> name then n\<lparr>m_displayTypeName := name\<rparr> else n)"

text \<open>
  \<open>Node::setInputPortCount\<close> and \<open>Node::setOutputPortCount\<close>. The calls to
  \<open>Connection::updatePath\<close> only recompute the painter path, which is derived from the
  node state and not part of the model.
\<close>

definition setInputPortCount :: "int \<Rightarrow> Node \<Rightarrow> Node" where
  "setInputPortCount cnt n =
     (let newCount = max 0 cnt
      in if m_inputPortCount n \<noteq> newCount then n\<lparr>m_inputPortCount := newCount\<rparr> else n)"

definition setOutputPortCount :: "int \<Rightarrow> Node \<Rightarrow> Node" where
  "setOutputPortCount cnt n =
     (let newCount = max 0 cnt
      in if m_outputPortCount n \<noteq> newCount then n\<lparr>m_outputPortCount := newCount\<rparr> else n)"

text \<open>\<open>Node::setSize\<close>.\<close>

definition setSize :: "real \<Rightarrow> real \<Rightarrow> Node \<Rightarrow> Node" where
  "setSize width height n =
     n\<lparr>m_width := qBound MIN_WIDTH width MAX_WIDTH,
       m_height := qBound MIN_HEIGHT height MAX_HEIGHT\<rparr>"

definition setPos :: "QPointF \<Rightarrow> Node \<Rightarrow> Node" where
  "setPos p n = n\<lparr>pos := p\<rparr>"

definition addConnection :: "ptr \<Rightarrow> Node \<Rightarrow> Node" where
  "addConnection c n = n\<lparr>m_connections := m_connections n @ [c]\<rparr>"

definition removeConnection :: "ptr \<Rightarrow> Node \<Rightarrow> Node" where
  "removeConnection c n = n\<lparr>m_connections := removeAll c (m_connections n)\<rparr>"

subsection \<open>Port geometry\<close>

text \<open>The file-local function \<open>calculatePortYOffset\<close>.\<close>

definition calculatePortYOffset :: "int \<Rightarrow> int \<Rightarrow> real \<Rightarrow> real" where
  "calculatePortYOffset portIndex totalPorts nodeHeight =
     (if totalPorts \<le> 0 then 0
      else if totalPorts = 1 then 0
      else (let usableHeight = nodeHeight * 0.8;
                startY = - usableHeight / 2;
                spacing = usableHeight / real_of_int (totalPorts - 1)
            in startY + real_of_int portIndex * spacing))"

text \<open>
  \<open>Node::getInputPortPos(int)\<close> and \<open>Node::getOutputPortPos(int)\<close>. Nodes are top-level
  items of the scene, so \<open>scenePos()\<close> is \<open>pos()\<close>.
\<close>

definition getInputPortPos :: "Node \<Rightarrow> int \<Rightarrow> QPointF" where
  "getInputPortPos n portIndex =
     (if m_inputPortCount n \<le> 0 then padd (pos n) (- m_width n / 2, 0)
      else (let portIndex' = (if portIndex < 0 \<or> portIndex \<ge> m_inputPortCount n
                              then 0 else portIndex);
                yOffset = calculatePortYOffset portIndex' (m_inputPortCount n) (m_height n)
            in padd (pos n) (- m_width n / 2, yOffset)))"

definition getOutputPortPos :: "Node \<Rightarrow> int \<Rightarrow> QPointF" where
  "getOutputPortPos n portIndex =
     (if m_outputPortCount n \<le> 0 then padd (pos n) (m_width n / 2, 0)
      else (let portIndex' = (if portIndex < 0 \<or> portIndex \<ge> m_outputPortCount n
                              then 0 else portIndex);
                yOffset = calculatePortYOffset portIndex' (m_outputPortCount n) (m_height n)
            in padd (pos n) (m_width n / 2, yOffset)))"


subsection \<open>Operations on a node\<close>

text \<open>
  Every member function of \<open>Node\<close> above that changes the node, as one datatype, so that
  a history of a node is a list of operations. The node library is a process-wide
  registry that can change between two operations, so every step carries the library
  it runs with.
\<close>

datatype NodeOp =
    OpSetType string
  | OpSetName string
  | OpSetParameters "string list"
  | OpSetCustomColor string
  | OpSetDisplayTypeName string
  | OpSetInputPortCount int
  | OpSetOutputPortCount int
  | OpSetSize real real
  | OpSetPos QPointF
  | OpAddConnection ptr
  | OpRemoveConnection ptr

fun applyOp :: "NodeLibrary \<times> NodeOp \<Rightarrow> Node \<Rightarrow> Node" where
  "applyOp (lib, OpSetType t) n = setType lib t n"
| "applyOp (lib, OpSetName s) n = setName s n"
| "applyOp (lib, OpSetParameters ps) n = setParameters ps n"
| "applyOp (lib, OpSetCustomColor c) n = setCustomColor c n"
| "applyOp (lib, OpSetDisplayTypeName s) n = setDisplayTypeName s n"
| "applyOp (lib, OpSetInputPortCount c) n = setInputPortCount c n"
| "applyOp (lib, OpSetOutputPortCount c) n = setOutputPortCount c n"
| "applyOp (lib, OpSetSize w h) n = setSize w h n"
| "applyOp (lib, OpSetPos p) n = setPos p n"
| "applyOp (lib, OpAddConnection c) n = addConnection c n"
| "applyOp (lib, OpRemoveConnection c) n = removeConnection c n"

definition applyOps :: "(NodeLibrary \<times> NodeOp) list \<Rightarrow> Node \<Rightarrow> Node" where
  "applyOps ops n = fold applyOp ops n"

text \<open>A library all of whose templates carry non-negative port counts.\<close>

definition templatesNonNegative :: "NodeLibrary \<Rightarrow> bool" where
  "templatesNonNegative lib =
     (\<forall>t \<in> ran lib. 0 \<le> t_inputPortCount t \<and> 0 \<le> t_outputPortCount t)"


subsection \<open>Example nodes\<close>

definition exampleNode :: Node where
  "exampleNode = Node_new Map.empty ''filter'' ''n1'' (10, 20)"

definition exampleNode3 :: Node where
  "exampleNode3 = setOutputPortCount 3 (setInputPortCount 3 exampleNode)"


text \<open>A template as \<open>NodeTemplate::fromJson\<close> builds it from a library file that
  gives \<open>"inputPortCount": -1\<close>: the count is read with \<open>toInt(1)\<close> and stored as it is.\<close>

definition negativeTemplate :: NodeTemplate where
  "negativeTemplate =
     \<lparr>t_typeId = ''sink'', t_displayName = ''Sink'', t_color = ''#808080'',
      t_inputPortCount = - 1, t_outputPortCount = 1\<rparr>"

definition negativeLibrary :: NodeLibrary where
  "negativeLibrary = [''sink'' \<mapsto> negativeTemplate]"

definition filterTemplate :: NodeTemplate where
  "filterTemplate =
     \<lparr>t_typeId = ''filter'', t_displayName = ''Filter'', t_color = ''#339af0'',
      t_inputPortCount = 2, t_outputPortCount = 1\<rparr>"

definition filterLibrary :: NodeLibrary where
  "filterLibrary = [''filter'' \<mapsto> filterTemplate]"


section \<open>Strings of numbers\<close>

text \<open>\<open>QString::number\<close> and \<open>QString::arg(int)\<close>: the decimal digits of a number.\<close>

definition digitChar :: "nat \<Rightarrow> char" where
  "digitChar d = ''0123456789'' ! d"

fun showNat :: "nat \<Rightarrow> string" where
  "showNat n = (if n < 10 then [digitChar n] else showNat (n div 10) @ [digitChar (n mod 10)])"

definition showInt :: "int \<Rightarrow> string" where
  "showInt i = (if i < 0 then CHR ''-'' # showNat (nat (- i)) else showNat (nat i))"

section \<open>GroupNode (GroupNode.cpp)\<close>

text \<open>The object heaps: every \<open>Node*\<close> and \<open>Connection*\<close> is looked up there.\<close>

type_synonym NodeHeap = "ptr \<Rightarrow> Node"
type_synonym ConnectionHeap = "ptr \<Rightarrow> Connection"

text \<open>\<open>GroupNode::GroupNode(name, position)\<close>: a node of type \<open>group\<close>, level 1, with
  the colour \<open>QColor(100, 149, 237)\<close> and the display type name of a group (the UTF-8
  bytes of the source's literal).\<close>

definition groupDisplayTypeName :: string where
  "groupDisplayTypeName =
     [CHR 0xE7, CHR 0xBB, CHR 0x84, CHR 0xE5, CHR 0x90, CHR 0x88,
      CHR 0xE8, CHR 0x8A, CHR 0x82, CHR 0xE7, CHR 0x82, CHR 0xB9]"

definition GroupData_empty :: GroupData where
  "GroupData_empty =
     \<lparr>m_internalNodes = [], m_internalConnections = [], m_externalConnections = [],
      m_inputPortMappings = [], m_outputPortMappings = [], m_originalPositions = [],
      m_groupLevel = 1\<rparr>"

definition GroupNode_new :: "NodeLibrary \<Rightarrow> string \<Rightarrow> QPointF \<Rightarrow> Node" where
  "GroupNode_new lib name position =
     setDisplayTypeName groupDisplayTypeName
       (setCustomColor ''#6495ed''
          ((Node_new lib ''group'' name position)\<lparr>m_group := Some GroupData_empty\<rparr>))"

text \<open>The setters of \<open>GroupNode\<close>; on an object that is no group node they do not exist
  and the model leaves the node as it is.\<close>

definition mapGroup :: "(GroupData \<Rightarrow> GroupData) \<Rightarrow> Node \<Rightarrow> Node" where
  "mapGroup f g = (case m_group g of None \<Rightarrow> g | Some d \<Rightarrow> g\<lparr>m_group := Some (f d)\<rparr>)"

definition setGroupLevel :: "int \<Rightarrow> Node \<Rightarrow> Node" where
  "setGroupLevel level g =
     (let level1 = (if level < 1 then 1 else level);
          level2 = (if level1 > 99 then 99 else level1)
      in mapGroup (\<lambda>d. d\<lparr>m_groupLevel := level2\<rparr>) g)"

definition setInternalNodes :: "ptr list \<Rightarrow> Node \<Rightarrow> Node" where
  "setInternalNodes ns g = mapGroup (\<lambda>d. d\<lparr>m_internalNodes := ns\<rparr>) g"

definition setInternalConnections :: "ptr list \<Rightarrow> Node \<Rightarrow> Node" where
  "setInternalConnections cs g = mapGroup (\<lambda>d. d\<lparr>m_internalConnections := cs\<rparr>) g"

definition setExternalConnections :: "ExternalConnection list \<Rightarrow> Node \<Rightarrow> Node" where
  "setExternalConnections es g = mapGroup (\<lambda>d. d\<lparr>m_externalConnections := es\<rparr>) g"

definition setOriginalPositions :: "(ptr \<times> QPointF) list \<Rightarrow> Node \<Rightarrow> Node" where
  "setOriginalPositions ps g = mapGroup (\<lambda>d. d\<lparr>m_originalPositions := ps\<rparr>) g"

subsection \<open>calculatePortMappings\<close>

text \<open>
  The source keeps the connected ports in a \<open>QSet<QString>\<close> of keys
  \<open>"<node address>_<port index>_in"\<close> or \<open>"..._out"\<close>. Such a string determines the
  address, the index and the direction, so a key is modelled by the triple of the node,
  the port index and the flag \<open>is an input\<close>, and the set by the list of the keys inserted.
\<close>

type_synonym PortKey = "ptr \<times> int \<times> bool"

definition internalKeys :: "ConnectionHeap \<Rightarrow> ptr list \<Rightarrow> PortKey list" where
  "internalKeys ch cs =
     concat (map (\<lambda>c. [(m_fromNode (ch c), m_fromPortIndex (ch c), False),
                       (m_toNode (ch c), m_toPortIndex (ch c), True)]) cs)"

definition externalKey :: "ExternalConnection \<Rightarrow> PortKey" where
  "externalKey e = (internalNode e, internalPortIndex e, isInput e)"

definition portLabel :: "string \<Rightarrow> int \<Rightarrow> string" where
  "portLabel name i = name @ ''['' @ showInt i @ '']''"

definition externalMapping :: "NodeHeap \<Rightarrow> ExternalConnection \<Rightarrow> PortMapping" where
  "externalMapping nh e =
     \<lparr>pm_internalNode = internalNode e, pm_internalPortIndex = internalPortIndex e,
      pm_isInput = isInput e,
      pm_portLabel = portLabel (m_name (nh (internalNode e))) (internalPortIndex e)\<rparr>"

definition danglingMapping :: "NodeHeap \<Rightarrow> ptr \<Rightarrow> bool \<Rightarrow> int \<Rightarrow> PortMapping" where
  "danglingMapping nh n inp i =
     \<lparr>pm_internalNode = n, pm_internalPortIndex = i, pm_isInput = inp,
      pm_portLabel = portLabel (m_name (nh n)) i\<rparr>"

text \<open>The ports \<open>0 .. count - 1\<close> of a node in one direction whose key is not in the set.\<close>

definition danglingPorts :: "PortKey list \<Rightarrow> ptr \<Rightarrow> bool \<Rightarrow> int \<Rightarrow> int list" where
  "danglingPorts connectedPorts n inp cnt =
     filter (\<lambda>i. (n, i, inp) \<notin> set connectedPorts) [0 .. cnt - 1]"

text \<open>
  \<open>GroupNode::calculatePortMappings\<close>, block by block. The key set: the two ends of
  every internal connection, then the internal end of every external connection.
\<close>

definition connectedPortsOf :: "ConnectionHeap \<Rightarrow> GroupData \<Rightarrow> PortKey list" where
  "connectedPortsOf ch d =
     internalKeys ch (m_internalConnections d) @ map externalKey (m_externalConnections d)"

text \<open>
  The two mapping lists are only appended to: first by the loop over the external
  connections (one mapping for each descriptor, into the list of its direction), then by
  the loop over the internal nodes (the dangling input ports of a node into the input
  list, its dangling output ports into the output list). The key set is complete before
  the second loop starts.
\<close>

definition inputMappingsOf :: "NodeHeap \<Rightarrow> ConnectionHeap \<Rightarrow> GroupData \<Rightarrow> PortMapping list" where
  "inputMappingsOf nh ch d =
     map (externalMapping nh) (filter isInput (m_externalConnections d))
       @ concat (map (\<lambda>n. map (danglingMapping nh n True)
                        (danglingPorts (connectedPortsOf ch d) n True (m_inputPortCount (nh n))))
                   (m_internalNodes d))"

definition outputMappingsOf :: "NodeHeap \<Rightarrow> ConnectionHeap \<Rightarrow> GroupData \<Rightarrow> PortMapping list" where
  "outputMappingsOf nh ch d =
     map (externalMapping nh) (filter (\<lambda>e. \<not> isInput e) (m_externalConnections d))
       @ concat (map (\<lambda>n. map (danglingMapping nh n False)
                        (danglingPorts (connectedPortsOf ch d) n False (m_outputPortCount (nh n))))
                   (m_internalNodes d))"

text \<open>The end of the function: the node is grown to the ports it shows.\<close>

definition autoGrow :: "int \<Rightarrow> int \<Rightarrow> Node \<Rightarrow> Node" where
  "autoGrow inputCount outputCount g1 =
     (let maxPorts = max inputCount outputCount;
          minHeight = real_of_int (50 + maxPorts * 20);
          g2 = (if minHeight > m_height g1 then setSize (m_width g1) minHeight g1 else g1);
          minWidth = 150;
          g3 = (if m_width g2 < minWidth then setSize minWidth (m_height g2) g2 else g2)
      in g3)"

definition calcPortMappings :: "NodeHeap \<Rightarrow> ConnectionHeap \<Rightarrow> Node \<Rightarrow> Node" where
  "calcPortMappings nh ch g =
     (case m_group g of
        None \<Rightarrow> g
      | Some d \<Rightarrow>
         (let inputMappings = inputMappingsOf nh ch d;
              outputMappings = outputMappingsOf nh ch d;
              inputCount = max 1 (int (length inputMappings));
              outputCount = max 1 (int (length outputMappings));
              g1 = setOutputPortCount outputCount
                     (setInputPortCount inputCount
                        (g\<lparr>m_group := Some (d\<lparr>m_inputPortMappings := inputMappings,
                                               m_outputPortMappings := outputMappings\<rparr>)\<rparr>))
          in autoGrow inputCount outputCount g1))"

text \<open>What the properties read off a group node.\<close>

definition inputPortMappings :: "Node \<Rightarrow> PortMapping list" where
  "inputPortMappings g = (case m_group g of None \<Rightarrow> [] | Some d \<Rightarrow> m_inputPortMappings d)"

definition outputPortMappings :: "Node \<Rightarrow> PortMapping list" where
  "outputPortMappings g = (case m_group g of None \<Rightarrow> [] | Some d \<Rightarrow> m_outputPortMappings d)"

definition mappedPort :: "PortMapping \<Rightarrow> ptr \<times> int" where
  "mappedPort m = (pm_internalNode m, pm_internalPortIndex m)"


section \<open>Qt containers\<close>

text \<open>
  \<open>QMap<Node*, QPointF>\<close>: \<open>qmapInsert\<close> is \<open>map[key] = v\<close> (insert, or overwrite the
  entry of the key), \<open>qmapSubscript\<close> is the read \<open>map[key]\<close> through the non-const
  \<open>operator[]\<close>, which inserts a default-constructed value, the point \<open>(0, 0)\<close>, when
  the key is absent and returns the map so changed.
\<close>

fun qmapInsert :: "ptr \<Rightarrow> QPointF \<Rightarrow> (ptr \<times> QPointF) list \<Rightarrow> (ptr \<times> QPointF) list" where
  "qmapInsert k v [] = [(k, v)]"
| "qmapInsert k v ((k', v') # r) =
     (if k < k' then (k, v) # (k', v') # r
      else if k = k' then (k, v) # r
      else (k', v') # qmapInsert k v r)"

definition qmapSubscript ::
  "ptr \<Rightarrow> (ptr \<times> QPointF) list \<Rightarrow> QPointF \<times> (ptr \<times> QPointF) list" where
  "qmapSubscript k m =
     (case map_of m k of
        Some v \<Rightarrow> (v, m)
      | None \<Rightarrow> ((0, 0), qmapInsert k (0, 0) m))"

section \<open>JSON values\<close>

text \<open>
  \<open>QJsonValue\<close>. A \<open>QJsonObject\<close> is a list of key and value with one entry per key;
  the code reads an object by key only, so the order of the entries is not observed.
\<close>

datatype QJsonValue =
    JNull
  | JBool bool
  | JDouble real
  | JString string
  | JArray "QJsonValue list"
  | JObject "(string \<times> QJsonValue) list"
  | JUndefined

type_synonym QJsonObject = "(string \<times> QJsonValue) list"

text \<open>\<open>obj[key]\<close> (read), \<open>obj.contains(key)\<close> and \<open>obj[key] = v\<close>.\<close>

definition jget :: "QJsonObject \<Rightarrow> string \<Rightarrow> QJsonValue" where
  "jget obj k = (case map_of obj k of Some v \<Rightarrow> v | None \<Rightarrow> JUndefined)"

definition jcontains :: "QJsonObject \<Rightarrow> string \<Rightarrow> bool" where
  "jcontains obj k = (map_of obj k \<noteq> None)"

fun jset :: "string \<Rightarrow> QJsonValue \<Rightarrow> QJsonObject \<Rightarrow> QJsonObject" where
  "jset k v [] = [(k, v)]"
| "jset k v ((k', v') # r) = (if k = k' then (k, v) # r else (k', v') # jset k v r)"

text \<open>The conversions of \<open>QJsonValue\<close>, each with its default for a value of another type.
  \<open>toInt\<close> gives the default for a number that is not whole.\<close>

definition toString :: "QJsonValue \<Rightarrow> string" where
  "toString v = (case v of JString s \<Rightarrow> s | _ \<Rightarrow> [])"

definition toDouble :: "QJsonValue \<Rightarrow> real" where
  "toDouble v = (case v of JDouble d \<Rightarrow> d | _ \<Rightarrow> 0)"

definition toInt :: "QJsonValue \<Rightarrow> int \<Rightarrow> int" where
  "toInt v dflt =
     (case v of JDouble d \<Rightarrow> (if real_of_int \<lfloor>d\<rfloor> = d then \<lfloor>d\<rfloor> else dflt) | _ \<Rightarrow> dflt)"

definition toBool :: "QJsonValue \<Rightarrow> bool \<Rightarrow> bool" where
  "toBool v dflt = (case v of JBool b \<Rightarrow> b | _ \<Rightarrow> dflt)"

definition toArray :: "QJsonValue \<Rightarrow> QJsonValue list" where
  "toArray v = (case v of JArray xs \<Rightarrow> xs | _ \<Rightarrow> [])"

definition toObject :: "QJsonValue \<Rightarrow> QJsonObject" where
  "toObject v = (case v of JObject kvs \<Rightarrow> kvs | _ \<Rightarrow> [])"

definition isObject :: "QJsonValue \<Rightarrow> bool" where
  "isObject v = (case v of JObject kvs \<Rightarrow> True | _ \<Rightarrow> False)"

definition lineTypeOfInt :: "int \<Rightarrow> LineType" where
  "lineTypeOfInt i = (if i = 1 then Straight else if i = 2 then Orthogonal else Bezier)"

definition intOfLineType :: "LineType \<Rightarrow> int" where
  "intOfLineType t = (case t of Bezier \<Rightarrow> 0 | Straight \<Rightarrow> 1 | Orthogonal \<Rightarrow> 2)"


section \<open>Undo commands: their members (UndoCommands.h)\<close>

text \<open>
  The members of each command class, without the scene pointer. A pointer member that
  is \<open>nullptr\<close> until the first \<open>redo\<close> holds \<open>0\<close> until then. The JSON snapshots a
  \<open>DeleteCommand\<close> takes in its constructor are never read and are left out.
\<close>

record AddNodeCommand =
  an_type :: string
  an_pos :: QPointF
  an_node :: ptr
  an_ownsNode :: bool

record DeleteCommand =
  dc_deletedNodes :: "ptr list"
  dc_deletedConnections :: "ptr list"
  dc_ownsItems :: bool

record MoveNodeCommand =
  mv_node :: ptr
  mv_oldPos :: QPointF
  mv_newPos :: QPointF

record MoveNodesCommand =
  mvs_nodes :: "ptr list"
  mvs_oldPositions :: "QPointF list"
  mvs_newPositions :: "QPointF list"

record AddConnectionCommand =
  ac_fromNode :: ptr
  ac_toNode :: ptr
  ac_fromPort :: int
  ac_toPort :: int
  ac_connection :: ptr
  ac_ownsConnection :: bool

record PasteCommand =
  pc_clipboardData :: QJsonObject
  pc_offset :: QPointF
  pc_pastedNodes :: "ptr list"
  pc_pastedConnections :: "ptr list"
  pc_ownsItems :: bool

record GroupNodesCommand =
  gc_nodes :: "ptr list"
  gc_internalConnections :: "ptr list"
  gc_externalConnections :: "ExternalConnection list"
  gc_externalConnectionPtrs :: "ptr list"
  gc_originalPositions :: "(ptr \<times> QPointF) list"
  gc_groupNode :: ptr
  gc_newExternalConnections :: "ptr list"
  gc_firstRedo :: bool

record UngroupNodesCommand =
  uc_groupNode :: ptr
  uc_internalNodes :: "ptr list"
  uc_internalConnections :: "ptr list"
  uc_externalConnections :: "ExternalConnection list"
  uc_groupExternalConnections :: "ptr list"
  uc_originalPositions :: "(ptr \<times> QPointF) list"
  uc_firstRedo :: bool

datatype QUndoCommand =
    AddNode AddNodeCommand
  | Delete DeleteCommand
  | MoveNode MoveNodeCommand
  | MoveNodes MoveNodesCommand
  | AddConnection AddConnectionCommand
  | Paste PasteCommand
  | GroupNodes GroupNodesCommand
  | UngroupNodes UngroupNodesCommand

text \<open>
  \<open>QUndoStack\<close> (Qt): the list of commands and the index of the next command to redo;
  the commands before the index are the ones that can be undone.
\<close>

record QUndoStack =
  command_list :: "QUndoCommand list"
  index :: nat

section \<open>NodeScene (NodeScene.cpp)\<close>

text \<open>
  The state of the editor: the object heaps with the next free address, the members
  \<open>m_nodes\<close>, \<open>m_connections\<close>, \<open>m_clipboard\<close> and \<open>m_undoStack\<close> of the scene, and the
  process-wide state the scene's code reads: the node library singleton and the
  function-local static counters \<open>nodeCount\<close> (of \<open>createNode\<close>) and \<open>pasteCount\<close>
  (of \<open>PasteCommand::redo\<close>). The scene's member \<open>m_connections\<close> is called
  \<open>m_sceneConnections\<close> here since a node has a member of that name too. The item set of
  the underlying \<open>QGraphicsScene\<close> holds the same objects as the two lists and is not
  modelled apart.
\<close>

record NodeScene =
  nodeHeap :: NodeHeap
  connectionHeap :: ConnectionHeap
  nextPtr :: ptr
  m_nodes :: "ptr list"
  m_sceneConnections :: "ptr list"
  m_clipboard :: QJsonObject
  m_undoStack :: QUndoStack
  nodeLibrary :: NodeLibrary
  nodeCount :: nat
  pasteCount :: nat

definition updNode :: "ptr \<Rightarrow> (Node \<Rightarrow> Node) \<Rightarrow> NodeScene \<Rightarrow> NodeScene" where
  "updNode p f s = s\<lparr>nodeHeap := (nodeHeap s)(p := f (nodeHeap s p))\<rparr>"

text \<open>A call through a pointer that the source guards with \<open>if (p)\<close>.\<close>

definition updNodeIfNotNull :: "ptr \<Rightarrow> (Node \<Rightarrow> Node) \<Rightarrow> NodeScene \<Rightarrow> NodeScene" where
  "updNodeIfNotNull p f s = (if p \<noteq> nullptr then updNode p f s else s)"

text \<open>\<open>new Node(...)\<close> and \<open>new GroupNode(...)\<close>: the object gets the next free address.\<close>

definition newNode :: "Node \<Rightarrow> NodeScene \<Rightarrow> ptr \<times> NodeScene" where
  "newNode n s =
     (nextPtr s, s\<lparr>nodeHeap := (nodeHeap s)(nextPtr s := n), nextPtr := Suc (nextPtr s)\<rparr>)"

text \<open>\<open>new Connection(fromNode, fromPort, toNode, toPort)\<close> with \<open>initConnection\<close>: the
  connection registers itself with both of its nodes.\<close>

definition Connection_new :: "ptr \<Rightarrow> int \<Rightarrow> ptr \<Rightarrow> int \<Rightarrow> NodeScene \<Rightarrow> ptr \<times> NodeScene" where
  "Connection_new fromNode fromPortIndex toNode toPortIndex s =
     (let c = nextPtr s;
          s1 = s\<lparr>connectionHeap := (connectionHeap s)(c :=
                    \<lparr>m_fromNode = fromNode, m_toNode = toNode,
                     m_fromPortIndex = fromPortIndex, m_toPortIndex = toPortIndex,
                     m_lineType = Bezier\<rparr>),
                  nextPtr := Suc (nextPtr s)\<rparr>;
          s2 = updNodeIfNotNull fromNode (addConnection c) s1;
          s3 = updNodeIfNotNull toNode (addConnection c) s2
      in (c, s3))"

definition setLineType :: "ptr \<Rightarrow> LineType \<Rightarrow> NodeScene \<Rightarrow> NodeScene" where
  "setLineType c t s =
     s\<lparr>connectionHeap := (connectionHeap s)(c := (connectionHeap s c)\<lparr>m_lineType := t\<rparr>)\<rparr>"

text \<open>The name \<open>createNode\<close> gives a node: the UTF-8 bytes of the source's literal
  followed by the counter.\<close>

definition nodeNamePrefix :: string where
  "nodeNamePrefix = [CHR 0xE8, CHR 0x8A, CHR 0x82, CHR 0xE7, CHR 0x82, CHR 0xB9]"

definition createNode :: "string \<Rightarrow> QPointF \<Rightarrow> NodeScene \<Rightarrow> ptr \<times> NodeScene" where
  "createNode type position s =
     (let name = nodeNamePrefix @ showNat (nodeCount s);
          s1 = s\<lparr>nodeCount := Suc (nodeCount s)\<rparr>;
          (node, s2) = newNode (Node_new (nodeLibrary s1) type name position) s1
      in (node, s2\<lparr>m_nodes := m_nodes s2 @ [node]\<rparr>))"

definition removeNodeFromScene :: "ptr \<Rightarrow> NodeScene \<Rightarrow> NodeScene" where
  "removeNodeFromScene node s = s\<lparr>m_nodes := removeAll node (m_nodes s)\<rparr>"

definition restoreNodeToScene :: "ptr \<Rightarrow> NodeScene \<Rightarrow> NodeScene" where
  "restoreNodeToScene node s = s\<lparr>m_nodes := m_nodes s @ [node]\<rparr>"

definition createConnection :: "ptr \<Rightarrow> int \<Rightarrow> ptr \<Rightarrow> int \<Rightarrow> NodeScene \<Rightarrow> ptr \<times> NodeScene" where
  "createConnection fromNode fromPort toNode toPort s =
     (let (connection, s1) = Connection_new fromNode fromPort toNode toPort s
      in (connection, s1\<lparr>m_sceneConnections := m_sceneConnections s1 @ [connection]\<rparr>))"

definition removeConnectionFromScene :: "ptr \<Rightarrow> NodeScene \<Rightarrow> NodeScene" where
  "removeConnectionFromScene conn s =
     (let s1 = updNodeIfNotNull (m_fromNode (connectionHeap s conn)) (removeConnection conn) s;
          s2 = updNodeIfNotNull (m_toNode (connectionHeap s1 conn)) (removeConnection conn) s1
      in s2\<lparr>m_sceneConnections := removeAll conn (m_sceneConnections s2)\<rparr>)"

definition restoreConnectionToScene :: "ptr \<Rightarrow> NodeScene \<Rightarrow> NodeScene" where
  "restoreConnectionToScene conn s =
     (let s1 = updNodeIfNotNull (m_fromNode (connectionHeap s conn)) (addConnection conn) s;
          s2 = updNodeIfNotNull (m_toNode (connectionHeap s1 conn)) (addConnection conn) s1
      in s2\<lparr>m_sceneConnections := m_sceneConnections s2 @ [conn]\<rparr>)"

text \<open>\<open>NodeScene::validateFlow\<close>.\<close>

definition validateFlow :: "NodeScene \<Rightarrow> bool" where
  "validateFlow s =
     list_all (\<lambda>conn. m_fromNode (connectionHeap s conn) \<in> set (m_nodes s)
                     \<and> m_toNode (connectionHeap s conn) \<in> set (m_nodes s))
       (m_sceneConnections s)"

text \<open>A loop \<open>for (X *x : xs) f(x);\<close> over a list of pointers.\<close>

definition forEach :: "('a \<Rightarrow> NodeScene \<Rightarrow> NodeScene) \<Rightarrow> 'a list \<Rightarrow> NodeScene \<Rightarrow> NodeScene" where
  "forEach f xs s = fold f xs s"


section \<open>Serialisation of a node (Node.cpp)\<close>

text \<open>\<open>Node::toJson\<close>; the id is the decimal address of the object. The function is not
  virtual, so a group node reached through a \<open>Node*\<close> is written by it as well.\<close>

definition Node_toJson :: "ptr \<Rightarrow> Node \<Rightarrow> QJsonObject" where
  "Node_toJson this n =
     (let json = [(''id'', JString (showNat this)),
                  (''type'', JString (m_type n)),
                  (''name'', JString (m_name n)),
                  (''x'', JDouble (fst (pos n))),
                  (''y'', JDouble (snd (pos n))),
                  (''parameters'', JArray (map JString (m_parameters n)))];
          json1 = (if m_useCustomColor n then jset ''customColor'' (JString (m_customColor n)) json
                   else json);
          json2 = (if m_displayTypeName n \<noteq> []
                   then jset ''displayTypeName'' (JString (m_displayTypeName n)) json1 else json1);
          json3 = jset ''inputPortCount'' (JDouble (real_of_int (m_inputPortCount n))) json2;
          json4 = jset ''outputPortCount'' (JDouble (real_of_int (m_outputPortCount n))) json3;
          json5 = jset ''width'' (JDouble (m_width n)) json4;
          json6 = jset ''height'' (JDouble (m_height n)) json5
      in json6)"

text \<open>\<open>Node::fromJson\<close>: the node object it builds (the caller's \<open>new\<close> places it). A colour
  is kept by its name.\<close>

definition Node_fromJson :: "NodeLibrary \<Rightarrow> QJsonObject \<Rightarrow> Node" where
  "Node_fromJson lib json =
     (let type = toString (jget json ''type'');
          name = toString (jget json ''name'');
          (x, y) = (if jcontains json ''position'' \<and> isObject (jget json ''position'')
                    then (let posObj = toObject (jget json ''position'')
                          in (toDouble (jget posObj ''x''), toDouble (jget posObj ''y'')))
                    else (toDouble (jget json ''x''), toDouble (jget json ''y'')));
          node = Node_new lib type name (x, y);
          node1 = setParameters (map toString (toArray (jget json ''parameters''))) node;
          node2 = (if jcontains json ''customColor''
                   then setCustomColor (toString (jget json ''customColor'')) node1 else node1);
          node3 = (if jcontains json ''displayTypeName''
                   then setDisplayTypeName (toString (jget json ''displayTypeName'')) node2
                   else node2);
          node4 = (if jcontains json ''inputPortCount''
                   then setInputPortCount (toInt (jget json ''inputPortCount'') 0) node3 else node3);
          node5 = (if jcontains json ''outputPortCount''
                   then setOutputPortCount (toInt (jget json ''outputPortCount'') 0) node4
                   else node4);
          node6 = (if jcontains json ''width'' \<and> jcontains json ''height''
                   then setSize (toDouble (jget json ''width'')) (toDouble (jget json ''height'')) node5
                   else node5)
      in node6)"

text \<open>\<open>Connection::toJson\<close>: the two nodes by their decimal address.\<close>

definition Connection_toJson :: "Connection \<Rightarrow> QJsonObject" where
  "Connection_toJson c =
     [(''fromNode'', JString (showNat (m_fromNode c))),
      (''toNode'', JString (showNat (m_toNode c))),
      (''fromPortIndex'', JDouble (real_of_int (m_fromPortIndex c))),
      (''toPortIndex'', JDouble (real_of_int (m_toPortIndex c))),
      (''lineType'', JDouble (real_of_int (intOfLineType (m_lineType c))))]"

section \<open>Undo commands: undo and redo (UndoCommands.cpp)\<close>

subsection \<open>AddNodeCommand\<close>

definition AddNodeCommand_undo :: "AddNodeCommand \<Rightarrow> NodeScene \<Rightarrow> AddNodeCommand \<times> NodeScene" where
  "AddNodeCommand_undo c s =
     (if an_node c \<noteq> nullptr
      then (c\<lparr>an_ownsNode := True\<rparr>, removeNodeFromScene (an_node c) s)
      else (c, s))"

definition AddNodeCommand_redo :: "AddNodeCommand \<Rightarrow> NodeScene \<Rightarrow> AddNodeCommand \<times> NodeScene" where
  "AddNodeCommand_redo c s =
     (if an_node c = nullptr
      then (let (node, s1) = createNode (an_type c) (an_pos c) s
            in (c\<lparr>an_node := node, an_ownsNode := False\<rparr>, s1))
      else (c\<lparr>an_ownsNode := False\<rparr>, restoreNodeToScene (an_node c) s))"

subsection \<open>DeleteCommand\<close>

definition DeleteCommand_undo :: "DeleteCommand \<Rightarrow> NodeScene \<Rightarrow> DeleteCommand \<times> NodeScene" where
  "DeleteCommand_undo c s =
     (let s1 = forEach restoreNodeToScene (dc_deletedNodes c) s;
          s2 = forEach restoreConnectionToScene (dc_deletedConnections c) s1
      in (c\<lparr>dc_ownsItems := False\<rparr>, s2))"

definition DeleteCommand_redo :: "DeleteCommand \<Rightarrow> NodeScene \<Rightarrow> DeleteCommand \<times> NodeScene" where
  "DeleteCommand_redo c s =
     (let s1 = forEach removeConnectionFromScene (dc_deletedConnections c) s;
          s2 = forEach removeNodeFromScene (dc_deletedNodes c) s1
      in (c\<lparr>dc_ownsItems := True\<rparr>, s2))"

subsection \<open>MoveNodeCommand\<close>

definition MoveNodeCommand_undo :: "MoveNodeCommand \<Rightarrow> NodeScene \<Rightarrow> MoveNodeCommand \<times> NodeScene" where
  "MoveNodeCommand_undo c s = (c, updNode (mv_node c) (setPos (mv_oldPos c)) s)"

definition MoveNodeCommand_redo :: "MoveNodeCommand \<Rightarrow> NodeScene \<Rightarrow> MoveNodeCommand \<times> NodeScene" where
  "MoveNodeCommand_redo c s = (c, updNode (mv_node c) (setPos (mv_newPos c)) s)"

subsection \<open>MoveNodesCommand\<close>

text \<open>The three lists of the command have one length; the loop runs over the indices
  of \<open>m_nodes\<close>.\<close>

definition MoveNodesCommand_undo :: "MoveNodesCommand \<Rightarrow> NodeScene \<Rightarrow> MoveNodesCommand \<times> NodeScene" where
  "MoveNodesCommand_undo c s =
     (c, forEach (\<lambda>(n, p). updNode n (setPos p)) (zip (mvs_nodes c) (mvs_oldPositions c)) s)"

definition MoveNodesCommand_redo :: "MoveNodesCommand \<Rightarrow> NodeScene \<Rightarrow> MoveNodesCommand \<times> NodeScene" where
  "MoveNodesCommand_redo c s =
     (c, forEach (\<lambda>(n, p). updNode n (setPos p)) (zip (mvs_nodes c) (mvs_newPositions c)) s)"

subsection \<open>AddConnectionCommand\<close>

definition AddConnectionCommand_undo ::
  "AddConnectionCommand \<Rightarrow> NodeScene \<Rightarrow> AddConnectionCommand \<times> NodeScene" where
  "AddConnectionCommand_undo c s =
     (if ac_connection c \<noteq> nullptr
      then (c\<lparr>ac_ownsConnection := True\<rparr>, removeConnectionFromScene (ac_connection c) s)
      else (c, s))"

definition AddConnectionCommand_redo ::
  "AddConnectionCommand \<Rightarrow> NodeScene \<Rightarrow> AddConnectionCommand \<times> NodeScene" where
  "AddConnectionCommand_redo c s =
     (if ac_connection c = nullptr
      then (let (conn, s1) = createConnection (ac_fromNode c) (ac_fromPort c)
                               (ac_toNode c) (ac_toPort c) s
            in (c\<lparr>ac_connection := conn, ac_ownsConnection := False\<rparr>, s1))
      else (c\<lparr>ac_ownsConnection := False\<rparr>, restoreConnectionToScene (ac_connection c) s))"

subsection \<open>PasteCommand\<close>

definition copySuffix :: "nat \<Rightarrow> string" where
  "copySuffix k =
     [CHR 0x20, CHR 0x28, CHR 0xE5, CHR 0x89, CHR 0xAF, CHR 0xE6, CHR 0x9C, CHR 0xAC]
       @ showNat k @ '')''"

text \<open>The first loop of the first \<open>redo\<close>: one new node for each entry of the clipboard.
  The state of the loop is the map from copy id to new node (a later entry for an id hides
  an earlier one), the list of pasted nodes and the scene.\<close>

definition pasteNode ::
  "QPointF \<Rightarrow> QJsonValue \<Rightarrow> (string \<times> ptr) list \<times> ptr list \<times> NodeScene
     \<Rightarrow> (string \<times> ptr) list \<times> ptr list \<times> NodeScene" where
  "pasteNode offset nodeValue st =
     (let (newNodeMap, pastedNodes, s) = st;
          nodeObj = toObject nodeValue;
          copyId = toString (jget nodeObj ''copyId'');
          n0 = Node_fromJson (nodeLibrary s) nodeObj;
          newX = toDouble (jget nodeObj ''relX'') + fst offset;
          newY = toDouble (jget nodeObj ''relY'') + snd offset;
          n1 = setPos (newX, newY) n0;
          n2 = setName (m_name n1 @ copySuffix (pasteCount s)) n1;
          (node, s1) = newNode n2 s;
          s2 = s1\<lparr>m_nodes := m_nodes s1 @ [node]\<rparr>
      in ((copyId, node) # newNodeMap, pastedNodes @ [node], s2))"

text \<open>The second loop: a connection for each entry both of whose copy ids are known
  (\<open>QMap::value\<close> gives \<open>nullptr\<close> for an unknown id).\<close>

definition lookupNode :: "(string \<times> ptr) list \<Rightarrow> string \<Rightarrow> ptr" where
  "lookupNode m k = (case map_of m k of Some n \<Rightarrow> n | None \<Rightarrow> nullptr)"

definition pasteConnection ::
  "(string \<times> ptr) list \<Rightarrow> QJsonValue \<Rightarrow> ptr list \<times> NodeScene \<Rightarrow> ptr list \<times> NodeScene" where
  "pasteConnection newNodeMap connValue st =
     (let (pastedConnections, s) = st;
          connObj = toObject connValue;
          fromNode = lookupNode newNodeMap (toString (jget connObj ''fromCopyId''));
          toNode = lookupNode newNodeMap (toString (jget connObj ''toCopyId''))
      in if fromNode \<noteq> nullptr \<and> toNode \<noteq> nullptr
         then (let fromPort = toInt (jget connObj ''fromPort'') 0;
                   toPort = toInt (jget connObj ''toPort'') 0;
                   (newConn, s1) = Connection_new fromNode fromPort toNode toPort s;
                   s2 = (if jcontains connObj ''lineType''
                         then setLineType newConn (lineTypeOfInt (toInt (jget connObj ''lineType'') 0)) s1
                         else s1);
                   s3 = s2\<lparr>m_sceneConnections := m_sceneConnections s2 @ [newConn]\<rparr>
               in (pastedConnections @ [newConn], s3))
         else (pastedConnections, s))"

definition PasteCommand_undo :: "PasteCommand \<Rightarrow> NodeScene \<Rightarrow> PasteCommand \<times> NodeScene" where
  "PasteCommand_undo c s =
     (let s1 = forEach removeConnectionFromScene (pc_pastedConnections c) s;
          s2 = forEach removeNodeFromScene (pc_pastedNodes c) s1
      in (c\<lparr>pc_ownsItems := True\<rparr>, s2))"

definition PasteCommand_redo :: "PasteCommand \<Rightarrow> NodeScene \<Rightarrow> PasteCommand \<times> NodeScene" where
  "PasteCommand_redo c s =
     (if pc_pastedNodes c = []
      then (let nodesArray = toArray (jget (pc_clipboardData c) ''nodes'');
                (newNodeMap, pastedNodes, s1) =
                   fold (pasteNode (pc_offset c)) nodesArray ([], pc_pastedNodes c, s);
                s2 = s1\<lparr>pasteCount := Suc (pasteCount s1)\<rparr>;
                connectionsArray = toArray (jget (pc_clipboardData c) ''connections'');
                (pastedConnections, s3) =
                   fold (pasteConnection newNodeMap) connectionsArray (pc_pastedConnections c, s2)
            in (c\<lparr>pc_pastedNodes := pastedNodes, pc_pastedConnections := pastedConnections,
                   pc_ownsItems := False\<rparr>, s3))
      else (let s1 = forEach restoreNodeToScene (pc_pastedNodes c) s;
                s2 = forEach restoreConnectionToScene (pc_pastedConnections c) s1
            in (c\<lparr>pc_ownsItems := False\<rparr>, s2)))"


subsection \<open>GroupNodesCommand\<close>

text \<open>The name every group node gets: the UTF-8 bytes of the source's literal.\<close>

definition groupName :: string where
  "groupName = [CHR 0xE7, CHR 0xBB, CHR 0x84, CHR 0xE5, CHR 0x90, CHR 0x88]"

text \<open>The constructor: it records the position of every node and the original
  connection of every external connection.\<close>

definition GroupNodesCommand_new ::
  "ptr list \<Rightarrow> ptr list \<Rightarrow> ExternalConnection list \<Rightarrow> NodeScene \<Rightarrow> GroupNodesCommand" where
  "GroupNodesCommand_new nodes internalConnections externalConnections s =
     \<lparr>gc_nodes = nodes,
      gc_internalConnections = internalConnections,
      gc_externalConnections = externalConnections,
      gc_externalConnectionPtrs = map originalConnection externalConnections,
      gc_originalPositions = fold (\<lambda>node m. qmapInsert node (pos (nodeHeap s node)) m) nodes [],
      gc_groupNode = nullptr,
      gc_newExternalConnections = [],
      gc_firstRedo = True\<rparr>"

text \<open>\<open>undo\<close>: the read \<open>m_originalPositions[node]\<close> goes through the non-const
  \<open>operator[]\<close> of the map.\<close>

definition restoreOriginalNode ::
  "ptr \<Rightarrow> (ptr \<times> QPointF) list \<times> NodeScene \<Rightarrow> (ptr \<times> QPointF) list \<times> NodeScene" where
  "restoreOriginalNode node st =
     (let (positions, s) = st;
          (p, positions1) = qmapSubscript node positions;
          s1 = updNode node (setPos p) s
      in (positions1, restoreNodeToScene node s1))"

definition GroupNodesCommand_undo ::
  "GroupNodesCommand \<Rightarrow> NodeScene \<Rightarrow> GroupNodesCommand \<times> NodeScene" where
  "GroupNodesCommand_undo c s =
     (if gc_groupNode c = nullptr then (c, s)
      else (let s1 = forEach removeConnectionFromScene (gc_newExternalConnections c) s;
                s2 = removeNodeFromScene (gc_groupNode c) s1;
                (positions, s3) = fold restoreOriginalNode (gc_nodes c) (gc_originalPositions c, s2);
                s4 = forEach restoreConnectionToScene (gc_internalConnections c) s3;
                s5 = forEach restoreConnectionToScene (gc_externalConnectionPtrs c) s4
            in (c\<lparr>gc_originalPositions := positions\<rparr>, s5)))"

text \<open>The search of the first \<open>redo\<close> for the group port of an external connection: the
  index of the first mapping with the internal node and port, 0 when there is none.\<close>

fun findGroupPort :: "PortMapping list \<Rightarrow> ptr \<Rightarrow> int \<Rightarrow> int \<Rightarrow> int" where
  "findGroupPort [] n i j = 0"
| "findGroupPort (m # ms) n i j =
     (if pm_internalNode m = n \<and> pm_internalPortIndex m = i then j
      else findGroupPort ms n i (j + 1))"

text \<open>One round of the loop that connects the group node to the outside.\<close>

definition connectGroup ::
  "ptr \<Rightarrow> PortMapping list \<Rightarrow> PortMapping list \<Rightarrow> ExternalConnection
     \<Rightarrow> ptr list \<times> NodeScene \<Rightarrow> ptr list \<times> NodeScene" where
  "connectGroup groupNode inputMappings outputMappings ext st =
     (let (newExternalConnections, s) = st;
          (newConn, s1) =
            (if isInput ext
             then Connection_new (externalNode ext) (externalPortIndex ext) groupNode
                    (findGroupPort inputMappings (internalNode ext) (internalPortIndex ext) 0) s
             else Connection_new groupNode
                    (findGroupPort outputMappings (internalNode ext) (internalPortIndex ext) 0)
                    (externalNode ext) (externalPortIndex ext) s);
          s2 = s1\<lparr>m_sceneConnections := m_sceneConnections s1 @ [newConn]\<rparr>
      in (newExternalConnections @ [newConn], s2))"

definition centerOf :: "QPointF list \<Rightarrow> QPointF" where
  "centerOf ps = pdiv (fold (\<lambda>p center. padd center p) ps (0, 0)) (real (length ps))"

definition GroupNodesCommand_redo ::
  "GroupNodesCommand \<Rightarrow> NodeScene \<Rightarrow> GroupNodesCommand \<times> NodeScene" where
  "GroupNodesCommand_redo c s =
     (if gc_firstRedo c
      then (let center = centerOf (map (\<lambda>node. pos (nodeHeap s node)) (gc_nodes c));
                g0 = GroupNode_new (nodeLibrary s) groupName center;
                g1 = setInternalNodes (gc_nodes c) g0;
                g2 = setInternalConnections (gc_internalConnections c) g1;
                g3 = setExternalConnections (gc_externalConnections c) g2;
                g4 = setOriginalPositions (gc_originalPositions c) g3;
                g5 = calcPortMappings (nodeHeap s) (connectionHeap s) g4;
                (groupNode, s1) = newNode g5 s;
                s2 = forEach removeConnectionFromScene (gc_externalConnectionPtrs c) s1;
                s3 = forEach removeConnectionFromScene (gc_internalConnections c) s2;
                s4 = forEach removeNodeFromScene (gc_nodes c) s3;
                s5 = s4\<lparr>m_nodes := m_nodes s4 @ [groupNode]\<rparr>;
                inputMappings = inputPortMappings (nodeHeap s5 groupNode);
                outputMappings = outputPortMappings (nodeHeap s5 groupNode);
                (newExternalConnections, s6) =
                   fold (connectGroup groupNode inputMappings outputMappings)
                     (gc_externalConnections c) (gc_newExternalConnections c, s5)
            in (c\<lparr>gc_firstRedo := False, gc_groupNode := groupNode,
                   gc_newExternalConnections := newExternalConnections\<rparr>, s6))
      else (let s1 = forEach removeConnectionFromScene (gc_externalConnectionPtrs c) s;
                s2 = forEach removeConnectionFromScene (gc_internalConnections c) s1;
                s3 = forEach removeNodeFromScene (gc_nodes c) s2;
                s4 = restoreNodeToScene (gc_groupNode c) s3;
                s5 = forEach restoreConnectionToScene (gc_newExternalConnections c) s4
            in (c, s5)))"

subsection \<open>UngroupNodesCommand\<close>

text \<open>The constructor reads the group node.\<close>

definition groupDataOf :: "Node \<Rightarrow> GroupData" where
  "groupDataOf g = (case m_group g of Some d \<Rightarrow> d | None \<Rightarrow> GroupData_empty)"

definition UngroupNodesCommand_new :: "ptr \<Rightarrow> NodeScene \<Rightarrow> UngroupNodesCommand" where
  "UngroupNodesCommand_new groupNode s =
     (let d = groupDataOf (nodeHeap s groupNode)
      in \<lparr>uc_groupNode = groupNode,
          uc_internalNodes = m_internalNodes d,
          uc_internalConnections = m_internalConnections d,
          uc_externalConnections = m_externalConnections d,
          uc_groupExternalConnections = m_connections (nodeHeap s groupNode),
          uc_originalPositions = m_originalPositions d,
          uc_firstRedo = True\<rparr>)"

definition removeOriginalConnection :: "ExternalConnection \<Rightarrow> NodeScene \<Rightarrow> NodeScene" where
  "removeOriginalConnection ext s =
     (if originalConnection ext \<noteq> nullptr
      then removeConnectionFromScene (originalConnection ext) s else s)"

definition restoreOriginalConnection :: "ExternalConnection \<Rightarrow> NodeScene \<Rightarrow> NodeScene" where
  "restoreOriginalConnection ext s =
     (if originalConnection ext \<noteq> nullptr
      then restoreConnectionToScene (originalConnection ext) s else s)"

definition UngroupNodesCommand_undo ::
  "UngroupNodesCommand \<Rightarrow> NodeScene \<Rightarrow> UngroupNodesCommand \<times> NodeScene" where
  "UngroupNodesCommand_undo c s =
     (let s1 = forEach removeOriginalConnection (uc_externalConnections c) s;
          s2 = forEach removeConnectionFromScene (uc_internalConnections c) s1;
          s3 = forEach removeNodeFromScene (uc_internalNodes c) s2;
          s4 = restoreNodeToScene (uc_groupNode c) s3;
          s5 = forEach restoreConnectionToScene (uc_groupExternalConnections c) s4
      in (c, s5))"

text \<open>One round of the loop that puts the internal nodes back: the new position is
  read with \<open>m_originalPositions[node]\<close>, the non-const \<open>operator[]\<close>.\<close>

definition restoreInternalNode ::
  "QPointF \<Rightarrow> ptr \<Rightarrow> (ptr \<times> QPointF) list \<times> NodeScene \<Rightarrow> (ptr \<times> QPointF) list \<times> NodeScene" where
  "restoreInternalNode offset node st =
     (let (positions, s) = st;
          (p, positions1) = qmapSubscript node positions;
          newPos = padd p offset;
          s1 = updNode node (setPos newPos) s
      in (positions1, restoreNodeToScene node s1))"

definition UngroupNodesCommand_redo ::
  "UngroupNodesCommand \<Rightarrow> NodeScene \<Rightarrow> UngroupNodesCommand \<times> NodeScene" where
  "UngroupNodesCommand_redo c s =
     (let s1 = forEach removeConnectionFromScene (uc_groupExternalConnections c) s;
          s2 = removeNodeFromScene (uc_groupNode c) s1;
          groupPos = pos (nodeHeap s2 (uc_groupNode c));
          originalCenter = centerOf (map snd (uc_originalPositions c));
          offset = psub groupPos originalCenter;
          (positions, s3) =
             fold (restoreInternalNode offset) (uc_internalNodes c) (uc_originalPositions c, s2);
          s4 = forEach restoreConnectionToScene (uc_internalConnections c) s3;
          s5 = forEach restoreOriginalConnection (uc_externalConnections c) s4
      in (c\<lparr>uc_originalPositions := positions\<rparr>, s5))"

subsection \<open>The virtual functions of QUndoCommand\<close>

fun undo :: "QUndoCommand \<Rightarrow> NodeScene \<Rightarrow> QUndoCommand \<times> NodeScene" where
  "undo (AddNode c) s = (let (c1, s1) = AddNodeCommand_undo c s in (AddNode c1, s1))"
| "undo (Delete c) s = (let (c1, s1) = DeleteCommand_undo c s in (Delete c1, s1))"
| "undo (MoveNode c) s = (let (c1, s1) = MoveNodeCommand_undo c s in (MoveNode c1, s1))"
| "undo (MoveNodes c) s = (let (c1, s1) = MoveNodesCommand_undo c s in (MoveNodes c1, s1))"
| "undo (AddConnection c) s = (let (c1, s1) = AddConnectionCommand_undo c s in (AddConnection c1, s1))"
| "undo (Paste c) s = (let (c1, s1) = PasteCommand_undo c s in (Paste c1, s1))"
| "undo (GroupNodes c) s = (let (c1, s1) = GroupNodesCommand_undo c s in (GroupNodes c1, s1))"
| "undo (UngroupNodes c) s = (let (c1, s1) = UngroupNodesCommand_undo c s in (UngroupNodes c1, s1))"

fun redo :: "QUndoCommand \<Rightarrow> NodeScene \<Rightarrow> QUndoCommand \<times> NodeScene" where
  "redo (AddNode c) s = (let (c1, s1) = AddNodeCommand_redo c s in (AddNode c1, s1))"
| "redo (Delete c) s = (let (c1, s1) = DeleteCommand_redo c s in (Delete c1, s1))"
| "redo (MoveNode c) s = (let (c1, s1) = MoveNodeCommand_redo c s in (MoveNode c1, s1))"
| "redo (MoveNodes c) s = (let (c1, s1) = MoveNodesCommand_redo c s in (MoveNodes c1, s1))"
| "redo (AddConnection c) s = (let (c1, s1) = AddConnectionCommand_redo c s in (AddConnection c1, s1))"
| "redo (Paste c) s = (let (c1, s1) = PasteCommand_redo c s in (Paste c1, s1))"
| "redo (GroupNodes c) s = (let (c1, s1) = GroupNodesCommand_redo c s in (GroupNodes c1, s1))"
| "redo (UngroupNodes c) s = (let (c1, s1) = UngroupNodesCommand_redo c s in (UngroupNodes c1, s1))"

text \<open>\<open>id()\<close>: only \<open>MoveNodeCommand\<close> overrides it (with 1); the default is \<open>-1\<close>.\<close>

fun commandId :: "QUndoCommand \<Rightarrow> int" where
  "commandId (MoveNode c) = 1"
| "commandId c = - 1"

text \<open>\<open>mergeWith\<close>: only \<open>MoveNodeCommand\<close> overrides it; the default returns false. The
  result is the flag and the command as the call leaves it.\<close>

fun mergeWith :: "QUndoCommand \<Rightarrow> QUndoCommand \<Rightarrow> bool \<times> QUndoCommand" where
  "mergeWith (MoveNode c) other =
     (if commandId other \<noteq> commandId (MoveNode c) then (False, MoveNode c)
      else (case other of
              MoveNode moveCmd \<Rightarrow>
                (if mv_node moveCmd \<noteq> mv_node c then (False, MoveNode c)
                 else (True, MoveNode (c\<lparr>mv_newPos := mv_newPos moveCmd\<rparr>)))
            | _ \<Rightarrow> (False, MoveNode c)))"
| "mergeWith c other = (False, c)"


section \<open>QUndoStack (Qt)\<close>

text \<open>
  The undo stack is Qt's. Its documented behaviour, for a stack without macros and undo
  limit whose clean state is never set (the editor calls neither):
  \<open>push(cmd)\<close> runs \<open>cmd->redo()\<close>, deletes the commands that were undone, and then, if
  there is a command below the index whose id is not \<open>-1\<close> and equals the id of \<open>cmd\<close>,
  calls \<open>mergeWith(cmd)\<close> on it; if that returns true \<open>cmd\<close> is deleted, otherwise
  \<open>cmd\<close> is appended and the index moves up. \<open>undo()\<close> and \<open>redo()\<close> do nothing at the
  ends of the list.
\<close>

definition appendCommand :: "QUndoCommand \<Rightarrow> QUndoStack \<Rightarrow> QUndoStack" where
  "appendCommand cmd st =
     \<lparr>command_list = take (index st) (command_list st) @ [cmd], index = Suc (index st)\<rparr>"

definition push :: "QUndoCommand \<Rightarrow> NodeScene \<Rightarrow> NodeScene" where
  "push cmd s =
     (let (cmd1, s1) = redo cmd s;
          st = m_undoStack s1;
          st1 =
            (if index st > 0
             then (let cur = command_list st ! (index st - 1)
                   in if commandId cur \<noteq> - 1 \<and> commandId cur = commandId cmd1
                      then (let (merged, cur1) = mergeWith cur cmd1
                            in if merged
                               then \<lparr>command_list =
                                       (take (index st) (command_list st))[index st - 1 := cur1],
                                     index = index st\<rparr>
                               else appendCommand cmd1 st)
                      else appendCommand cmd1 st)
             else appendCommand cmd1 st)
      in s1\<lparr>m_undoStack := st1\<rparr>)"


definition stackRedo :: "NodeScene \<Rightarrow> NodeScene" where
  "stackRedo s =
     (let st = m_undoStack s
      in if index st = length (command_list st) then s
         else (let (cmd1, s1) = redo (command_list st ! index st) s
               in s1\<lparr>m_undoStack := \<lparr>command_list = (command_list st)[index st := cmd1],
                                      index = Suc (index st)\<rparr>\<rparr>))"

section \<open>The scene's operations (NodeScene.cpp)\<close>

text \<open>The selection is Qt's; an operation that reads \<open>selectedItems()\<close> takes the list
  of the selected items, each a node or a connection.\<close>

datatype QGraphicsItem = NodeItem ptr | ConnectionItem ptr

definition selectedNodesOf :: "QGraphicsItem list \<Rightarrow> ptr list" where
  "selectedNodesOf selected = concat (map (\<lambda>item. case item of NodeItem n \<Rightarrow> [n] | _ \<Rightarrow> []) selected)"

definition selectedConnectionsOf :: "QGraphicsItem list \<Rightarrow> ptr list" where
  "selectedConnectionsOf selected =
     concat (map (\<lambda>item. case item of ConnectionItem c \<Rightarrow> [c] | _ \<Rightarrow> []) selected)"

text \<open>\<open>dynamic_cast<GroupNode*>(node)\<close> succeeds.\<close>

definition isGroupNode :: "NodeScene \<Rightarrow> ptr \<Rightarrow> bool" where
  "isGroupNode s node = (m_group (nodeHeap s node) \<noteq> None)"

definition addNode :: "string \<Rightarrow> QPointF \<Rightarrow> NodeScene \<Rightarrow> NodeScene" where
  "addNode type position s =
     push (AddNode \<lparr>an_type = type, an_pos = position, an_node = nullptr, an_ownsNode = False\<rparr>) s"

definition addConnectionToScene :: "ptr \<Rightarrow> int \<Rightarrow> ptr \<Rightarrow> int \<Rightarrow> NodeScene \<Rightarrow> NodeScene" where
  "addConnectionToScene fromNode fromPortIndex toNode toPortIndex s =
     push (AddConnection \<lparr>ac_fromNode = fromNode, ac_toNode = toNode,
                          ac_fromPort = fromPortIndex, ac_toPort = toPortIndex,
                          ac_connection = nullptr, ac_ownsConnection = False\<rparr>) s"

text \<open>\<open>deleteSelected\<close>: the selected items and every connection of a selected node.\<close>

definition appendIfAbsent :: "ptr \<Rightarrow> ptr list \<Rightarrow> ptr list" where
  "appendIfAbsent c cs = (if c \<in> set cs then cs else cs @ [c])"

definition deleteSelected :: "QGraphicsItem list \<Rightarrow> NodeScene \<Rightarrow> NodeScene" where
  "deleteSelected selected s =
     (if selected = [] then s
      else (let nodesToDelete = selectedNodesOf selected;
                connectionsToDelete =
                  fold (\<lambda>node cs. fold appendIfAbsent (m_connections (nodeHeap s node)) cs)
                    nodesToDelete (selectedConnectionsOf selected)
            in if nodesToDelete = [] \<and> connectionsToDelete = [] then s
               else push (Delete \<lparr>dc_deletedNodes = nodesToDelete,
                                  dc_deletedConnections = connectionsToDelete,
                                  dc_ownsItems = False\<rparr>) s))"

text \<open>\<open>copySelected\<close>, \<open>paste\<close> and \<open>cutSelected\<close>.\<close>

definition copyNodeJson :: "NodeScene \<Rightarrow> QPointF \<Rightarrow> ptr \<times> nat \<Rightarrow> QJsonValue" where
  "copyNodeJson s center ni =
     (let (node, nodeIndex) = ni;
          nodeObj = Node_toJson node (nodeHeap s node);
          nodeObj1 = jset ''copyId'' (JString (''copy_node_'' @ showNat nodeIndex)) nodeObj;
          nodeObj2 = jset ''relX'' (JDouble (fst (pos (nodeHeap s node)) - fst center)) nodeObj1;
          nodeObj3 = jset ''relY'' (JDouble (snd (pos (nodeHeap s node)) - snd center)) nodeObj2
      in JObject nodeObj3)"

definition copyIdOf :: "ptr list \<Rightarrow> ptr \<Rightarrow> string" where
  "copyIdOf selectedNodes node =
     (case map_of (zip selectedNodes [0 ..< length selectedNodes]) node of
        Some i \<Rightarrow> ''copy_node_'' @ showNat i
      | None \<Rightarrow> [])"

definition copyConnectionJson :: "NodeScene \<Rightarrow> ptr list \<Rightarrow> ptr \<Rightarrow> QJsonValue" where
  "copyConnectionJson s selectedNodes conn =
     (let c = connectionHeap s conn
      in JObject [(''fromCopyId'', JString (copyIdOf selectedNodes (m_fromNode c))),
                  (''toCopyId'', JString (copyIdOf selectedNodes (m_toNode c))),
                  (''fromPort'', JDouble (real_of_int (m_fromPortIndex c))),
                  (''toPort'', JDouble (real_of_int (m_toPortIndex c))),
                  (''lineType'', JDouble (real_of_int (intOfLineType (m_lineType c))))])"

definition copySelected :: "QGraphicsItem list \<Rightarrow> NodeScene \<Rightarrow> NodeScene" where
  "copySelected selected s =
     (if selected = [] then s
      else (let selectedNodes = selectedNodesOf selected
            in if selectedNodes = [] then s
               else (let center = centerOf (map (\<lambda>node. pos (nodeHeap s node)) selectedNodes);
                         nodesArray = map (copyNodeJson s center)
                                        (zip selectedNodes [0 ..< length selectedNodes]);
                         connectionsArray =
                           map (copyConnectionJson s selectedNodes)
                             (filter (\<lambda>conn. m_fromNode (connectionHeap s conn) \<in> set selectedNodes
                                            \<and> m_toNode (connectionHeap s conn) \<in> set selectedNodes)
                                (m_sceneConnections s))
                     in s\<lparr>m_clipboard := [(''nodes'', JArray nodesArray),
                                           (''connections'', JArray connectionsArray)]\<rparr>)))"

definition paste :: "QPointF \<Rightarrow> NodeScene \<Rightarrow> NodeScene" where
  "paste offset s =
     (if m_clipboard s = [] then s
      else push (Paste \<lparr>pc_clipboardData = m_clipboard s, pc_offset = offset,
                        pc_pastedNodes = [], pc_pastedConnections = [],
                        pc_ownsItems = False\<rparr>) s)"

definition cutSelected :: "QGraphicsItem list \<Rightarrow> NodeScene \<Rightarrow> NodeScene" where
  "cutSelected selected s = deleteSelected selected (copySelected selected s)"

text \<open>\<open>canGroup\<close>, \<open>canUngroup\<close>, \<open>groupSelected\<close> and \<open>ungroupSelected\<close>.\<close>

definition canGroup :: "QGraphicsItem list \<Rightarrow> bool" where
  "canGroup selected = (length (selectedNodesOf selected) \<ge> 2)"

definition canUngroup :: "QGraphicsItem list \<Rightarrow> NodeScene \<Rightarrow> bool" where
  "canUngroup selected s = list_ex (isGroupNode s) (selectedNodesOf selected)"

text \<open>The classification of one connection of the scene against the set of nodes to
  group: internal, external (as output or as input of the group), or untouched.\<close>

definition classifyConnection ::
  "NodeScene \<Rightarrow> ptr list \<Rightarrow> ptr \<Rightarrow> ptr list \<times> ExternalConnection list
     \<Rightarrow> ptr list \<times> ExternalConnection list" where
  "classifyConnection s nodesToGroup conn acc =
     (let (internalConnections, externalConnections) = acc;
          fromNode = m_fromNode (connectionHeap s conn);
          toNode = m_toNode (connectionHeap s conn);
          fromInGroup = (fromNode \<in> set nodesToGroup);
          toInGroup = (toNode \<in> set nodesToGroup)
      in if fromInGroup \<and> toInGroup then (internalConnections @ [conn], externalConnections)
         else if fromInGroup \<and> \<not> toInGroup
         then (internalConnections,
               externalConnections @
                 [\<lparr>externalNode = toNode,
                   externalPortIndex = m_toPortIndex (connectionHeap s conn),
                   internalNode = fromNode,
                   internalPortIndex = m_fromPortIndex (connectionHeap s conn),
                   isInput = False, originalConnection = conn\<rparr>])
         else if \<not> fromInGroup \<and> toInGroup
         then (internalConnections,
               externalConnections @
                 [\<lparr>externalNode = fromNode,
                   externalPortIndex = m_fromPortIndex (connectionHeap s conn),
                   internalNode = toNode,
                   internalPortIndex = m_toPortIndex (connectionHeap s conn),
                   isInput = True, originalConnection = conn\<rparr>])
         else (internalConnections, externalConnections))"

definition groupSelected :: "QGraphicsItem list \<Rightarrow> NodeScene \<Rightarrow> bool \<times> NodeScene" where
  "groupSelected selected s =
     (if \<not> canGroup selected then (False, s)
      else (let nodesToGroup = selectedNodesOf selected
            in if length nodesToGroup < 2 then (False, s)
               else (let (internalConnections, externalConnections) =
                            fold (classifyConnection s nodesToGroup) (m_sceneConnections s) ([], []);
                         cmd = GroupNodesCommand_new nodesToGroup internalConnections
                                 externalConnections s
                     in (True, push (GroupNodes cmd) s))))"

definition ungroupSelected :: "QGraphicsItem list \<Rightarrow> NodeScene \<Rightarrow> bool \<times> NodeScene" where
  "ungroupSelected selected s =
     (if \<not> canUngroup selected s then (False, s)
      else (case filter (isGroupNode s) (selectedNodesOf selected) of
              [] \<Rightarrow> (False, s)
            | groupNode # _ \<Rightarrow>
                (True, push (UngroupNodes (UngroupNodesCommand_new groupNode s)) s)))"





section \<open>Saving and loading (NodeScene.cpp, MainWindow.cpp)\<close>

subsection \<open>getFlowData\<close>

text \<open>The title in the metadata: the UTF-8 bytes of the source's literal. The time of
  saving is a parameter.\<close>

definition flowTitle :: string where
  "flowTitle =
     [CHR 0xE5, CHR 0x8F, CHR 0xAF, CHR 0xE8, CHR 0xA7, CHR 0x86, CHR 0xE5, CHR 0x8C, CHR 0x96,
      CHR 0xE8, CHR 0x8A, CHR 0x82, CHR 0xE7, CHR 0x82, CHR 0xB9, CHR 0xE7, CHR 0xBC, CHR 0x96,
      CHR 0xE8, CHR 0xBE, CHR 0x91, CHR 0xE5, CHR 0x99, CHR 0xA8, CHR 0xE6, CHR 0xB5, CHR 0x81,
      CHR 0xE7, CHR 0xA8, CHR 0x8B, CHR 0xE5, CHR 0x9B, CHR 0xBE]"

definition originalPositionJson :: "NodeScene \<Rightarrow> ptr \<times> QPointF \<Rightarrow> QJsonValue" where
  "originalPositionJson s kv =
     JObject [(''nodeName'', JString (m_name (nodeHeap s (fst kv)))),
              (''x'', JDouble (fst (snd kv))),
              (''y'', JDouble (snd (snd kv)))]"

text \<open>The entry of one node of the scene. An internal node of a group is written by
  \<open>Node::toJson\<close>, an internal connection by \<open>Connection::toJson\<close>.\<close>

definition flowNodeJson :: "NodeScene \<Rightarrow> ptr \<Rightarrow> QJsonValue" where
  "flowNodeJson s node =
     (let n = nodeHeap s node;
          nodeObj = [(''id'', JString (''node_'' @ showNat node)),
                     (''type'', JString (m_type n)),
                     (''name'', JString (m_name n)),
                     (''position'', JObject [(''x'', JDouble (fst (pos n))),
                                             (''y'', JDouble (snd (pos n)))]),
                     (''inputPortCount'', JDouble (real_of_int (m_inputPortCount n))),
                     (''outputPortCount'', JDouble (real_of_int (m_outputPortCount n)))];
          nodeObj1 = (if m_useCustomColor n
                      then jset ''customColor'' (JString (m_customColor n)) nodeObj else nodeObj);
          nodeObj2 = (if m_displayTypeName n \<noteq> []
                      then jset ''displayTypeName'' (JString (m_displayTypeName n)) nodeObj1
                      else nodeObj1);
          nodeObj3 = jset ''parameters'' (JObject []) nodeObj2;
          nodeObj4 =
            (case m_group n of
               None \<Rightarrow> nodeObj3
             | Some d \<Rightarrow>
                 jset ''originalPositions''
                   (JArray (map (originalPositionJson s) (m_originalPositions d)))
                   (jset ''internalConnections''
                      (JArray (map (\<lambda>conn. JObject (Connection_toJson (connectionHeap s conn)))
                                 (m_internalConnections d)))
                      (jset ''internalNodes''
                         (JArray (map (\<lambda>internalNode.
                                         JObject (Node_toJson internalNode (nodeHeap s internalNode)))
                                    (m_internalNodes d)))
                         (jset ''isGroup'' (JBool True) nodeObj3))))
      in JObject nodeObj4)"

definition flowConnectionJson :: "NodeScene \<Rightarrow> ptr \<Rightarrow> QJsonValue" where
  "flowConnectionJson s conn =
     (let c = connectionHeap s conn
      in JObject [(''from'', JString (''node_'' @ showNat (m_fromNode c))),
                  (''fromPort'', JDouble (real_of_int (m_fromPortIndex c))),
                  (''to'', JString (''node_'' @ showNat (m_toNode c))),
                  (''toPort'', JDouble (real_of_int (m_toPortIndex c))),
                  (''lineType'', JDouble (real_of_int (intOfLineType (m_lineType c))))])"

definition getFlowData :: "string \<Rightarrow> NodeScene \<Rightarrow> QJsonObject" where
  "getFlowData created s =
     [(''metadata'', JObject [(''title'', JString flowTitle),
                              (''created'', JString created),
                              (''version'', JString ''1.2'')]),
      (''nodes'', JArray (map (flowNodeJson s) (m_nodes s))),
      (''connections'', JArray (map (flowConnectionJson s) (m_sceneConnections s)))]"

subsection \<open>loadFlowData\<close>

text \<open>The loops that rebuild a group node: its internal nodes, with the map from node
  name to node (a later node of a name hides an earlier one); its internal connections,
  looked up by the names under the keys \<open>fromNode\<close> and \<open>toNode\<close> with the ports under
  \<open>fromPort\<close> and \<open>toPort\<close>; its original positions, looked up by node name.\<close>

definition loadInternalNode ::
  "QJsonValue \<Rightarrow> ptr list \<times> (string \<times> ptr) list \<times> NodeScene
     \<Rightarrow> ptr list \<times> (string \<times> ptr) list \<times> NodeScene" where
  "loadInternalNode internalValue st =
     (let (internalNodes, internalNodeMap, s) = st;
          internalObj = toObject internalValue;
          (internalNode, s1) = newNode (Node_fromJson (nodeLibrary s) internalObj) s
      in (internalNodes @ [internalNode],
          (toString (jget internalObj ''name''), internalNode) # internalNodeMap, s1))"

definition loadInternalConnection ::
  "(string \<times> ptr) list \<Rightarrow> QJsonValue \<Rightarrow> ptr list \<times> NodeScene \<Rightarrow> ptr list \<times> NodeScene" where
  "loadInternalConnection internalNodeMap connValue st =
     (let (internalConnections, s) = st;
          connObj = toObject connValue;
          fromNode = lookupNode internalNodeMap (toString (jget connObj ''fromNode''));
          toNode = lookupNode internalNodeMap (toString (jget connObj ''toNode''))
      in if fromNode \<noteq> nullptr \<and> toNode \<noteq> nullptr
         then (let fromPort = toInt (jget connObj ''fromPort'') 0;
                   toPort = toInt (jget connObj ''toPort'') 0;
                   (conn, s1) = Connection_new fromNode fromPort toNode toPort s
               in (internalConnections @ [conn], s1))
         else (internalConnections, s))"

definition loadOriginalPosition ::
  "(string \<times> ptr) list \<Rightarrow> QJsonValue \<Rightarrow> (ptr \<times> QPointF) list \<Rightarrow> (ptr \<times> QPointF) list" where
  "loadOriginalPosition internalNodeMap posValue originalPositions =
     (let posObj = toObject posValue;
          internalNode = lookupNode internalNodeMap (toString (jget posObj ''nodeName''))
      in if internalNode \<noteq> nullptr
         then qmapInsert internalNode
                (toDouble (jget posObj ''x''), toDouble (jget posObj ''y'')) originalPositions
         else originalPositions)"

text \<open>One round of the first loop: a group node (allocated before its internal nodes)
  or a plain node, appended to the scene and entered in the map from id to node.\<close>

definition loadNode ::
  "QJsonValue \<Rightarrow> (string \<times> ptr) list \<times> NodeScene \<Rightarrow> (string \<times> ptr) list \<times> NodeScene" where
  "loadNode nodeValue st =
     (let (nodeMap, s) = st;
          nodeObj = toObject nodeValue;
          (node, s4) =
            (if toBool (jget nodeObj ''isGroup'') False
             then (let name = toString (jget nodeObj ''name'');
                       posObj = toObject (jget nodeObj ''position'');
                       position = (toDouble (jget posObj ''x''), toDouble (jget posObj ''y''));
                       (groupNode, s0) = newNode (GroupNode_new (nodeLibrary s) name position) s;
                       (internalNodes, internalNodeMap, s1) =
                          fold loadInternalNode (toArray (jget nodeObj ''internalNodes''))
                            ([], [], s0);
                       s1a = updNode groupNode (setInternalNodes internalNodes) s1;
                       (internalConnections, s2) =
                          fold (loadInternalConnection internalNodeMap)
                            (toArray (jget nodeObj ''internalConnections'')) ([], s1a);
                       s2a = updNode groupNode (setInternalConnections internalConnections) s2;
                       originalPositions =
                          fold (loadOriginalPosition internalNodeMap)
                            (toArray (jget nodeObj ''originalPositions'')) [];
                       s2b = updNode groupNode (setOriginalPositions originalPositions) s2a;
                       s3 = updNode groupNode
                              (calcPortMappings (nodeHeap s2b) (connectionHeap s2b)) s2b
                   in (groupNode, s3))
             else newNode (Node_fromJson (nodeLibrary s) nodeObj) s)
      in ((toString (jget nodeObj ''id''), node) # nodeMap,
          s4\<lparr>m_nodes := m_nodes s4 @ [node]\<rparr>))"

text \<open>One round of the second loop; the node ids are read under \<open>from\<close> and \<open>to\<close>, or
  under \<open>fromNode\<close> and \<open>toNode\<close> when those keys are absent.\<close>

definition loadConnection :: "(string \<times> ptr) list \<Rightarrow> QJsonValue \<Rightarrow> NodeScene \<Rightarrow> NodeScene" where
  "loadConnection nodeMap connValue s =
     (let connObj = toObject connValue;
          fromNodeId = (if jcontains connObj ''from'' then toString (jget connObj ''from'')
                        else toString (jget connObj ''fromNode''));
          toNodeId = (if jcontains connObj ''to'' then toString (jget connObj ''to'')
                      else toString (jget connObj ''toNode''));
          fromNode = lookupNode nodeMap fromNodeId;
          toNode = lookupNode nodeMap toNodeId
      in if fromNode \<noteq> nullptr \<and> toNode \<noteq> nullptr
         then (let fromPort = toInt (jget connObj ''fromPort'') 0;
                   toPort = toInt (jget connObj ''toPort'') 0;
                   (connection, s1) = Connection_new fromNode fromPort toNode toPort s;
                   s2 = (if jcontains connObj ''lineType''
                         then setLineType connection
                                (lineTypeOfInt (toInt (jget connObj ''lineType'') 0)) s1
                         else s1)
               in s2\<lparr>m_sceneConnections := m_sceneConnections s2 @ [connection]\<rparr>)
         else s)"

text \<open>\<open>loadFlowData\<close>: the scene is cleared first (\<open>clear()\<close> and the two lists), then
  filled from the arrays under \<open>nodes\<close> and \<open>connections\<close>. The function returns nothing.\<close>

definition loadFlowData :: "QJsonObject \<Rightarrow> NodeScene \<Rightarrow> NodeScene" where
  "loadFlowData data s =
     (let s0 = s\<lparr>m_nodes := [], m_sceneConnections := []\<rparr>;
          (nodeMap, s1) = fold loadNode (toArray (jget data ''nodes'')) ([], s0)
      in fold (loadConnection nodeMap) (toArray (jget data ''connections'')) s1)"

subsection \<open>MainWindow::onLoadProject\<close>





section \<open>Notions the properties are stated with\<close>

text \<open>An empty editor: nothing allocated (the first object will get the address 10),
  the counters at their initial value 1, an empty undo stack. Memory that was never
  allocated holds these two objects.\<close>

definition unallocatedNode :: Node where
  "unallocatedNode = Node_new Map.empty [] [] (0, 0)"

definition unallocatedConnection :: Connection where
  "unallocatedConnection =
     \<lparr>m_fromNode = nullptr, m_toNode = nullptr, m_fromPortIndex = 0, m_toPortIndex = 0,
      m_lineType = Bezier\<rparr>"

definition emptyScene :: "NodeLibrary \<Rightarrow> NodeScene" where
  "emptyScene lib =
     \<lparr>nodeHeap = (\<lambda>p. unallocatedNode), connectionHeap = (\<lambda>p. unallocatedConnection),
      nextPtr = 10, m_nodes = [], m_sceneConnections = [], m_clipboard = [],
      m_undoStack = \<lparr>command_list = [], index = 0\<rparr>,
      nodeLibrary = lib, nodeCount = 1, pasteCount = 1\<rparr>"






text \<open>A scene with one node, added by \<open>addNode\<close>.\<close>

definition oneNodeScene :: NodeScene where
  "oneNodeScene = addNode ''filter'' (0, 0) (emptyScene Map.empty)"


text \<open>A scene with two nodes, each added by \<open>addNode\<close>.\<close>

definition twoNodeScene :: NodeScene where
  "twoNodeScene = addNode ''fft'' (50, 50) oneNodeScene"








text \<open>
  Two scenes for the port mappings. In the first, the output port 0 of node 10 feeds the
  nodes 12 and 13 (a fan-out); in the second, node 10 feeds node 11 and node 11 feeds node
  12 (a chain). For each, the list of external connections that \<open>groupSelected\<close> computes
  when the nodes 10 and 11 are selected, and the group node that
  \<open>GroupNodesCommand::redo\<close> then builds.
\<close>

definition fanoutScene :: NodeScene where
  "fanoutScene =
     addConnectionToScene 10 0 13 0
       (addConnectionToScene 10 0 12 0
          (addNode ''sink'' (300, 100) (addNode ''sink'' (300, 0) twoNodeScene)))"

definition fanoutExternal :: "ExternalConnection list" where
  "fanoutExternal =
     [\<lparr>externalNode = 12, externalPortIndex = 0, internalNode = 10, internalPortIndex = 0,
       isInput = False, originalConnection = 14\<rparr>,
      \<lparr>externalNode = 13, externalPortIndex = 0, internalNode = 10, internalPortIndex = 0,
       isInput = False, originalConnection = 15\<rparr>]"

definition fanoutGroup :: Node where
  "fanoutGroup =
     calcPortMappings (nodeHeap fanoutScene) (connectionHeap fanoutScene)
       (setExternalConnections fanoutExternal
          (setInternalNodes [10, 11] (GroupNode_new Map.empty groupName (25, 25))))"

definition chainScene :: NodeScene where
  "chainScene =
     addConnectionToScene 11 0 12 0
       (addConnectionToScene 10 0 11 0 (addNode ''sink'' (400, 0) twoNodeScene))"

definition chainExternal :: "ExternalConnection list" where
  "chainExternal =
     [\<lparr>externalNode = 12, externalPortIndex = 0, internalNode = 11, internalPortIndex = 0,
       isInput = False, originalConnection = 14\<rparr>]"

definition chainGroup :: Node where
  "chainGroup =
     calcPortMappings (nodeHeap chainScene) (connectionHeap chainScene)
       (setExternalConnections chainExternal
          (setInternalConnections [13]
             (setInternalNodes [10, 11] (GroupNode_new Map.empty groupName (25, 25)))))"


section \<open>Notions for grouping and ungrouping\<close>

text \<open>
  What the round trip of grouping and ungrouping is stated with: a node without its
  position and its list of connections; the classification of a connection against a
  list \<open>S\<close> of nodes (both ends in \<open>S\<close>, exactly one end in \<open>S\<close>) and the descriptor
  \<open>groupSelected\<close> makes for a connection with one end in \<open>S\<close>; and a scene in good order:
  no object is listed twice, the objects listed are allocated (their address is below
  the next free one and is not null), and so are the nodes the connections refer to.
\<close>

text \<open>A node without its position and its list of connections.\<close>

definition nodeBody :: "Node \<Rightarrow> Node" where
  "nodeBody n = n\<lparr>pos := (0, 0), m_connections := []\<rparr>"

definition isInternalConnection :: "NodeScene \<Rightarrow> ptr list \<Rightarrow> ptr \<Rightarrow> bool" where
  "isInternalConnection s S c =
     (m_fromNode (connectionHeap s c) \<in> set S \<and> m_toNode (connectionHeap s c) \<in> set S)"

definition isExternalConnection :: "NodeScene \<Rightarrow> ptr list \<Rightarrow> ptr \<Rightarrow> bool" where
  "isExternalConnection s S c =
     ((m_fromNode (connectionHeap s c) \<in> set S) \<noteq> (m_toNode (connectionHeap s c) \<in> set S))"

definition externalOf :: "NodeScene \<Rightarrow> ptr list \<Rightarrow> ptr \<Rightarrow> ExternalConnection" where
  "externalOf s S c =
     (if m_fromNode (connectionHeap s c) \<in> set S
      then \<lparr>externalNode = m_toNode (connectionHeap s c),
            externalPortIndex = m_toPortIndex (connectionHeap s c),
            internalNode = m_fromNode (connectionHeap s c),
            internalPortIndex = m_fromPortIndex (connectionHeap s c),
            isInput = False, originalConnection = c\<rparr>
      else \<lparr>externalNode = m_fromNode (connectionHeap s c),
            externalPortIndex = m_fromPortIndex (connectionHeap s c),
            internalNode = m_toNode (connectionHeap s c),
            internalPortIndex = m_toPortIndex (connectionHeap s c),
            isInput = True, originalConnection = c\<rparr>)"

definition sceneOk :: "NodeScene \<Rightarrow> bool" where
  "sceneOk s =
     (distinct (m_nodes s) \<and> distinct (m_sceneConnections s) \<and>
      list_all (\<lambda>n. n \<noteq> nullptr \<and> n < nextPtr s) (m_nodes s) \<and>
      list_all (\<lambda>c. c \<noteq> nullptr \<and> c < nextPtr s \<and>
                    m_fromNode (connectionHeap s c) < nextPtr s \<and>
                    m_toNode (connectionHeap s c) < nextPtr s) (m_sceneConnections s))"



text \<open>The group node as the first \<open>GroupNodesCommand::redo\<close> builds it from the nodes
  \<open>S\<close>, the internal connections and the descriptors of the external connections of a
  scene, and the connection that the same \<open>redo\<close> makes between the group node and the
  outer end of a descriptor.\<close>

definition builtGroupNode ::
  "NodeScene \<Rightarrow> ptr list \<Rightarrow> ptr list \<Rightarrow> ExternalConnection list \<Rightarrow> Node" where
  "builtGroupNode s S ints exts =
     calcPortMappings (nodeHeap s) (connectionHeap s)
       (setOriginalPositions (fold (\<lambda>node m. qmapInsert node (pos (nodeHeap s node)) m) S [])
          (setExternalConnections exts
             (setInternalConnections ints
                (setInternalNodes S
                   (GroupNode_new (nodeLibrary s) groupName
                      (centerOf (map (\<lambda>node. pos (nodeHeap s node)) S)))))))"

definition groupConnection ::
  "ptr \<Rightarrow> PortMapping list \<Rightarrow> PortMapping list \<Rightarrow> ExternalConnection \<Rightarrow> Connection" where
  "groupConnection g im om e =
     (if isInput e
      then \<lparr>m_fromNode = externalNode e, m_toNode = g,
            m_fromPortIndex = externalPortIndex e,
            m_toPortIndex = findGroupPort im (internalNode e) (internalPortIndex e) 0,
            m_lineType = Bezier\<rparr>
      else \<lparr>m_fromNode = g, m_toNode = externalNode e,
            m_fromPortIndex = findGroupPort om (internalNode e) (internalPortIndex e) 0,
            m_toPortIndex = externalPortIndex e,
            m_lineType = Bezier\<rparr>)"

section \<open>Notions for loading\<close>




text \<open>A saved project whose group has two internal nodes of one name, as \<open>getFlowData\<close>
  writes it for two grouped nodes that are both named \<open>nodeNamePrefix @ ''1''\<close>; the scene
  that \<open>loadFlowData\<close> makes of it (the group node at the address 10, its internal nodes at
  11 and 12); the command that \<open>ungroupSelected\<close> pushes for the group; and its first
  \<open>redo\<close>, the \<open>undo\<close> after it and the \<open>redo\<close> after that.\<close>

definition twinName :: string where
  "twinName = nodeNamePrefix @ ''1''"

definition twinNodeJson :: "string \<Rightarrow> real \<Rightarrow> QJsonValue" where
  "twinNodeJson ident x =
     JObject [(''id'', JString ident), (''type'', JString ''filter''), (''name'', JString twinName),
              (''x'', JDouble x), (''y'', JDouble 0), (''parameters'', JArray []),
              (''inputPortCount'', JDouble 1), (''outputPortCount'', JDouble 1),
              (''width'', JDouble 120), (''height'', JDouble 70)]"

definition twinGroupJson :: QJsonValue where
  "twinGroupJson =
     JObject [(''id'', JString ''node_12''), (''type'', JString ''group''),
              (''name'', JString groupName),
              (''position'', JObject [(''x'', JDouble 50), (''y'', JDouble 0)]),
              (''inputPortCount'', JDouble 2), (''outputPortCount'', JDouble 2),
              (''customColor'', JString ''#6495ed''),
              (''displayTypeName'', JString groupDisplayTypeName),
              (''parameters'', JObject []),
              (''isGroup'', JBool True),
              (''internalNodes'', JArray [twinNodeJson ''10'' 0, twinNodeJson ''11'' 100]),
              (''internalConnections'', JArray []),
              (''originalPositions'',
                 JArray [JObject [(''nodeName'', JString twinName), (''x'', JDouble 0), (''y'', JDouble 0)],
                         JObject [(''nodeName'', JString twinName), (''x'', JDouble 100), (''y'', JDouble 0)]])]"

definition twinDocument :: QJsonObject where
  "twinDocument =
     [(''metadata'', JObject [(''title'', JString flowTitle), (''created'', JString []),
                              (''version'', JString ''1.2'')]),
      (''nodes'', JArray [twinGroupJson]),
      (''connections'', JArray [])]"

definition twinScene :: NodeScene where
  "twinScene = loadFlowData twinDocument (emptyScene Map.empty)"

definition twinUngroup :: UngroupNodesCommand where
  "twinUngroup = UngroupNodesCommand_new 10 twinScene"

definition twinFirstRedo :: "QUndoCommand \<times> NodeScene" where
  "twinFirstRedo = redo (UngroupNodes twinUngroup) twinScene"

definition twinUndone :: "QUndoCommand \<times> NodeScene" where
  "twinUndone = undo (fst twinFirstRedo) (snd twinFirstRedo)"

definition twinSecondRedo :: "QUndoCommand \<times> NodeScene" where
  "twinSecondRedo = redo (fst twinUndone) (snd twinUndone)"

text \<open>A scene with a nested group: the chain scene after its nodes 10 and 11 were grouped
  (the group node at the address 15, its connection to node 12 at 16) and the group and
  node 12 were grouped again (the outer group node at 17); and the scene after the
  project was saved and loaded.\<close>

definition chainGrouped :: NodeScene where
  "chainGrouped = snd (groupSelected [NodeItem 10, NodeItem 11] chainScene)"

definition nestedScene :: NodeScene where
  "nestedScene = snd (groupSelected [NodeItem 15, NodeItem 12] chainGrouped)"

definition nestedReloaded :: NodeScene where
  "nestedReloaded = loadFlowData (getFlowData [] nestedScene) nestedScene"

section \<open>Properties\<close>

lemmas scene_eval =
  emptyScene_def addNode_def push_def AddNodeCommand_redo_def createNode_def newNode_def
  Node_new_def getTemplate_def isValid_def NodeTemplate_default_def appendCommand_def
  nullptr_def Let_def updNode_def setPos_def oneNodeScene_def twoNodeScene_def


subsection \<open>Port geometry\<close>









text \<open>
  C9. A port index outside the node's current port count (negative, or at least the
  count) is clamped to 0: the query is total and returns the position of port 0.
\<close>

theorem port_index_clamped:
  "(i < 0 \<or> m_inputPortCount n \<le> i \<longrightarrow> getInputPortPos n i = getInputPortPos n 0) \<and>
   (i < 0 \<or> m_outputPortCount n \<le> i \<longrightarrow> getOutputPortPos n i = getOutputPortPos n 0)"
  by (auto simp add: getInputPortPos_def getOutputPortPos_def)



theorem port_index_clamped_witness:
  "getInputPortPos exampleNode3 (- 1) = getInputPortPos exampleNode3 0 \<and>
   getInputPortPos exampleNode3 3 = getInputPortPos exampleNode3 0 \<and>
   getOutputPortPos exampleNode3 (- 2) = getOutputPortPos exampleNode3 0 \<and>
   getOutputPortPos exampleNode3 7 = getOutputPortPos exampleNode3 0"
  using port_index_clamped [of "- 1" exampleNode3] port_index_clamped [of 3 exampleNode3]
    port_index_clamped [of "- 2" exampleNode3] port_index_clamped [of 7 exampleNode3]
  by (simp add: exampleNode_def exampleNode3_def Node_new_def getTemplate_def
      NodeTemplate_default_def isValid_def setInputPortCount_def setOutputPortCount_def)

subsection \<open>Port counts\<close>

lemma getTemplate_nonneg:
  assumes "templatesNonNegative lib"
  shows "0 \<le> t_inputPortCount (getTemplate lib ty) \<and> 0 \<le> t_outputPortCount (getTemplate lib ty)"
proof (cases "lib ty")
  case None
  then show ?thesis by (simp add: getTemplate_def NodeTemplate_default_def)
next
  case (Some t)
  then have "t \<in> ran lib" by (auto simp add: ran_def)
  with assms Some show ?thesis by (simp add: templatesNonNegative_def getTemplate_def)
qed

lemma Node_new_nonneg:
  assumes "templatesNonNegative lib"
  shows "0 \<le> m_inputPortCount (Node_new lib ty name p) \<and> 0 \<le> m_outputPortCount (Node_new lib ty name p)"
  using getTemplate_nonneg [OF assms, of ty] by (simp add: Node_new_def Let_def)

lemma applyOp_nonneg:
  assumes "templatesNonNegative (fst lo)"
    and "0 \<le> m_inputPortCount n \<and> 0 \<le> m_outputPortCount n"
  shows "0 \<le> m_inputPortCount (applyOp lo n) \<and> 0 \<le> m_outputPortCount (applyOp lo n)"
proof (cases lo)
  case (Pair lib op)
  with assms(1) have t: "templatesNonNegative lib" by simp
  show ?thesis
  proof (cases op)
    case (OpSetType ty)
    with Pair assms(2) getTemplate_nonneg [OF t, of ty] show ?thesis
      by (simp add: setType_def Let_def)
  qed (use Pair assms(2) in \<open>simp_all add: setName_def setParameters_def setCustomColor_def
        setDisplayTypeName_def setInputPortCount_def setOutputPortCount_def setSize_def
        setPos_def addConnection_def removeConnection_def Let_def\<close>)
qed

lemma applyOps_nonneg:
  assumes "\<forall>lo \<in> set ops. templatesNonNegative (fst lo)"
    and "0 \<le> m_inputPortCount n \<and> 0 \<le> m_outputPortCount n"
  shows "0 \<le> m_inputPortCount (applyOps ops n) \<and> 0 \<le> m_outputPortCount (applyOps ops n)"
  using assms unfolding applyOps_def
proof (induction ops arbitrary: n)
  case Nil
  then show ?case by simp
next
  case (Cons lo ops)
  from Cons.prems have "0 \<le> m_inputPortCount (applyOp lo n) \<and> 0 \<le> m_outputPortCount (applyOp lo n)"
    by (intro applyOp_nonneg) simp_all
  with Cons.IH [of "applyOp lo n"] Cons.prems(1) show ?case by simp
qed

text \<open>
  C10, amended. For every integer \<open>c\<close> (negative ones included) \<open>Node::setInputPortCount(c)\<close>
  and \<open>Node::setOutputPortCount(c)\<close> store \<open>max(0, c)\<close>. The constructor and
  \<open>Node::setType\<close> copy the counts of a valid template without clamping; so after any
  sequence of operations on a node both counts are non-negative provided the libraries
  consulted hold templates with non-negative counts only.
\<close>

theorem port_counts_nonnegative:
  "m_inputPortCount (setInputPortCount c n) = max 0 c \<and>
   m_outputPortCount (setOutputPortCount c n) = max 0 c \<and>
   (templatesNonNegative lib \<and> (\<forall>lo \<in> set ops. templatesNonNegative (fst lo)) \<longrightarrow>
      0 \<le> m_inputPortCount (applyOps ops (Node_new lib ty name p)) \<and>
      0 \<le> m_outputPortCount (applyOps ops (Node_new lib ty name p)))"
proof -
  have a: "m_inputPortCount (setInputPortCount c n) = max 0 c"
    by (simp add: setInputPortCount_def Let_def)
  have b: "m_outputPortCount (setOutputPortCount c n) = max 0 c"
    by (simp add: setOutputPortCount_def Let_def)
  have c: "templatesNonNegative lib \<and> (\<forall>lo \<in> set ops. templatesNonNegative (fst lo)) \<Longrightarrow>
      0 \<le> m_inputPortCount (applyOps ops (Node_new lib ty name p)) \<and>
      0 \<le> m_outputPortCount (applyOps ops (Node_new lib ty name p))"
    using applyOps_nonneg [of ops "Node_new lib ty name p"] Node_new_nonneg [of lib ty name p]
    by blast
  from a b c show ?thesis by blast
qed

lemma filterLibrary_nonneg: "templatesNonNegative filterLibrary"
  by (simp add: templatesNonNegative_def filterLibrary_def filterTemplate_def)

theorem port_counts_nonnegative_witness:
  "m_inputPortCount (setInputPortCount (- 5) exampleNode) = 0 \<and>
   m_outputPortCount (setOutputPortCount 4 exampleNode) = 4 \<and>
   0 \<le> m_inputPortCount
         (applyOps [(filterLibrary, OpSetInputPortCount (- 3)), (filterLibrary, OpSetType ''filter'')]
            (Node_new filterLibrary ''fft'' ''n'' (0, 0))) \<and>
   0 \<le> m_outputPortCount
         (applyOps [(filterLibrary, OpSetInputPortCount (- 3)), (filterLibrary, OpSetType ''filter'')]
            (Node_new filterLibrary ''fft'' ''n'' (0, 0)))"
  using port_counts_nonnegative [of "- 5" exampleNode]
    port_counts_nonnegative [of 4 exampleNode filterLibrary
      "[(filterLibrary, OpSetInputPortCount (- 3)), (filterLibrary, OpSetType ''filter'')]"
      "''fft''" "''n''" "(0, 0)"]
    filterLibrary_nonneg
  by simp

text \<open>
  The claim as stated fails: a node constructed for a valid template that carries the
  input port count \<open>-1\<close> has a negative input port count.
\<close>

theorem port_counts_counterexample:
  "m_inputPortCount (Node_new negativeLibrary ''sink'' ''n'' (0, 0)) = - 1"
  by (simp add: Node_new_def negativeLibrary_def negativeTemplate_def getTemplate_def isValid_def)


subsection \<open>Port mappings of a group\<close>

lemma setSize_fields:
  "m_width (setSize w h n) = qBound MIN_WIDTH w MAX_WIDTH"
  "m_height (setSize w h n) = qBound MIN_HEIGHT h MAX_HEIGHT"
  "m_inputPortCount (setSize w h n) = m_inputPortCount n"
  "m_outputPortCount (setSize w h n) = m_outputPortCount n"
  "m_group (setSize w h n) = m_group n"
  "pos (setSize w h n) = pos n"
  "m_name (setSize w h n) = m_name n"
  "m_type (setSize w h n) = m_type n"
  "m_connections (setSize w h n) = m_connections n"
  by (simp_all add: setSize_def)

lemma setPortCount_fields:
  "m_inputPortCount (setInputPortCount c n) = max 0 c"
  "m_outputPortCount (setInputPortCount c n) = m_outputPortCount n"
  "m_width (setInputPortCount c n) = m_width n"
  "m_height (setInputPortCount c n) = m_height n"
  "m_group (setInputPortCount c n) = m_group n"
  "pos (setInputPortCount c n) = pos n"
  "m_name (setInputPortCount c n) = m_name n"
  "m_type (setInputPortCount c n) = m_type n"
  "m_connections (setInputPortCount c n) = m_connections n"
  "m_outputPortCount (setOutputPortCount c n) = max 0 c"
  "m_inputPortCount (setOutputPortCount c n) = m_inputPortCount n"
  "m_width (setOutputPortCount c n) = m_width n"
  "m_height (setOutputPortCount c n) = m_height n"
  "m_group (setOutputPortCount c n) = m_group n"
  "pos (setOutputPortCount c n) = pos n"
  "m_name (setOutputPortCount c n) = m_name n"
  "m_type (setOutputPortCount c n) = m_type n"
  "m_connections (setOutputPortCount c n) = m_connections n"
  by (simp_all add: setInputPortCount_def setOutputPortCount_def Let_def)

lemma autoGrow_fields:
  "m_inputPortCount (autoGrow a b n) = m_inputPortCount n"
  "m_outputPortCount (autoGrow a b n) = m_outputPortCount n"
  "m_group (autoGrow a b n) = m_group n"
  "pos (autoGrow a b n) = pos n"
  "m_name (autoGrow a b n) = m_name n"
  "m_type (autoGrow a b n) = m_type n"
  "m_connections (autoGrow a b n) = m_connections n"
  by (simp_all add: autoGrow_def Let_def setSize_fields)


lemma calcPortMappings_Some:
  assumes "m_group g = Some d"
  shows "calcPortMappings nh ch g =
    autoGrow (max 1 (int (length (inputMappingsOf nh ch d))))
      (max 1 (int (length (outputMappingsOf nh ch d))))
      (setOutputPortCount (max 1 (int (length (outputMappingsOf nh ch d))))
         (setInputPortCount (max 1 (int (length (inputMappingsOf nh ch d))))
            (g\<lparr>m_group := Some (d\<lparr>m_inputPortMappings := inputMappingsOf nh ch d,
                                   m_outputPortMappings := outputMappingsOf nh ch d\<rparr>)\<rparr>)))"
  unfolding calcPortMappings_def assms option.case Let_def by (rule refl)

lemma calcPortMappings_fields:
  assumes "m_group g = Some d"
  shows "m_inputPortCount (calcPortMappings nh ch g) = max 1 (int (length (inputMappingsOf nh ch d)))"
    and "m_outputPortCount (calcPortMappings nh ch g) = max 1 (int (length (outputMappingsOf nh ch d)))"
    and "m_group (calcPortMappings nh ch g) =
           Some (d\<lparr>m_inputPortMappings := inputMappingsOf nh ch d,
                   m_outputPortMappings := outputMappingsOf nh ch d\<rparr>)"
    and "pos (calcPortMappings nh ch g) = pos g"
    and "m_name (calcPortMappings nh ch g) = m_name g"
    and "m_type (calcPortMappings nh ch g) = m_type g"
    and "m_connections (calcPortMappings nh ch g) = m_connections g"
  unfolding calcPortMappings_Some [OF assms]
  by (simp_all add: autoGrow_fields setPortCount_fields)















subsection \<open>Exclusivity of the port mappings\<close>

lemmas conn_eval = addConnectionToScene_def AddConnectionCommand_redo_def createConnection_def
  Connection_new_def updNodeIfNotNull_def addConnection_def

lemma fanoutScene_facts:
  "m_inputPortCount (nodeHeap fanoutScene 10) = 1"
  "m_outputPortCount (nodeHeap fanoutScene 10) = 1"
  "m_inputPortCount (nodeHeap fanoutScene 11) = 1"
  "m_outputPortCount (nodeHeap fanoutScene 11) = 1"
  "m_sceneConnections fanoutScene = [14, 15]"
  "m_nodes fanoutScene = [10, 11, 12, 13]"
  "connectionHeap fanoutScene 14 = \<lparr>m_fromNode = 10, m_toNode = 12, m_fromPortIndex = 0, m_toPortIndex = 0, m_lineType = Bezier\<rparr>"
  "connectionHeap fanoutScene 15 = \<lparr>m_fromNode = 10, m_toNode = 13, m_fromPortIndex = 0, m_toPortIndex = 0, m_lineType = Bezier\<rparr>"
  by (simp_all add: fanoutScene_def scene_eval conn_eval)

lemma classify: "fold (classifyConnection fanoutScene [10, 11]) (m_sceneConnections fanoutScene) ([], [])
  = ([], fanoutExternal)"
  by (simp add: fanoutScene_facts classifyConnection_def fanoutExternal_def)

lemma mappedPort_external [simp]:
  "mappedPort (externalMapping nh e) = (internalNode e, internalPortIndex e)"
  by (simp add: mappedPort_def externalMapping_def)

lemma mappedPort_dangling [simp]: "mappedPort (danglingMapping nh n inp i) = (n, i)"
  by (simp add: mappedPort_def danglingMapping_def)

lemma count_list_map_filter:
  "count_list (map f (filter P xs)) k = length (filter (\<lambda>x. P x \<and> f x = k) xs)"
  by (induction xs) auto

lemma count_list_absent: "k \<notin> set xs \<Longrightarrow> count_list xs k = 0"
  by (induction xs) auto

lemma dangling_ports_set:
  "set (concat (map (\<lambda>n. map (mappedPort \<circ> danglingMapping nh n inp) (danglingPorts cp n inp (cnt n))) ns))
     \<subseteq> {(n, i). (n, i, inp) \<notin> set cp}"
  by (auto simp add: danglingPorts_def)

lemma input_mapped_ports:
  "map mappedPort (inputMappingsOf nh ch d) =
     map (\<lambda>e. (internalNode e, internalPortIndex e)) (filter isInput (m_externalConnections d))
       @ concat (map (\<lambda>n. map (mappedPort \<circ> danglingMapping nh n True)
                   (danglingPorts (connectedPortsOf ch d) n True (m_inputPortCount (nh n))))
                 (m_internalNodes d))"
  by (simp add: inputMappingsOf_def map_concat comp_def)

lemma output_mapped_ports:
  "map mappedPort (outputMappingsOf nh ch d) =
     map (\<lambda>e. (internalNode e, internalPortIndex e))
         (filter (\<lambda>e. \<not> isInput e) (m_externalConnections d))
       @ concat (map (\<lambda>n. map (mappedPort \<circ> danglingMapping nh n False)
                   (danglingPorts (connectedPortsOf ch d) n False (m_outputPortCount (nh n))))
                 (m_internalNodes d))"
  by (simp add: outputMappingsOf_def map_concat comp_def)

lemma dangling_count_zero:
  assumes "(n0, i0, inp) \<in> set cp"
  shows "count_list (concat (map (\<lambda>n. map (mappedPort \<circ> danglingMapping nh n inp)
            (danglingPorts cp n inp (cnt n))) ns)) (n0, i0) = 0"
proof (rule count_list_absent)
  show "(n0, i0) \<notin> set (concat (map (\<lambda>n. map (mappedPort \<circ> danglingMapping nh n inp)
            (danglingPorts cp n inp (cnt n))) ns))"
    using dangling_ports_set [of nh inp cp cnt ns] assms by auto
qed

lemma external_key_connected:
  "e \<in> set (m_externalConnections d) \<Longrightarrow>
     (internalNode e, internalPortIndex e, isInput e) \<in> set (connectedPortsOf ch d)"
  by (auto simp add: connectedPortsOf_def externalKey_def)

lemma internal_keys_connected:
  assumes "c \<in> set (m_internalConnections d)"
  shows "(m_toNode (ch c), m_toPortIndex (ch c), True) \<in> set (connectedPortsOf ch d)"
    and "(m_fromNode (ch c), m_fromPortIndex (ch c), False) \<in> set (connectedPortsOf ch d)"
  using assms by (auto simp add: connectedPortsOf_def internalKeys_def)

lemma input_count:
  assumes "(n0, i0, True) \<in> set (connectedPortsOf ch d)"
  shows "count_list (map mappedPort (inputMappingsOf nh ch d)) (n0, i0) =
    length (filter (\<lambda>e. isInput e \<and> internalNode e = n0 \<and> internalPortIndex e = i0)
              (m_externalConnections d))"
  unfolding input_mapped_ports
  using dangling_count_zero [OF assms, of nh "\<lambda>n. m_inputPortCount (nh n)" "m_internalNodes d"]
    count_list_map_filter [of "\<lambda>e. (internalNode e, internalPortIndex e)" isInput
      "m_externalConnections d" "(n0, i0)"]
  by simp

lemma output_count:
  assumes "(n0, i0, False) \<in> set (connectedPortsOf ch d)"
  shows "count_list (map mappedPort (outputMappingsOf nh ch d)) (n0, i0) =
    length (filter (\<lambda>e. \<not> isInput e \<and> internalNode e = n0 \<and> internalPortIndex e = i0)
              (m_externalConnections d))"
  unfolding output_mapped_ports
  using dangling_count_zero [OF assms, of nh "\<lambda>n. m_outputPortCount (nh n)" "m_internalNodes d"]
    count_list_map_filter [of "\<lambda>e. (internalNode e, internalPortIndex e)" "\<lambda>e. \<not> isInput e"
      "m_externalConnections d" "(n0, i0)"]
  by simp


text \<open>
  C2, amended. After \<open>calculatePortMappings\<close>, a port that has an internal connection or
  is the internal end of an external connection occurs in the mapping list of its
  direction exactly as many times as there are external-connection descriptors of that
  direction with that internal end. So a port with an internal connection never occurs
  unless an external connection ends on it too, and the internal end of an external
  connection occurs exactly once when no other descriptor shares it, and once for each
  descriptor when several external connections share it.
\<close>

theorem port_mapping_exclusivity:
  assumes "m_group g = Some d"
    and "g' = calcPortMappings nh ch g"
    and "exts = m_externalConnections d"
  shows
   "(c \<in> set (m_internalConnections d) \<longrightarrow>
       count_list (map mappedPort (inputPortMappings g')) (m_toNode (ch c), m_toPortIndex (ch c))
         = length (filter (\<lambda>e. isInput e \<and> internalNode e = m_toNode (ch c)
                               \<and> internalPortIndex e = m_toPortIndex (ch c)) exts) \<and>
       count_list (map mappedPort (outputPortMappings g')) (m_fromNode (ch c), m_fromPortIndex (ch c))
         = length (filter (\<lambda>e. \<not> isInput e \<and> internalNode e = m_fromNode (ch c)
                               \<and> internalPortIndex e = m_fromPortIndex (ch c)) exts)) \<and>
    (e \<in> set exts \<and> isInput e \<longrightarrow>
       count_list (map mappedPort (inputPortMappings g')) (internalNode e, internalPortIndex e)
         = length (filter (\<lambda>e'. isInput e' \<and> internalNode e' = internalNode e
                               \<and> internalPortIndex e' = internalPortIndex e) exts)) \<and>
    (e \<in> set exts \<and> \<not> isInput e \<longrightarrow>
       count_list (map mappedPort (outputPortMappings g')) (internalNode e, internalPortIndex e)
         = length (filter (\<lambda>e'. \<not> isInput e' \<and> internalNode e' = internalNode e
                               \<and> internalPortIndex e' = internalPortIndex e) exts))"
proof -
  have im: "inputPortMappings g' = inputMappingsOf nh ch d"
    and om: "outputPortMappings g' = outputMappingsOf nh ch d"
    unfolding assms(2)
    by (simp_all add: inputPortMappings_def outputPortMappings_def
        calcPortMappings_fields [OF assms(1)])
  have a: "c \<in> set (m_internalConnections d) \<Longrightarrow>
       count_list (map mappedPort (inputPortMappings g')) (m_toNode (ch c), m_toPortIndex (ch c))
         = length (filter (\<lambda>e. isInput e \<and> internalNode e = m_toNode (ch c)
                               \<and> internalPortIndex e = m_toPortIndex (ch c)) exts)"
    unfolding im assms(3) by (rule input_count) (rule internal_keys_connected)
  have b: "c \<in> set (m_internalConnections d) \<Longrightarrow>
       count_list (map mappedPort (outputPortMappings g')) (m_fromNode (ch c), m_fromPortIndex (ch c))
         = length (filter (\<lambda>e. \<not> isInput e \<and> internalNode e = m_fromNode (ch c)
                               \<and> internalPortIndex e = m_fromPortIndex (ch c)) exts)"
    unfolding om assms(3) by (rule output_count) (rule internal_keys_connected)
  have c: "e \<in> set exts \<and> isInput e \<Longrightarrow>
       count_list (map mappedPort (inputPortMappings g')) (internalNode e, internalPortIndex e)
         = length (filter (\<lambda>e'. isInput e' \<and> internalNode e' = internalNode e
                               \<and> internalPortIndex e' = internalPortIndex e) exts)"
    unfolding im assms(3)
    using external_key_connected [of e d ch] by (intro input_count) auto
  have d: "e \<in> set exts \<and> \<not> isInput e \<Longrightarrow>
       count_list (map mappedPort (outputPortMappings g')) (internalNode e, internalPortIndex e)
         = length (filter (\<lambda>e'. \<not> isInput e' \<and> internalNode e' = internalNode e
                               \<and> internalPortIndex e' = internalPortIndex e) exts)"
    unfolding om assms(3)
    using external_key_connected [of e d ch] by (intro output_count) auto
  from a b c d show ?thesis by blast
qed

lemma chainScene_facts:
  "m_inputPortCount (nodeHeap chainScene 10) = 1"
  "m_outputPortCount (nodeHeap chainScene 10) = 1"
  "m_inputPortCount (nodeHeap chainScene 11) = 1"
  "m_outputPortCount (nodeHeap chainScene 11) = 1"
  "m_sceneConnections chainScene = [13, 14]"
  "connectionHeap chainScene 13 = \<lparr>m_fromNode = 10, m_toNode = 11, m_fromPortIndex = 0, m_toPortIndex = 0, m_lineType = Bezier\<rparr>"
  "connectionHeap chainScene 14 = \<lparr>m_fromNode = 11, m_toNode = 12, m_fromPortIndex = 0, m_toPortIndex = 0, m_lineType = Bezier\<rparr>"
  by (simp_all add: chainScene_def scene_eval conn_eval)

lemma chain_group_data:
  "m_group (setExternalConnections chainExternal
          (setInternalConnections [13]
             (setInternalNodes [10, 11] (GroupNode_new Map.empty groupName (25, 25)))))
    = Some (GroupData_empty\<lparr>m_internalNodes := [10, 11], m_internalConnections := [13],
         m_externalConnections := chainExternal\<rparr>)"
  by (simp add: setExternalConnections_def setInternalConnections_def setInternalNodes_def
      mapGroup_def GroupNode_new_def setDisplayTypeName_def setCustomColor_def Node_new_def Let_def)

theorem port_mapping_exclusivity_witness:
  "count_list (map mappedPort (inputPortMappings chainGroup)) (11, 0) = 0 \<and>
   count_list (map mappedPort (outputPortMappings chainGroup)) (10, 0) = 0 \<and>
   count_list (map mappedPort (outputPortMappings chainGroup)) (11, 0) = 1"
  using port_mapping_exclusivity [where nh = "nodeHeap chainScene"
      and ch = "connectionHeap chainScene" and c = 13 and e = "hd chainExternal",
      OF chain_group_data refl refl]
  unfolding chainGroup_def [symmetric]
  by (simp add: chainScene_facts GroupData_empty_def chainExternal_def)

lemma fanout_group_data:
  "m_group (setExternalConnections fanoutExternal
          (setInternalNodes [10, 11] (GroupNode_new Map.empty groupName (25, 25))))
    = Some (GroupData_empty\<lparr>m_internalNodes := [10, 11], m_externalConnections := fanoutExternal\<rparr>)"
  by (simp add: setExternalConnections_def setInternalNodes_def
      mapGroup_def GroupNode_new_def setDisplayTypeName_def setCustomColor_def Node_new_def Let_def)

text \<open>
  The claim as stated fails for two external connections that share their internal end:
  the output port 0 of node 10 is mapped twice.
\<close>

theorem port_mapping_exclusivity_counterexample:
  "count_list (map mappedPort (outputPortMappings fanoutGroup)) (10, 0) = 2"
  unfolding fanoutGroup_def outputPortMappings_def calcPortMappings_fields(3) [OF fanout_group_data]
  by (simp add: output_mapped_ports fanoutExternal_def GroupData_empty_def connectedPortsOf_def
      internalKeys_def externalKey_def danglingPorts_def fanoutScene_facts upto_rec1)

subsection \<open>Merging of move commands\<close>










subsection \<open>No command touches the undo stack\<close>

lemma fold_keeps:
  assumes "\<And>x s. P (f x s) = P s"
  shows "P (fold f xs s) = P s"
  using assms by (induction xs arbitrary: s) simp_all



lemma stack_updNode [simp]: "m_undoStack (updNode p f s) = m_undoStack s"
  by (simp add: updNode_def)

lemma stack_updNodeIfNotNull [simp]: "m_undoStack (updNodeIfNotNull p f s) = m_undoStack s"
  by (simp add: updNodeIfNotNull_def)

lemma stack_newNode [simp]: "m_undoStack (snd (newNode n s)) = m_undoStack s"
  by (simp add: newNode_def)

lemma stack_Connection_new [simp]:
  "m_undoStack (snd (Connection_new a i b j s)) = m_undoStack s"
  by (simp add: Connection_new_def Let_def)

lemma stack_setLineType [simp]: "m_undoStack (setLineType c t s) = m_undoStack s"
  by (simp add: setLineType_def)

lemma stack_createNode [simp]: "m_undoStack (snd (createNode t p s)) = m_undoStack s"
  by (simp add: createNode_def Let_def newNode_def)

lemma stack_removeNodeFromScene [simp]: "m_undoStack (removeNodeFromScene n s) = m_undoStack s"
  by (simp add: removeNodeFromScene_def)

lemma stack_restoreNodeToScene [simp]: "m_undoStack (restoreNodeToScene n s) = m_undoStack s"
  by (simp add: restoreNodeToScene_def)

lemma stack_createConnection [simp]:
  "m_undoStack (snd (createConnection a i b j s)) = m_undoStack s"
  by (simp add: createConnection_def Let_def split_beta)

lemma stack_removeConnectionFromScene [simp]:
  "m_undoStack (removeConnectionFromScene c s) = m_undoStack s"
  by (simp add: removeConnectionFromScene_def Let_def)

lemma stack_restoreConnectionToScene [simp]:
  "m_undoStack (restoreConnectionToScene c s) = m_undoStack s"
  by (simp add: restoreConnectionToScene_def Let_def)


lemma stack_removeOriginalConnection [simp]:
  "m_undoStack (removeOriginalConnection e s) = m_undoStack s"
  by (simp add: removeOriginalConnection_def)

lemma stack_restoreOriginalConnection [simp]:
  "m_undoStack (restoreOriginalConnection e s) = m_undoStack s"
  by (simp add: restoreOriginalConnection_def)















subsection \<open>Grouping and ungrouping\<close>

lemma nodeBody_simps [simp]:
  "nodeBody (setPos p n) = nodeBody n"
  "nodeBody (addConnection c n) = nodeBody n"
  "nodeBody (removeConnection c n) = nodeBody n"
  by (simp_all add: nodeBody_def setPos_def addConnection_def removeConnection_def)

lemma pos_simps [simp]:
  "pos (setPos p n) = p"
  "pos (addConnection c n) = pos n"
  "pos (removeConnection c n) = pos n"
  by (simp_all add: setPos_def addConnection_def removeConnection_def)

lemma conns_simps [simp]:
  "m_connections (setPos p n) = m_connections n"
  "m_connections (addConnection c n) = m_connections n @ [c]"
  "m_connections (removeConnection c n) = removeAll c (m_connections n)"
  by (simp_all add: setPos_def addConnection_def removeConnection_def)

lemma group_simps [simp]:
  "m_group (setPos p n) = m_group n"
  "m_group (addConnection c n) = m_group n"
  "m_group (removeConnection c n) = m_group n"
  by (simp_all add: setPos_def addConnection_def removeConnection_def)

subsection \<open>Fields after the primitives\<close>

lemma updNode_fields [simp]:
  "m_nodes (updNode p f s) = m_nodes s"
  "m_sceneConnections (updNode p f s) = m_sceneConnections s"
  "connectionHeap (updNode p f s) = connectionHeap s"
  "nextPtr (updNode p f s) = nextPtr s"
  "nodeLibrary (updNode p f s) = nodeLibrary s"
  "nodeHeap (updNode p f s) n = (if n = p then f (nodeHeap s p) else nodeHeap s n)"
  by (simp_all add: updNode_def)

lemma updNodeIfNotNull_fields [simp]:
  "m_nodes (updNodeIfNotNull p f s) = m_nodes s"
  "m_sceneConnections (updNodeIfNotNull p f s) = m_sceneConnections s"
  "connectionHeap (updNodeIfNotNull p f s) = connectionHeap s"
  "nextPtr (updNodeIfNotNull p f s) = nextPtr s"
  "nodeLibrary (updNodeIfNotNull p f s) = nodeLibrary s"
  "nodeHeap (updNodeIfNotNull p f s) n = (if n = p \<and> p \<noteq> nullptr then f (nodeHeap s p) else nodeHeap s n)"
  by (simp_all add: updNodeIfNotNull_def)

lemma removeNodeFromScene_fields [simp]:
  "m_nodes (removeNodeFromScene p s) = removeAll p (m_nodes s)"
  "m_sceneConnections (removeNodeFromScene p s) = m_sceneConnections s"
  "connectionHeap (removeNodeFromScene p s) = connectionHeap s"
  "nextPtr (removeNodeFromScene p s) = nextPtr s"
  "nodeLibrary (removeNodeFromScene p s) = nodeLibrary s"
  "nodeHeap (removeNodeFromScene p s) = nodeHeap s"
  by (simp_all add: removeNodeFromScene_def)

lemma restoreNodeToScene_fields [simp]:
  "m_nodes (restoreNodeToScene p s) = m_nodes s @ [p]"
  "m_sceneConnections (restoreNodeToScene p s) = m_sceneConnections s"
  "connectionHeap (restoreNodeToScene p s) = connectionHeap s"
  "nextPtr (restoreNodeToScene p s) = nextPtr s"
  "nodeLibrary (restoreNodeToScene p s) = nodeLibrary s"
  "nodeHeap (restoreNodeToScene p s) = nodeHeap s"
  by (simp_all add: restoreNodeToScene_def)

lemma removeConnectionFromScene_fields [simp]:
  "m_nodes (removeConnectionFromScene c s) = m_nodes s"
  "m_sceneConnections (removeConnectionFromScene c s) = removeAll c (m_sceneConnections s)"
  "connectionHeap (removeConnectionFromScene c s) = connectionHeap s"
  "nextPtr (removeConnectionFromScene c s) = nextPtr s"
  "nodeLibrary (removeConnectionFromScene c s) = nodeLibrary s"
  "nodeBody (nodeHeap (removeConnectionFromScene c s) n) = nodeBody (nodeHeap s n)"
  "pos (nodeHeap (removeConnectionFromScene c s) n) = pos (nodeHeap s n)"
  "m_group (nodeHeap (removeConnectionFromScene c s) n) = m_group (nodeHeap s n)"
  by (simp_all add: removeConnectionFromScene_def Let_def)

lemma removeConnectionFromScene_conns:
  "m_connections (nodeHeap (removeConnectionFromScene c s) n) =
     (if n \<noteq> nullptr \<and> (n = m_fromNode (connectionHeap s c) \<or> n = m_toNode (connectionHeap s c))
      then removeAll c (m_connections (nodeHeap s n)) else m_connections (nodeHeap s n))"
  by (auto simp add: removeConnectionFromScene_def Let_def)

lemma restoreConnectionToScene_fields [simp]:
  "m_nodes (restoreConnectionToScene c s) = m_nodes s"
  "m_sceneConnections (restoreConnectionToScene c s) = m_sceneConnections s @ [c]"
  "connectionHeap (restoreConnectionToScene c s) = connectionHeap s"
  "nextPtr (restoreConnectionToScene c s) = nextPtr s"
  "nodeLibrary (restoreConnectionToScene c s) = nodeLibrary s"
  "nodeBody (nodeHeap (restoreConnectionToScene c s) n) = nodeBody (nodeHeap s n)"
  "pos (nodeHeap (restoreConnectionToScene c s) n) = pos (nodeHeap s n)"
  "m_group (nodeHeap (restoreConnectionToScene c s) n) = m_group (nodeHeap s n)"
  by (simp_all add: restoreConnectionToScene_def Let_def)

lemma Connection_new_fields [simp]:
  "fst (Connection_new a i b j s) = nextPtr s"
  "m_nodes (snd (Connection_new a i b j s)) = m_nodes s"
  "m_sceneConnections (snd (Connection_new a i b j s)) = m_sceneConnections s"
  "connectionHeap (snd (Connection_new a i b j s)) =
     (connectionHeap s)(nextPtr s := \<lparr>m_fromNode = a, m_toNode = b, m_fromPortIndex = i,
        m_toPortIndex = j, m_lineType = Bezier\<rparr>)"
  "nextPtr (snd (Connection_new a i b j s)) = Suc (nextPtr s)"
  "nodeLibrary (snd (Connection_new a i b j s)) = nodeLibrary s"
  "nodeBody (nodeHeap (snd (Connection_new a i b j s)) n) = nodeBody (nodeHeap s n)"
  "pos (nodeHeap (snd (Connection_new a i b j s)) n) = pos (nodeHeap s n)"
  "m_group (nodeHeap (snd (Connection_new a i b j s)) n) = m_group (nodeHeap s n)"
  by (simp_all add: Connection_new_def Let_def)

lemma Connection_new_conns:
  "m_connections (nodeHeap (snd (Connection_new a i b j s)) n) =
     m_connections (nodeHeap s n)
       @ (if n = a \<and> a \<noteq> nullptr then [nextPtr s] else [])
       @ (if n = b \<and> b \<noteq> nullptr then [nextPtr s] else [])"
  by (auto simp add: Connection_new_def Let_def)

lemma newNode_fields [simp]:
  "fst (newNode x s) = nextPtr s"
  "m_nodes (snd (newNode x s)) = m_nodes s"
  "m_sceneConnections (snd (newNode x s)) = m_sceneConnections s"
  "connectionHeap (snd (newNode x s)) = connectionHeap s"
  "nextPtr (snd (newNode x s)) = Suc (nextPtr s)"
  "nodeLibrary (snd (newNode x s)) = nodeLibrary s"
  "nodeHeap (snd (newNode x s)) = (nodeHeap s)(nextPtr s := x)"
  by (simp_all add: newNode_def)



lemma forEach_keeps:
  assumes "\<And>x s. P (f x s) = P s"
  shows "P (forEach f xs s) = P s"
  unfolding forEach_def using assms by (rule fold_keeps)

lemma forEach_Nil [simp]: "forEach f [] s = s"
  by (simp add: forEach_def)

lemma forEach_Cons [simp]: "forEach f (x # xs) s = forEach f xs (f x s)"
  by (simp add: forEach_def)

lemma removeAll_filter_set: "fold removeAll xs ys = filter (\<lambda>y. y \<notin> set xs) ys"
  by (induction xs arbitrary: ys) (auto simp add: removeAll_filter_not_eq intro: filter_cong)

subsection \<open>Removing and restoring lists of connections and nodes\<close>

lemma forEach_removeConnections [simp]:
  "m_nodes (forEach removeConnectionFromScene cs s) = m_nodes s"
  "connectionHeap (forEach removeConnectionFromScene cs s) = connectionHeap s"
  "nextPtr (forEach removeConnectionFromScene cs s) = nextPtr s"
  "nodeLibrary (forEach removeConnectionFromScene cs s) = nodeLibrary s"
  "nodeBody (nodeHeap (forEach removeConnectionFromScene cs s) n) = nodeBody (nodeHeap s n)"
  "pos (nodeHeap (forEach removeConnectionFromScene cs s) n) = pos (nodeHeap s n)"
  "m_group (nodeHeap (forEach removeConnectionFromScene cs s) n) = m_group (nodeHeap s n)"
  by (rule forEach_keeps, simp)+

lemma forEach_removeConnections_list [simp]:
  "m_sceneConnections (forEach removeConnectionFromScene cs s)
     = filter (\<lambda>c. c \<notin> set cs) (m_sceneConnections s)"
proof (induction cs arbitrary: s)
  case Nil
  then show ?case by simp
next
  case (Cons c cs)
  then show ?case
    by (auto simp add: removeAll_filter_not_eq intro: filter_cong)
qed

lemma forEach_removeConnections_empty:
  "m_connections (nodeHeap s n) = [] \<Longrightarrow>
     m_connections (nodeHeap (forEach removeConnectionFromScene cs s) n) = []"
  by (induction cs arbitrary: s) (simp_all add: removeConnectionFromScene_conns)

lemma forEach_removeNodes [simp]:
  "m_sceneConnections (forEach removeNodeFromScene ns s) = m_sceneConnections s"
  "connectionHeap (forEach removeNodeFromScene ns s) = connectionHeap s"
  "nextPtr (forEach removeNodeFromScene ns s) = nextPtr s"
  "nodeLibrary (forEach removeNodeFromScene ns s) = nodeLibrary s"
  "nodeHeap (forEach removeNodeFromScene ns s) = nodeHeap s"
  by (rule forEach_keeps, simp)+

lemma forEach_removeNodes_list [simp]:
  "m_nodes (forEach removeNodeFromScene ns s) = filter (\<lambda>n. n \<notin> set ns) (m_nodes s)"
proof (induction ns arbitrary: s)
  case Nil
  then show ?case by simp
next
  case (Cons n ns)
  then show ?case
    by (auto simp add: removeAll_filter_not_eq intro: filter_cong)
qed

lemma forEach_restoreConnections [simp]:
  "m_nodes (forEach restoreConnectionToScene cs s) = m_nodes s"
  "connectionHeap (forEach restoreConnectionToScene cs s) = connectionHeap s"
  "nextPtr (forEach restoreConnectionToScene cs s) = nextPtr s"
  "nodeLibrary (forEach restoreConnectionToScene cs s) = nodeLibrary s"
  "nodeBody (nodeHeap (forEach restoreConnectionToScene cs s) n) = nodeBody (nodeHeap s n)"
  "pos (nodeHeap (forEach restoreConnectionToScene cs s) n) = pos (nodeHeap s n)"
  "m_group (nodeHeap (forEach restoreConnectionToScene cs s) n) = m_group (nodeHeap s n)"
  by (rule forEach_keeps, simp)+

lemma forEach_restoreConnections_list [simp]:
  "m_sceneConnections (forEach restoreConnectionToScene cs s) = m_sceneConnections s @ cs"
  by (induction cs arbitrary: s) simp_all

lemma forEach_restoreNodes [simp]:
  "m_sceneConnections (forEach restoreNodeToScene ns s) = m_sceneConnections s"
  "connectionHeap (forEach restoreNodeToScene ns s) = connectionHeap s"
  "nextPtr (forEach restoreNodeToScene ns s) = nextPtr s"
  "nodeLibrary (forEach restoreNodeToScene ns s) = nodeLibrary s"
  "nodeHeap (forEach restoreNodeToScene ns s) = nodeHeap s"
  by (rule forEach_keeps, simp)+

lemma forEach_restoreNodes_list [simp]:
  "m_nodes (forEach restoreNodeToScene ns s) = m_nodes s @ ns"
  by (induction ns arbitrary: s) simp_all

subsection \<open>The original connections of external connections\<close>

lemma restoreOriginalConnection_fields [simp]:
  "m_nodes (restoreOriginalConnection e s) = m_nodes s"
  "connectionHeap (restoreOriginalConnection e s) = connectionHeap s"
  "nextPtr (restoreOriginalConnection e s) = nextPtr s"
  "nodeLibrary (restoreOriginalConnection e s) = nodeLibrary s"
  "nodeBody (nodeHeap (restoreOriginalConnection e s) n) = nodeBody (nodeHeap s n)"
  "pos (nodeHeap (restoreOriginalConnection e s) n) = pos (nodeHeap s n)"
  "m_group (nodeHeap (restoreOriginalConnection e s) n) = m_group (nodeHeap s n)"
  by (simp_all add: restoreOriginalConnection_def)

lemma forEach_restoreOriginal [simp]:
  "m_nodes (forEach restoreOriginalConnection es s) = m_nodes s"
  "connectionHeap (forEach restoreOriginalConnection es s) = connectionHeap s"
  "nextPtr (forEach restoreOriginalConnection es s) = nextPtr s"
  "nodeLibrary (forEach restoreOriginalConnection es s) = nodeLibrary s"
  "nodeBody (nodeHeap (forEach restoreOriginalConnection es s) n) = nodeBody (nodeHeap s n)"
  "pos (nodeHeap (forEach restoreOriginalConnection es s) n) = pos (nodeHeap s n)"
  "m_group (nodeHeap (forEach restoreOriginalConnection es s) n) = m_group (nodeHeap s n)"
  by (rule forEach_keeps, simp)+

lemma forEach_restoreOriginal_list [simp]:
  "m_sceneConnections (forEach restoreOriginalConnection es s)
     = m_sceneConnections s @ filter (\<lambda>c. c \<noteq> nullptr) (map originalConnection es)"
  by (induction es arbitrary: s) (simp_all add: restoreOriginalConnection_def)

subsection \<open>The map of original positions\<close>

lemma map_of_qmapInsert: "map_of (qmapInsert k v m) = (map_of m)(k \<mapsto> v)"
  by (induction m) (auto simp add: fun_eq_iff)

lemma keys_qmapInsert: "fst ` set (qmapInsert k v m) = insert k (fst ` set m)"
  using arg_cong [OF map_of_qmapInsert [of k v m], of dom]
  by (simp add: dom_map_of_conv_image_fst)

lemma mset_qmapInsert:
  "k \<notin> fst ` set m \<Longrightarrow> mset (qmapInsert k v m) = add_mset (k, v) (mset m)"
  by (induction m) auto

lemma positions_fold:
  assumes "distinct ns" and "set ns \<inter> fst ` set m = {}"
  shows "mset (fold (\<lambda>n m. qmapInsert n (f n) m) ns m) = mset m + mset (map (\<lambda>n. (n, f n)) ns)
    \<and> map_of (fold (\<lambda>n m. qmapInsert n (f n) m) ns m)
        = (\<lambda>k. if k \<in> set ns then Some (f k) else map_of m k)"
  using assms
proof (induction ns arbitrary: m)
  case Nil
  then show ?case by simp
next
  case (Cons n ns)
  from Cons.prems have n: "n \<notin> fst ` set m" and d: "distinct ns" and nn: "n \<notin> set ns"
    and disj: "set ns \<inter> fst ` set (qmapInsert n (f n) m) = {}"
    by (auto simp add: keys_qmapInsert)
  from Cons.IH [OF d disj] mset_qmapInsert [OF n, of "f n"] nn
  show ?case by (auto simp add: map_of_qmapInsert fun_eq_iff)
qed





lemma originalPositions_lookup:
  assumes "distinct ns" and "n \<in> set ns"
  shows "qmapSubscript n (fold (\<lambda>n m. qmapInsert n (f n) m) ns [])
     = (f n, fold (\<lambda>n m. qmapInsert n (f n) m) ns [])"
  using positions_fold [OF assms(1), of "[]" f] assms(2)
  by (simp add: qmapSubscript_def)



subsection \<open>Classification of the connections\<close>




lemma classify_fold:
  "fold (classifyConnection s S) cs (i0, e0) =
     (i0 @ filter (isInternalConnection s S) cs,
      e0 @ map (externalOf s S) (filter (isExternalConnection s S) cs))"
proof (induction cs arbitrary: i0 e0)
  case Nil
  then show ?case by simp
next
  case (Cons c cs)
  show ?case
    unfolding fold_Cons comp_def
    by (simp add: classifyConnection_def Let_def Cons.IH isInternalConnection_def
        isExternalConnection_def externalOf_def)
qed

lemma originalConnection_externalOf [simp]: "originalConnection (externalOf s S c) = c"
  by (simp add: externalOf_def)

lemma externalNode_externalOf:
  "externalNode (externalOf s S c) = m_fromNode (connectionHeap s c)
   \<or> externalNode (externalOf s S c) = m_toNode (connectionHeap s c)"
  by (simp add: externalOf_def)

subsection \<open>The loop that connects the group node\<close>

lemma connectGroup_fold:
  "fst (fold (connectGroup g im om) es (acc, s)) = acc @ [nextPtr s ..< nextPtr s + length es]
   \<and> m_sceneConnections (snd (fold (connectGroup g im om) es (acc, s)))
        = m_sceneConnections s @ [nextPtr s ..< nextPtr s + length es]
   \<and> nextPtr (snd (fold (connectGroup g im om) es (acc, s))) = nextPtr s + length es
   \<and> m_nodes (snd (fold (connectGroup g im om) es (acc, s))) = m_nodes s
   \<and> nodeLibrary (snd (fold (connectGroup g im om) es (acc, s))) = nodeLibrary s
   \<and> (\<forall>n. nodeBody (nodeHeap (snd (fold (connectGroup g im om) es (acc, s))) n) = nodeBody (nodeHeap s n)
          \<and> pos (nodeHeap (snd (fold (connectGroup g im om) es (acc, s))) n) = pos (nodeHeap s n)
          \<and> m_group (nodeHeap (snd (fold (connectGroup g im om) es (acc, s))) n) = m_group (nodeHeap s n))
   \<and> (\<forall>c < nextPtr s. connectionHeap (snd (fold (connectGroup g im om) es (acc, s))) c = connectionHeap s c)"
proof (induction es arbitrary: acc s)
  case Nil
  then show ?case by simp
next
  case (Cons e es)
  obtain acc1 s1 where st: "connectGroup g im om e (acc, s) = (acc1, s1)"
    by (cases "connectGroup g im om e (acc, s)")
  have one: "acc1 = acc @ [nextPtr s]"
    "m_sceneConnections s1 = m_sceneConnections s @ [nextPtr s]"
    "nextPtr s1 = Suc (nextPtr s)"
    "m_nodes s1 = m_nodes s"
    "nodeLibrary s1 = nodeLibrary s"
    "\<And>n. nodeBody (nodeHeap s1 n) = nodeBody (nodeHeap s n)"
    "\<And>n. pos (nodeHeap s1 n) = pos (nodeHeap s n)"
    "\<And>n. m_group (nodeHeap s1 n) = m_group (nodeHeap s n)"
    "\<And>c. c < nextPtr s \<Longrightarrow> connectionHeap s1 c = connectionHeap s c"
    using st by (auto simp add: connectGroup_def Let_def split_beta split: if_splits)
  have up: "nextPtr s # [Suc (nextPtr s) ..< Suc (nextPtr s + length es)]
      = [nextPtr s ..< Suc (nextPtr s + length es)]"
    by (simp add: upt_rec)
  from Cons.IH [of acc1 s1] show ?case
    unfolding fold_Cons comp_def st
    using up by (simp add: one)
qed

lemma connectGroup_fold_conns:
  assumes "g \<noteq> nullptr" and "\<forall>e \<in> set es. externalNode e \<noteq> g"
  shows "m_connections (nodeHeap (snd (fold (connectGroup g im om) es (acc, s))) g)
     = m_connections (nodeHeap s g) @ [nextPtr s ..< nextPtr s + length es]"
  using assms(2)
proof (induction es arbitrary: acc s)
  case Nil
  then show ?case by simp
next
  case (Cons e es)
  obtain acc1 s1 where st: "connectGroup g im om e (acc, s) = (acc1, s1)"
    by (cases "connectGroup g im om e (acc, s)")
  from Cons.prems have ne: "externalNode e \<noteq> g" by simp
  have one: "nextPtr s1 = Suc (nextPtr s)"
    "m_connections (nodeHeap s1 g) = m_connections (nodeHeap s g) @ [nextPtr s]"
    using st assms(1) ne
    by (auto simp add: connectGroup_def Let_def split_beta Connection_new_conns split: if_splits)
  have up: "nextPtr s # [Suc (nextPtr s) ..< Suc (nextPtr s + length es)]
      = [nextPtr s ..< Suc (nextPtr s + length es)]"
    by (simp add: upt_rec)
  from Cons.IH [of acc1 s1] Cons.prems show ?case
    unfolding fold_Cons comp_def st
    using up by (simp add: one)
qed

subsection \<open>The loop that puts the internal nodes back\<close>




lemma push_fields:
  "m_nodes (push cmd s) = m_nodes (snd (redo cmd s))"
  "m_sceneConnections (push cmd s) = m_sceneConnections (snd (redo cmd s))"
  "connectionHeap (push cmd s) = connectionHeap (snd (redo cmd s))"
  "nodeHeap (push cmd s) = nodeHeap (snd (redo cmd s))"
  "nextPtr (push cmd s) = nextPtr (snd (redo cmd s))"
  "nodeLibrary (push cmd s) = nodeLibrary (snd (redo cmd s))"
  by (simp_all add: push_def split_beta Let_def)

subsection \<open>The group node as the first redo builds it\<close>

lemma built_group_fields:
  fixes lib name center S int exts M
  defines "g4 \<equiv> setOriginalPositions M (setExternalConnections exts
              (setInternalConnections int (setInternalNodes S (GroupNode_new lib name center))))"
  shows "m_group g4 = Some (GroupData_empty\<lparr>m_internalNodes := S, m_internalConnections := int,
            m_externalConnections := exts, m_originalPositions := M\<rparr>)"
    and "pos g4 = center"
    and "m_connections g4 = []"
  unfolding g4_def
  by (simp_all add: setOriginalPositions_def setExternalConnections_def
      setInternalConnections_def setInternalNodes_def mapGroup_def GroupNode_new_def
      setDisplayTypeName_def setCustomColor_def Node_new_def Let_def)

lemma group_redo_first:
  fixes s :: NodeScene and S int exts
  defines "c \<equiv> GroupNodesCommand_new S int exts s"
  defines "g \<equiv> nextPtr s"
  defines "s6 \<equiv> snd (GroupNodesCommand_redo c s)"
  assumes "g \<noteq> nullptr" and "\<forall>e \<in> set exts. externalNode e \<noteq> g"
  shows "m_nodes s6 = filter (\<lambda>n. n \<notin> set S) (m_nodes s) @ [g]"
    and "m_sceneConnections s6 =
           filter (\<lambda>c. c \<notin> set int)
             (filter (\<lambda>c. c \<notin> set (map originalConnection exts)) (m_sceneConnections s))
           @ [Suc g ..< Suc g + length exts]"
    and "nextPtr s6 = Suc g + length exts"
    and "\<And>k. k \<le> g \<Longrightarrow> connectionHeap s6 k = connectionHeap s k"
    and "\<And>n. n \<noteq> g \<Longrightarrow> nodeBody (nodeHeap s6 n) = nodeBody (nodeHeap s n)"
    and "\<And>n. n \<noteq> g \<Longrightarrow> pos (nodeHeap s6 n) = pos (nodeHeap s n)"
    and "pos (nodeHeap s6 g) = centerOf (map (\<lambda>node. pos (nodeHeap s node)) S)"
    and "m_connections (nodeHeap s6 g) = [Suc g ..< Suc g + length exts]"
    and "\<exists>d. m_group (nodeHeap s6 g) = Some d \<and> m_internalNodes d = S
            \<and> m_internalConnections d = int \<and> m_externalConnections d = exts
            \<and> m_originalPositions d = gc_originalPositions c"
proof -
  define M where "M = gc_originalPositions c"
  define center where "center = centerOf (map (\<lambda>node. pos (nodeHeap s node)) S)"
  define g4 where "g4 = setOriginalPositions M (setExternalConnections exts
              (setInternalConnections int (setInternalNodes S
                 (GroupNode_new (nodeLibrary s) groupName center))))"
  define g5 where "g5 = calcPortMappings (nodeHeap s) (connectionHeap s) g4"
  define s5 where "s5 =
    (forEach removeNodeFromScene S
      (forEach removeConnectionFromScene int
        (forEach removeConnectionFromScene (map originalConnection exts)
          (snd (newNode g5 s)))))\<lparr>m_nodes :=
       m_nodes (forEach removeNodeFromScene S
      (forEach removeConnectionFromScene int
        (forEach removeConnectionFromScene (map originalConnection exts)
          (snd (newNode g5 s))))) @ [g]\<rparr>"
  have cf: "gc_firstRedo c" "gc_nodes c = S" "gc_internalConnections c = int"
    "gc_externalConnections c = exts" "gc_externalConnectionPtrs c = map originalConnection exts"
    "gc_newExternalConnections c = []"
    by (simp_all add: c_def GroupNodesCommand_new_def)
  have g4: "m_group g4 = Some (GroupData_empty\<lparr>m_internalNodes := S, m_internalConnections := int,
            m_externalConnections := exts, m_originalPositions := M\<rparr>)"
    "pos g4 = center" "m_connections g4 = []"
    unfolding g4_def by (rule built_group_fields)+
  have g5: "pos g5 = center" "m_connections g5 = []"
    "m_group g5 = Some (GroupData_empty\<lparr>m_internalNodes := S, m_internalConnections := int,
            m_externalConnections := exts, m_originalPositions := M,
            m_inputPortMappings := inputMappingsOf (nodeHeap s) (connectionHeap s)
               (GroupData_empty\<lparr>m_internalNodes := S, m_internalConnections := int,
            m_externalConnections := exts, m_originalPositions := M\<rparr>),
            m_outputPortMappings := outputMappingsOf (nodeHeap s) (connectionHeap s)
               (GroupData_empty\<lparr>m_internalNodes := S, m_internalConnections := int,
            m_externalConnections := exts, m_originalPositions := M\<rparr>)\<rparr>)"
    unfolding g5_def by (simp_all add: calcPortMappings_fields [OF g4(1)] g4)
  have s6: "s6 = snd (fold (connectGroup g (inputPortMappings (nodeHeap s5 g))
                        (outputPortMappings (nodeHeap s5 g))) exts ([], s5))"
    unfolding s6_def GroupNodesCommand_redo_def Let_def split_beta
    by (simp add: cf s5_def g5_def g4_def M_def [symmetric] center_def g_def)
  have s5: "m_nodes s5 = filter (\<lambda>n. n \<notin> set S) (m_nodes s) @ [g]"
    "m_sceneConnections s5 = filter (\<lambda>c. c \<notin> set int)
             (filter (\<lambda>c. c \<notin> set (map originalConnection exts)) (m_sceneConnections s))"
    "nextPtr s5 = Suc g"
    "connectionHeap s5 = connectionHeap s"
    "\<And>n. n \<noteq> g \<Longrightarrow> nodeBody (nodeHeap s5 n) = nodeBody (nodeHeap s n)"
    "\<And>n. n \<noteq> g \<Longrightarrow> pos (nodeHeap s5 n) = pos (nodeHeap s n)"
    "pos (nodeHeap s5 g) = center"
    "m_group (nodeHeap s5 g) = m_group g5"
    by (simp_all add: s5_def g_def g5)
  have s5c: "m_connections (nodeHeap s5 g) = []"
    unfolding s5_def
    by (simp add: forEach_removeConnections_empty g_def g5)
  note cg = connectGroup_fold [of g "inputPortMappings (nodeHeap s5 g)"
      "outputPortMappings (nodeHeap s5 g)" exts "[]" s5, folded s6]
  show "m_nodes s6 = filter (\<lambda>n. n \<notin> set S) (m_nodes s) @ [g]"
    using cg by (simp add: s5)
  show "m_sceneConnections s6 =
           filter (\<lambda>c. c \<notin> set int)
             (filter (\<lambda>c. c \<notin> set (map originalConnection exts)) (m_sceneConnections s))
           @ [Suc g ..< Suc g + length exts]"
    using cg by (simp add: s5)
  show "nextPtr s6 = Suc g + length exts"
    using cg by (simp add: s5)
  show "connectionHeap s6 k = connectionHeap s k" if "k \<le> g" for k
    using cg that by (simp add: s5)
  show "nodeBody (nodeHeap s6 n) = nodeBody (nodeHeap s n)" if "n \<noteq> g" for n
    using cg that by (simp add: s5)
  show "pos (nodeHeap s6 n) = pos (nodeHeap s n)" if "n \<noteq> g" for n
    using cg that by (simp add: s5)
  show "pos (nodeHeap s6 g) = centerOf (map (\<lambda>node. pos (nodeHeap s node)) S)"
    using cg by (simp add: s5 center_def)
  show "m_connections (nodeHeap s6 g) = [Suc g ..< Suc g + length exts]"
    using connectGroup_fold_conns [OF assms(4,5), of "inputPortMappings (nodeHeap s5 g)"
      "outputPortMappings (nodeHeap s5 g)" "[]" s5, folded s6]
    by (simp add: s5 s5c)
  show "\<exists>d. m_group (nodeHeap s6 g) = Some d \<and> m_internalNodes d = S
            \<and> m_internalConnections d = int \<and> m_externalConnections d = exts
            \<and> m_originalPositions d = gc_originalPositions c"
    using cg by (simp add: s5 g5 M_def)
qed






lemma groupSelected_eq:
  assumes "2 \<le> length (selectedNodesOf selected)"
  shows "groupSelected selected s =
    (True, push (GroupNodes (GroupNodesCommand_new (selectedNodesOf selected)
       (filter (isInternalConnection s (selectedNodesOf selected)) (m_sceneConnections s))
       (map (externalOf s (selectedNodesOf selected))
          (filter (isExternalConnection s (selectedNodesOf selected)) (m_sceneConnections s))) s)) s)"
  using assms by (simp add: groupSelected_def canGroup_def Let_def classify_fold)

lemma ungroupSelected_eq:
  assumes "isGroupNode s g"
  shows "ungroupSelected [NodeItem g] s =
    (True, push (UngroupNodes (UngroupNodesCommand_new g s)) s)"
  using assms by (simp add: ungroupSelected_def canUngroup_def selectedNodesOf_def)








lemma chainScene_more:
  "m_nodes chainScene = [10, 11, 12]"
  "nextPtr chainScene = 15"
  "pos (nodeHeap chainScene 10) = (0, 0)"
  "pos (nodeHeap chainScene 11) = (50, 50)"
  "pos (nodeHeap chainScene 12) = (400, 0)"
  by (simp_all add: chainScene_def scene_eval conn_eval)

lemma chainScene_ok: "sceneOk chainScene"
  by (simp add: sceneOk_def chainScene_facts chainScene_more nullptr_def)


subsection \<open>Loading a document that is no graph\<close>









subsection \<open>The scene after grouping\<close>

lemma connectGroup_fold_new:
  assumes "k < length es"
  shows "connectionHeap (snd (fold (connectGroup g im om) es (acc, s))) (nextPtr s + k)
     = groupConnection g im om (es ! k)"
  using assms
proof (induction es arbitrary: k acc s)
  case Nil
  then show ?case by simp
next
  case (Cons e es)
  obtain acc1 s1 where st: "connectGroup g im om e (acc, s) = (acc1, s1)"
    by (cases "connectGroup g im om e (acc, s)")
  have one: "nextPtr s1 = Suc (nextPtr s)"
    "connectionHeap s1 (nextPtr s) = groupConnection g im om e"
    using st by (auto simp add: connectGroup_def Let_def split_beta groupConnection_def
        split: if_splits)
  show ?case
  proof (cases k)
    case 0
    from connectGroup_fold [of g im om es acc1 s1] one
    show ?thesis
      unfolding fold_Cons comp_def st 0 by simp
  next
    case (Suc j)
    with Cons.prems have "j < length es" by simp
    from Cons.IH [OF this, of acc1 s1] show ?thesis
      unfolding fold_Cons comp_def st Suc by (simp add: one)
  qed
qed

lemma group_redo_node:
  fixes s :: NodeScene and S int exts
  defines "c \<equiv> GroupNodesCommand_new S int exts s"
  defines "g \<equiv> nextPtr s"
  defines "s6 \<equiv> snd (GroupNodesCommand_redo c s)"
  shows "nodeBody (nodeHeap s6 g) = nodeBody (builtGroupNode s S int exts)"
    and "m_group (nodeHeap s6 g) = m_group (builtGroupNode s S int exts)"
    and "\<And>k. k < length exts \<Longrightarrow> connectionHeap s6 (Suc g + k) =
           groupConnection g (inputPortMappings (builtGroupNode s S int exts))
             (outputPortMappings (builtGroupNode s S int exts)) (exts ! k)"
proof -
  define g5 where "g5 = builtGroupNode s S int exts"
  define s5 where "s5 =
    (forEach removeNodeFromScene S
      (forEach removeConnectionFromScene int
        (forEach removeConnectionFromScene (map originalConnection exts)
          (snd (newNode g5 s)))))\<lparr>m_nodes :=
       m_nodes (forEach removeNodeFromScene S
      (forEach removeConnectionFromScene int
        (forEach removeConnectionFromScene (map originalConnection exts)
          (snd (newNode g5 s))))) @ [g]\<rparr>"
  have cf: "gc_firstRedo c" "gc_nodes c = S" "gc_internalConnections c = int"
    "gc_externalConnections c = exts" "gc_externalConnectionPtrs c = map originalConnection exts"
    "gc_newExternalConnections c = []"
    "gc_originalPositions c = fold (\<lambda>node m. qmapInsert node (pos (nodeHeap s node)) m) S []"
    by (simp_all add: c_def GroupNodesCommand_new_def)
  have s6: "s6 = snd (fold (connectGroup g (inputPortMappings (nodeHeap s5 g))
                        (outputPortMappings (nodeHeap s5 g))) exts ([], s5))"
    unfolding s6_def GroupNodesCommand_redo_def Let_def split_beta
    by (simp add: cf s5_def g5_def builtGroupNode_def g_def)
  have s5: "nodeBody (nodeHeap s5 g) = nodeBody g5" "m_group (nodeHeap s5 g) = m_group g5"
    "nextPtr s5 = Suc g"
    by (simp_all add: s5_def g_def)
  have maps: "inputPortMappings (nodeHeap s5 g) = inputPortMappings g5"
    "outputPortMappings (nodeHeap s5 g) = outputPortMappings g5"
    by (simp_all add: inputPortMappings_def outputPortMappings_def s5)
  note cg = connectGroup_fold [of g "inputPortMappings (nodeHeap s5 g)"
      "outputPortMappings (nodeHeap s5 g)" exts "[]" s5, folded s6]
  show "nodeBody (nodeHeap s6 g) = nodeBody (builtGroupNode s S int exts)"
    using cg by (simp add: s5 g5_def)
  show "m_group (nodeHeap s6 g) = m_group (builtGroupNode s S int exts)"
    using cg by (simp add: s5 g5_def)
  show "connectionHeap s6 (Suc g + k) =
           groupConnection g (inputPortMappings (builtGroupNode s S int exts))
             (outputPortMappings (builtGroupNode s S int exts)) (exts ! k)"
    if "k < length exts" for k
    using connectGroup_fold_new [OF that, of g "inputPortMappings (nodeHeap s5 g)"
      "outputPortMappings (nodeHeap s5 g)" "[]" s5, folded s6]
    by (simp add: s5 maps g5_def)
qed

text \<open>The scene after \<open>groupSelected\<close>, field by field.\<close>

lemma groupSelected_scene:
  fixes s :: NodeScene and selected
  defines "S \<equiv> selectedNodesOf selected"
  defines "g \<equiv> nextPtr s"
  defines "ints \<equiv> filter (isInternalConnection s S) (m_sceneConnections s)"
  defines "extc \<equiv> filter (isExternalConnection s S) (m_sceneConnections s)"
  defines "exts \<equiv> map (externalOf s S) extc"
  defines "s1 \<equiv> snd (groupSelected selected s)"
  assumes ok: "sceneOk s" and sel: "2 \<le> length S" "set S \<subseteq> set (m_nodes s)"
  shows "m_nodes s1 = filter (\<lambda>n. n \<notin> set S) (m_nodes s) @ [g]"
    and "m_sceneConnections s1 =
           filter (\<lambda>c. c \<notin> set ints) (filter (\<lambda>c. c \<notin> set extc) (m_sceneConnections s))
           @ [Suc g ..< Suc g + length exts]"
    and "nextPtr s1 = Suc g + length exts"
    and "\<And>k. k \<le> g \<Longrightarrow> connectionHeap s1 k = connectionHeap s k"
    and "\<And>k. k < length exts \<Longrightarrow> connectionHeap s1 (Suc g + k) =
           groupConnection g (inputPortMappings (builtGroupNode s S ints exts))
             (outputPortMappings (builtGroupNode s S ints exts)) (exts ! k)"
    and "\<And>n. n \<noteq> g \<Longrightarrow> nodeBody (nodeHeap s1 n) = nodeBody (nodeHeap s n)"
    and "\<And>n. n \<noteq> g \<Longrightarrow> pos (nodeHeap s1 n) = pos (nodeHeap s n)"
    and "nodeBody (nodeHeap s1 g) = nodeBody (builtGroupNode s S ints exts)"
    and "m_group (nodeHeap s1 g) = m_group (builtGroupNode s S ints exts)"
    and "pos (nodeHeap s1 g) = centerOf (map (\<lambda>node. pos (nodeHeap s node)) S)"
    and "nodeLibrary s1 = nodeLibrary s"
proof -
  define cmd where "cmd = GroupNodesCommand_new S ints exts s"
  have nodes_lt: "\<And>n. n \<in> set (m_nodes s) \<Longrightarrow> n \<noteq> nullptr \<and> n < g"
    and conns_lt: "\<And>c. c \<in> set (m_sceneConnections s) \<Longrightarrow> c \<noteq> nullptr \<and> c < g
           \<and> m_fromNode (connectionHeap s c) < g \<and> m_toNode (connectionHeap s c) < g"
    using ok by (auto simp add: sceneOk_def list_all_iff g_def)
  obtain n0 where "n0 \<in> set S" using sel(1) by (cases S) auto
  with sel(2) have "n0 \<in> set (m_nodes s)" by auto
  from nodes_lt [OF this] have gnn: "g \<noteq> nullptr" by (simp add: nullptr_def)
  have eo: "map originalConnection exts = extc"
    by (simp add: exts_def comp_def)
  have ext_ne: "\<forall>e \<in> set exts. externalNode e \<noteq> g"
  proof
    fix e assume "e \<in> set exts"
    then obtain c where c: "c \<in> set (m_sceneConnections s)" and e: "e = externalOf s S c"
      by (auto simp add: exts_def extc_def)
    from conns_lt [OF c] externalNode_externalOf [of s S c] show "externalNode e \<noteq> g"
      unfolding e by auto
  qed
  have gs: "groupSelected selected s = (True, push (GroupNodes cmd) s)"
    using groupSelected_eq [of selected s] sel(1)
    by (simp add: S_def [symmetric] cmd_def ints_def exts_def extc_def)
  have s1': "s1 = push (GroupNodes cmd) s"
    by (simp add: s1_def gs)
  note gr = group_redo_first [where s = s and S = S and int = ints and exts = exts,
      folded cmd_def, folded g_def, OF gnn ext_ne]
  note gn = group_redo_node [where s = s and S = S and int = ints and exts = exts,
      folded cmd_def, folded g_def]
  show "m_nodes s1 = filter (\<lambda>n. n \<notin> set S) (m_nodes s) @ [g]"
    using gr(1) by (simp add: s1' push_fields split_beta)
  show "m_sceneConnections s1 =
           filter (\<lambda>c. c \<notin> set ints) (filter (\<lambda>c. c \<notin> set extc) (m_sceneConnections s))
           @ [Suc g ..< Suc g + length exts]"
    using gr(2) by (simp add: s1' push_fields split_beta eo)
  show "nextPtr s1 = Suc g + length exts"
    using gr(3) by (simp add: s1' push_fields split_beta)
  show "connectionHeap s1 k = connectionHeap s k" if "k \<le> g" for k
    using gr(4) [OF that] by (simp add: s1' push_fields split_beta)
  show "connectionHeap s1 (Suc g + k) =
           groupConnection g (inputPortMappings (builtGroupNode s S ints exts))
             (outputPortMappings (builtGroupNode s S ints exts)) (exts ! k)"
    if "k < length exts" for k
    using gn(3) [OF that] by (simp add: s1' push_fields split_beta)
  show "nodeBody (nodeHeap s1 n) = nodeBody (nodeHeap s n)" if "n \<noteq> g" for n
    using gr(5) [OF that] by (simp add: s1' push_fields split_beta)
  show "pos (nodeHeap s1 n) = pos (nodeHeap s n)" if "n \<noteq> g" for n
    using gr(6) [OF that] by (simp add: s1' push_fields split_beta)
  show "nodeBody (nodeHeap s1 g) = nodeBody (builtGroupNode s S ints exts)"
    using gn(1) by (simp add: s1' push_fields split_beta)
  show "m_group (nodeHeap s1 g) = m_group (builtGroupNode s S ints exts)"
    using gn(2) by (simp add: s1' push_fields split_beta)
  show "pos (nodeHeap s1 g) = centerOf (map (\<lambda>node. pos (nodeHeap s node)) S)"
    using gr(7) by (simp add: s1' push_fields split_beta)
  have "nodeLibrary (snd (GroupNodesCommand_redo cmd s)) = nodeLibrary s"
    using connectGroup_fold [of "nextPtr s" _ _ exts "[]"]
    by (simp add: GroupNodesCommand_redo_def cmd_def GroupNodesCommand_new_def Let_def split_beta)
  then show "nodeLibrary s1 = nodeLibrary s"
    by (simp add: s1' push_fields split_beta)
qed

subsection \<open>Loading a group node\<close>

lemma loadInternalNode_fold:
  "fst (fold loadInternalNode xs (acc, m, s)) = acc @ [nextPtr s ..< nextPtr s + length xs]
   \<and> fst (snd (fold loadInternalNode xs (acc, m, s)))
        = rev (zip (map (\<lambda>x. toString (jget (toObject x) ''name'')) xs)
                 [nextPtr s ..< nextPtr s + length xs]) @ m
   \<and> nextPtr (snd (snd (fold loadInternalNode xs (acc, m, s)))) = nextPtr s + length xs
   \<and> m_nodes (snd (snd (fold loadInternalNode xs (acc, m, s)))) = m_nodes s
   \<and> m_sceneConnections (snd (snd (fold loadInternalNode xs (acc, m, s)))) = m_sceneConnections s
   \<and> connectionHeap (snd (snd (fold loadInternalNode xs (acc, m, s)))) = connectionHeap s
   \<and> nodeLibrary (snd (snd (fold loadInternalNode xs (acc, m, s)))) = nodeLibrary s
   \<and> m_undoStack (snd (snd (fold loadInternalNode xs (acc, m, s)))) = m_undoStack s
   \<and> (\<forall>p < nextPtr s. nodeHeap (snd (snd (fold loadInternalNode xs (acc, m, s)))) p = nodeHeap s p)
   \<and> (\<forall>k < length xs. nodeHeap (snd (snd (fold loadInternalNode xs (acc, m, s)))) (nextPtr s + k)
          = Node_fromJson (nodeLibrary s) (toObject (xs ! k)))"
proof (induction xs arbitrary: acc m s)
  case Nil
  then show ?case by simp
next
  case (Cons x xs)
  define s1 where "s1 = snd (newNode (Node_fromJson (nodeLibrary s) (toObject x)) s)"
  have st: "loadInternalNode x (acc, m, s)
     = (acc @ [nextPtr s], (toString (jget (toObject x) ''name''), nextPtr s) # m, s1)"
    by (simp add: loadInternalNode_def Let_def split_beta s1_def)
  have s1: "nextPtr s1 = Suc (nextPtr s)" "m_nodes s1 = m_nodes s"
    "m_sceneConnections s1 = m_sceneConnections s" "connectionHeap s1 = connectionHeap s"
    "nodeLibrary s1 = nodeLibrary s" "m_undoStack s1 = m_undoStack s"
    "nodeHeap s1 = (nodeHeap s)(nextPtr s := Node_fromJson (nodeLibrary s) (toObject x))"
    by (simp_all add: s1_def newNode_def)
  note ih = Cons.IH [of "acc @ [nextPtr s]" "(toString (jget (toObject x) ''name''), nextPtr s) # m" s1]
  have up: "[nextPtr s ..< nextPtr s + length (x # xs)]
      = nextPtr s # [Suc (nextPtr s) ..< Suc (nextPtr s) + length xs]"
    by (subst upt_rec) simp
  show ?case
    unfolding fold_Cons comp_def st up
  proof (intro conjI allI impI)
    fix k assume "k < length (x # xs)"
    show "nodeHeap (snd (snd (fold loadInternalNode xs
            (acc @ [nextPtr s], (toString (jget (toObject x) ''name''), nextPtr s) # m, s1))))
          (nextPtr s + k) = Node_fromJson (nodeLibrary s) (toObject ((x # xs) ! k))"
    proof (cases k)
      case 0
      with ih show ?thesis by (simp add: s1)
    next
      case (Suc j)
      with \<open>k < length (x # xs)\<close> have "j < length xs" by simp
      with ih Suc show ?thesis by (simp add: s1)
    qed
  qed (use ih in \<open>simp_all add: s1\<close>)
qed

lemma loadNode_group:
  fixes nodeValue nodeMap s ins imap s1 ics s2
  defines "nodeObj \<equiv> toObject nodeValue"
  defines "g \<equiv> nextPtr s"
  defines "s0 \<equiv> snd (newNode (GroupNode_new (nodeLibrary s) (toString (jget nodeObj ''name''))
       (toDouble (jget (toObject (jget nodeObj ''position'')) ''x''),
        toDouble (jget (toObject (jget nodeObj ''position'')) ''y''))) s)"
  defines "s2b \<equiv> updNode g (setOriginalPositions
        (fold (loadOriginalPosition imap) (toArray (jget nodeObj ''originalPositions'')) []))
        (updNode g (setInternalConnections ics) s2)"
  defines "s3 \<equiv> updNode g (calcPortMappings (nodeHeap s2b) (connectionHeap s2b)) s2b"
  assumes grp: "toBool (jget nodeObj ''isGroup'') False"
    and ins: "fold loadInternalNode (toArray (jget nodeObj ''internalNodes'')) ([], [], s0)
                = (ins, imap, s1)"
    and ics: "fold (loadInternalConnection imap) (toArray (jget nodeObj ''internalConnections''))
                ([], updNode g (setInternalNodes ins) s1) = (ics, s2)"
  shows "loadNode nodeValue (nodeMap, s)
     = ((toString (jget nodeObj ''id''), g) # nodeMap, s3\<lparr>m_nodes := m_nodes s3 @ [g]\<rparr>)"
proof -
  have n: "newNode (GroupNode_new (nodeLibrary s) (toString (jget nodeObj ''name''))
       (toDouble (jget (toObject (jget nodeObj ''position'')) ''x''),
        toDouble (jget (toObject (jget nodeObj ''position'')) ''y''))) s = (g, s0)"
    by (simp add: g_def s0_def newNode_def)
  show ?thesis
    unfolding loadNode_def Let_def prod.case nodeObj_def [symmetric]
    by (simp add: grp n ins ics s3_def s2b_def)
qed

lemma twinGroupJson_reads:
  "toBool (jget (toObject twinGroupJson) ''isGroup'') False"
  "toString (jget (toObject twinGroupJson) ''name'') = groupName"
  "toString (jget (toObject twinGroupJson) ''id'') = ''node_12''"
  "toDouble (jget (toObject (jget (toObject twinGroupJson) ''position'')) ''x'') = 50"
  "toDouble (jget (toObject (jget (toObject twinGroupJson) ''position'')) ''y'') = 0"
  "toArray (jget (toObject twinGroupJson) ''internalNodes'')
     = [twinNodeJson ''10'' 0, twinNodeJson ''11'' 100]"
  "toArray (jget (toObject twinGroupJson) ''internalConnections'') = []"
  "toArray (jget (toObject twinGroupJson) ''originalPositions'')
     = [JObject [(''nodeName'', JString twinName), (''x'', JDouble 0), (''y'', JDouble 0)],
        JObject [(''nodeName'', JString twinName), (''x'', JDouble 100), (''y'', JDouble 0)]]"
  by (simp_all add: twinGroupJson_def jget_def toObject_def toBool_def toString_def toDouble_def
      toArray_def)

lemma twinNodeJson_name: "toString (jget (toObject (twinNodeJson ident x)) ''name'') = twinName"
  by (simp add: twinNodeJson_def jget_def toObject_def toString_def)

lemma twin_positions:
  "fold (loadOriginalPosition [(twinName, 12), (twinName, 11)])
     [JObject [(''nodeName'', JString twinName), (''x'', JDouble 0), (''y'', JDouble 0)],
      JObject [(''nodeName'', JString twinName), (''x'', JDouble 100), (''y'', JDouble 0)]] []
   = [(12, (100, 0))]"
  by (simp add: loadOriginalPosition_def lookupNode_def jget_def toObject_def toString_def
      toDouble_def Let_def nullptr_def)

lemma group_setters_data:
  "m_group (setOriginalPositions M (setInternalConnections ics
      (setInternalNodes ins (GroupNode_new lib name position))))
    = Some (GroupData_empty\<lparr>m_internalNodes := ins, m_internalConnections := ics,
         m_originalPositions := M\<rparr>)"
  by (simp add: setOriginalPositions_def setInternalConnections_def setInternalNodes_def
      mapGroup_def GroupNode_new_def setDisplayTypeName_def setCustomColor_def Node_new_def Let_def)

lemma group_setters_fields:
  "pos (setOriginalPositions M (setInternalConnections ics
      (setInternalNodes ins (GroupNode_new lib name position)))) = position"
  "m_connections (setOriginalPositions M (setInternalConnections ics
      (setInternalNodes ins (GroupNode_new lib name position)))) = []"
  by (simp_all add: setOriginalPositions_def setInternalConnections_def setInternalNodes_def
      mapGroup_def GroupNode_new_def setDisplayTypeName_def setCustomColor_def Node_new_def Let_def)

lemma twinScene_facts:
  "m_nodes twinScene = [10]"
  "m_sceneConnections twinScene = []"
  "pos (nodeHeap twinScene 10) = (50, 0)"
  "m_connections (nodeHeap twinScene 10) = []"
  "isGroupNode twinScene 10"
  "m_internalNodes (groupDataOf (nodeHeap twinScene 10)) = [11, 12]"
  "m_internalConnections (groupDataOf (nodeHeap twinScene 10)) = []"
  "m_externalConnections (groupDataOf (nodeHeap twinScene 10)) = []"
  "m_originalPositions (groupDataOf (nodeHeap twinScene 10)) = [(12, (100, 0))]"
  "m_name (nodeHeap twinScene 11) = twinName"
  "m_name (nodeHeap twinScene 12) = twinName"
proof -
  define s00 where "s00 = (emptyScene Map.empty)\<lparr>m_nodes := [], m_sceneConnections := []\<rparr>"
  define sg where "sg = snd (newNode (GroupNode_new Map.empty groupName (50, 0)) s00)"
  define st where "st = fold loadInternalNode [twinNodeJson ''10'' 0, twinNodeJson ''11'' 100]
      ([], [], sg)"
  define s1 where "s1 = snd (snd st)"
  define s2b where "s2b = updNode 10 (setOriginalPositions [(12, (100, 0))])
      (updNode 10 (setInternalConnections []) (updNode 10 (setInternalNodes [11, 12]) s1))"
  define s3 where "s3 = updNode 10 (calcPortMappings (nodeHeap s2b) (connectionHeap s2b)) s2b"
  have s00: "nextPtr s00 = 10" "nodeLibrary s00 = Map.empty" "m_nodes s00 = []"
    "m_sceneConnections s00 = []"
    by (simp_all add: s00_def emptyScene_def)
  have sg: "nextPtr sg = 11" "nodeLibrary sg = Map.empty" "m_nodes sg = []"
    "m_sceneConnections sg = []" "nodeHeap sg 10 = GroupNode_new Map.empty groupName (50, 0)"
    by (simp_all add: sg_def s00)
  note f = loadInternalNode_fold [of "[twinNodeJson ''10'' 0, twinNodeJson ''11'' 100]" "[]" "[]" sg,
      folded st_def, folded s1_def]
  have upt: "[11 ..< 13] = [11, 12::nat]"
    by (simp add: upt_rec)
  have st: "st = ([11, 12], [(twinName, 12), (twinName, 11)], s1)"
    using f by (simp add: prod_eq_iff s1_def sg twinNodeJson_name upt)
  have s1: "m_nodes s1 = []" "m_sceneConnections s1 = []" "nodeHeap s1 10 = nodeHeap sg 10"
    using f by (simp_all add: sg)
  have n11: "nodeHeap s1 11 = Node_fromJson Map.empty (toObject (twinNodeJson ''10'' 0))"
    using f [THEN conjunct2, THEN conjunct2, THEN conjunct2, THEN conjunct2, THEN conjunct2,
        THEN conjunct2, THEN conjunct2, THEN conjunct2, THEN conjunct2, rule_format, of 0]
    by (simp add: sg)
  have n12: "nodeHeap s1 12 = Node_fromJson Map.empty (toObject (twinNodeJson ''11'' 100))"
    using f [THEN conjunct2, THEN conjunct2, THEN conjunct2, THEN conjunct2, THEN conjunct2,
        THEN conjunct2, THEN conjunct2, THEN conjunct2, THEN conjunct2, rule_format, of 1]
    by (simp add: sg)
  have ld: "loadNode twinGroupJson ([], s00) = ([(''node_12'', 10)], s3\<lparr>m_nodes := m_nodes s3 @ [10]\<rparr>)"
  proof -
    have a: "toBool (jget (toObject twinGroupJson) ''isGroup'') False"
      by (rule twinGroupJson_reads)
    have b: "fold loadInternalNode (toArray (jget (toObject twinGroupJson) ''internalNodes''))
        ([], [], snd (newNode (GroupNode_new (nodeLibrary s00)
           (toString (jget (toObject twinGroupJson) ''name''))
           (toDouble (jget (toObject (jget (toObject twinGroupJson) ''position'')) ''x''),
            toDouble (jget (toObject (jget (toObject twinGroupJson) ''position'')) ''y''))) s00))
        = ([11, 12], [(twinName, 12), (twinName, 11)], s1)"
      unfolding twinGroupJson_reads s00 sg_def [symmetric] st_def [symmetric] by (rule st)
    have c: "fold (loadInternalConnection [(twinName, 12), (twinName, 11)])
        (toArray (jget (toObject twinGroupJson) ''internalConnections''))
        ([], updNode (nextPtr s00) (setInternalNodes [11, 12]) s1)
        = ([], updNode 10 (setInternalNodes [11, 12]) s1)"
      unfolding twinGroupJson_reads s00 by simp
    from loadNode_group [OF a b c, of "[]"] show ?thesis
      unfolding twinGroupJson_reads s00 twin_positions s2b_def [symmetric] s3_def [symmetric] .
  qed
  have ts: "twinScene = s3\<lparr>m_nodes := m_nodes s3 @ [10]\<rparr>"
    by (simp add: twinScene_def loadFlowData_def Let_def s00_def [symmetric] twinDocument_def
        jget_def toArray_def ld)
  have g2b: "nodeHeap s2b 10 = setOriginalPositions [(12, (100, 0))] (setInternalConnections []
      (setInternalNodes [11, 12] (GroupNode_new Map.empty groupName (50, 0))))"
    by (simp add: s2b_def s1 sg)
  note cf = calcPortMappings_fields [OF group_setters_data, of "nodeHeap s2b" "connectionHeap s2b"
      "[(12, (100, 0))]" "[]" "[11, 12]" Map.empty groupName "(50, 0)"]
  have g3: "nodeHeap s3 10 = calcPortMappings (nodeHeap s2b) (connectionHeap s2b) (nodeHeap s2b 10)"
    by (simp add: s3_def)
  show "m_nodes twinScene = [10]"
    by (simp add: ts s3_def s2b_def s1)
  show "m_sceneConnections twinScene = []"
    by (simp add: ts s3_def s2b_def s1)
  show "pos (nodeHeap twinScene 10) = (50, 0)"
    by (simp add: ts g3 cf g2b group_setters_fields)
  show "m_connections (nodeHeap twinScene 10) = []"
    by (simp add: ts g3 cf g2b group_setters_fields)
  show "isGroupNode twinScene 10"
    by (simp add: isGroupNode_def ts g3 g2b cf)
  show "m_internalNodes (groupDataOf (nodeHeap twinScene 10)) = [11, 12]"
    by (simp add: groupDataOf_def ts g3 g2b cf)
  show "m_internalConnections (groupDataOf (nodeHeap twinScene 10)) = []"
    by (simp add: groupDataOf_def ts g3 g2b cf)
  show "m_externalConnections (groupDataOf (nodeHeap twinScene 10)) = []"
    by (simp add: groupDataOf_def ts g3 g2b cf GroupData_empty_def)
  show "m_originalPositions (groupDataOf (nodeHeap twinScene 10)) = [(12, (100, 0))]"
    by (simp add: groupDataOf_def ts g3 g2b cf)
  have "nodeHeap twinScene 11 = nodeHeap s1 11" "nodeHeap twinScene 12 = nodeHeap s1 12"
    by (simp_all add: ts s3_def s2b_def)
  then show "m_name (nodeHeap twinScene 11) = twinName" "m_name (nodeHeap twinScene 12) = twinName"
    by (simp_all add: n11 n12 twinNodeJson_def Node_fromJson_def jget_def jcontains_def toObject_def
        toString_def toDouble_def toInt_def toArray_def isObject_def Let_def Node_new_def
        getTemplate_def isValid_def NodeTemplate_default_def setParameters_def
        setInputPortCount_def setOutputPortCount_def setSize_def)
qed

lemma twinUngroup_eq:
  "twinUngroup = \<lparr>uc_groupNode = 10, uc_internalNodes = [11, 12], uc_internalConnections = [],
      uc_externalConnections = [], uc_groupExternalConnections = [],
      uc_originalPositions = [(12, (100, 0))], uc_firstRedo = True\<rparr>"
  by (simp add: twinUngroup_def UngroupNodesCommand_new_def twinScene_facts Let_def)

lemma twinFirstRedo_eq:
  "twinFirstRedo =
     (UngroupNodes (twinUngroup\<lparr>uc_originalPositions := [(11, (0, 0)), (12, (100, 0))]\<rparr>),
      restoreNodeToScene 12 (updNode 12 (setPos (50, 0))
        (restoreNodeToScene 11 (updNode 11 (setPos (- 50, 0))
           (removeNodeFromScene 10 twinScene)))))"
  by (simp add: twinFirstRedo_def UngroupNodesCommand_redo_def Let_def forEach_def twinUngroup_eq
      restoreInternalNode_def qmapSubscript_def centerOf_def psub_def padd_def pdiv_def
      twinScene_facts)

lemma twinUndone_eq:
  "twinUndone =
     (UngroupNodes (twinUngroup\<lparr>uc_originalPositions := [(11, (0, 0)), (12, (100, 0))]\<rparr>),
      restoreNodeToScene 10 (removeNodeFromScene 12 (removeNodeFromScene 11 (snd twinFirstRedo))))"
  by (simp add: twinUndone_def twinFirstRedo_eq UngroupNodesCommand_undo_def Let_def forEach_def
      twinUngroup_eq)

lemma twinUndone_facts:
  "m_nodes (snd twinUndone) = [10]"
  "pos (nodeHeap (snd twinUndone) 10) = (50, 0)"
  by (simp_all add: twinUndone_eq twinFirstRedo_eq twinScene_facts)

lemma twinSecondRedo_eq:
  "twinSecondRedo =
     (UngroupNodes (twinUngroup\<lparr>uc_originalPositions := [(11, (0, 0)), (12, (100, 0))]\<rparr>),
      restoreNodeToScene 12 (updNode 12 (setPos (100, 0))
        (restoreNodeToScene 11 (updNode 11 (setPos (0, 0))
           (removeNodeFromScene 10 (snd twinUndone))))))"
  by (simp add: twinSecondRedo_def twinUndone_eq [THEN arg_cong, of fst]
      UngroupNodesCommand_redo_def Let_def forEach_def twinUngroup_eq
      restoreInternalNode_def qmapSubscript_def centerOf_def psub_def padd_def pdiv_def
      twinUndone_facts)

text \<open>
  C5 fails for \<open>UngroupNodesCommand\<close>. \<open>redo\<close> reads the original position of an internal
  node with \<open>m_originalPositions[node]\<close>, which enters the position \<open>(0, 0)\<close> for a node the
  map does not hold, so that the next \<open>redo\<close> computes another centre. For the project
  \<open>twinDocument\<close> (the map holds node 12 only, since both internal nodes have one name) the first
  \<open>redo\<close> puts the nodes 11 and 12 at \<open>(-50, 0)\<close> and \<open>(50, 0)\<close>; \<open>undo\<close> followed by \<open>redo\<close>
  puts them at \<open>(0, 0)\<close> and \<open>(100, 0)\<close>.
\<close>

theorem ungroup_redo_not_repeated:
  "ungroupSelected [NodeItem 10] twinScene = (True, push (UngroupNodes twinUngroup) twinScene) \<and>
   m_nodes twinScene = [10] \<and>
   m_nodes (snd twinFirstRedo) = [11, 12] \<and>
   m_nodes (snd twinUndone) = [10] \<and>
   m_nodes (snd twinSecondRedo) = [11, 12] \<and>
   pos (nodeHeap (snd twinFirstRedo) 11) = (- 50, 0) \<and>
   pos (nodeHeap (snd twinFirstRedo) 12) = (50, 0) \<and>
   pos (nodeHeap (snd twinSecondRedo) 11) = (0, 0) \<and>
   pos (nodeHeap (snd twinSecondRedo) 12) = (100, 0)"
proof -
  have a: "ungroupSelected [NodeItem 10] twinScene = (True, push (UngroupNodes twinUngroup) twinScene)"
    unfolding twinUngroup_def by (rule ungroupSelected_eq) (rule twinScene_facts)
  have b: "m_nodes (snd twinFirstRedo) = [11, 12]"
    by (simp add: twinFirstRedo_eq twinScene_facts)
  have c: "m_nodes (snd twinSecondRedo) = [11, 12]"
    by (simp add: twinSecondRedo_eq twinUndone_facts)
  have d: "pos (nodeHeap (snd twinFirstRedo) 11) = (- 50, 0)"
    "pos (nodeHeap (snd twinFirstRedo) 12) = (50, 0)"
    by (simp_all add: twinFirstRedo_eq)
  have e: "pos (nodeHeap (snd twinSecondRedo) 11) = (0, 0)"
    "pos (nodeHeap (snd twinSecondRedo) 12) = (100, 0)"
    by (simp_all add: twinSecondRedo_eq)
  show ?thesis
    by (intro conjI) (rule a b c d e twinScene_facts twinUndone_facts)+
qed

subsection \<open>Saving and loading a nested group\<close>

lemma jget_Cons: "jget ((k, v) # obj) k' = (if k' = k then v else jget obj k')"
  by (simp add: jget_def)

lemma jget_jset: "jget (jset k v obj) k' = (if k' = k then v else jget obj k')"
  by (induction obj) (auto simp add: jget_def)

lemma jcontains_Cons: "jcontains ((k, v) # obj) k' = (k' = k \<or> jcontains obj k')"
  by (auto simp add: jcontains_def)

lemma jcontains_jset: "jcontains (jset k v obj) k' = (k' = k \<or> jcontains obj k')"
  by (induction obj) (auto simp add: jcontains_def split: if_splits)

lemma flowNodeJson_group:
  assumes "m_group (nodeHeap s n) = Some d"
  shows "toBool (jget (toObject (flowNodeJson s n)) ''isGroup'') False"
    and "toString (jget (toObject (flowNodeJson s n)) ''name'') = m_name (nodeHeap s n)"
    and "toString (jget (toObject (flowNodeJson s n)) ''id'') = ''node_'' @ showNat n"
    and "toDouble (jget (toObject (jget (toObject (flowNodeJson s n)) ''position'')) ''x'')
           = fst (pos (nodeHeap s n))"
    and "toDouble (jget (toObject (jget (toObject (flowNodeJson s n)) ''position'')) ''y'')
           = snd (pos (nodeHeap s n))"
    and "toArray (jget (toObject (flowNodeJson s n)) ''internalNodes'')
           = map (\<lambda>i. JObject (Node_toJson i (nodeHeap s i))) (m_internalNodes d)"
    and "toArray (jget (toObject (flowNodeJson s n)) ''internalConnections'')
           = map (\<lambda>c. JObject (Connection_toJson (connectionHeap s c))) (m_internalConnections d)"
    and "toArray (jget (toObject (flowNodeJson s n)) ''originalPositions'')
           = map (originalPositionJson s) (m_originalPositions d)"
  by (simp_all add: flowNodeJson_def Let_def assms jget_jset jget_Cons toObject_def toBool_def
      toString_def toDouble_def toArray_def)

lemma Node_toJson_name: "toString (jget (Node_toJson i n) ''name'') = m_name n"
  by (simp add: Node_toJson_def Let_def jget_jset jget_Cons toString_def)

lemma attribute_setters_fields:
  "m_group (setParameters ps n) = m_group n"
  "m_name (setParameters ps n) = m_name n"
  "m_type (setParameters ps n) = m_type n"
  "pos (setParameters ps n) = pos n"
  "m_inputPortCount (setParameters ps n) = m_inputPortCount n"
  "m_outputPortCount (setParameters ps n) = m_outputPortCount n"
  "m_group (setCustomColor c n) = m_group n"
  "m_name (setCustomColor c n) = m_name n"
  "m_type (setCustomColor c n) = m_type n"
  "pos (setCustomColor c n) = pos n"
  "m_inputPortCount (setCustomColor c n) = m_inputPortCount n"
  "m_outputPortCount (setCustomColor c n) = m_outputPortCount n"
  "m_group (setDisplayTypeName d n) = m_group n"
  "m_name (setDisplayTypeName d n) = m_name n"
  "m_type (setDisplayTypeName d n) = m_type n"
  "pos (setDisplayTypeName d n) = pos n"
  "m_inputPortCount (setDisplayTypeName d n) = m_inputPortCount n"
  "m_outputPortCount (setDisplayTypeName d n) = m_outputPortCount n"
  by (simp_all add: setParameters_def setCustomColor_def setDisplayTypeName_def)

lemma Node_new_fields:
  "m_group (Node_new lib type name position) = None"
  "m_name (Node_new lib type name position) = name"
  "m_type (Node_new lib type name position) = type"
  "pos (Node_new lib type name position) = position"
  by (simp_all add: Node_new_def Let_def)

lemma Node_fromJson_plain: "m_group (Node_fromJson lib json) = None"
  unfolding Node_fromJson_def Let_def split_beta
  by (simp add: attribute_setters_fields setSize_fields setPortCount_fields Node_new_fields
      cong: if_cong)

lemma toInt_of_int: "toInt (JDouble (real_of_int c)) dflt = c"
  by (simp add: toInt_def)

lemma Node_toJson_reads:
  "jget (Node_toJson i n) ''name'' = JString (m_name n)"
  "jget (Node_toJson i n) ''type'' = JString (m_type n)"
  "jget (Node_toJson i n) ''x'' = JDouble (fst (pos n))"
  "jget (Node_toJson i n) ''y'' = JDouble (snd (pos n))"
  "jget (Node_toJson i n) ''inputPortCount'' = JDouble (real_of_int (m_inputPortCount n))"
  "jget (Node_toJson i n) ''outputPortCount'' = JDouble (real_of_int (m_outputPortCount n))"
  "\<not> jcontains (Node_toJson i n) ''position''"
  "jcontains (Node_toJson i n) ''inputPortCount''"
  "jcontains (Node_toJson i n) ''outputPortCount''"
  by (simp_all add: Node_toJson_def Let_def jget_jset jget_Cons jcontains_jset jcontains_Cons
      jcontains_def)

lemma Node_fromJson_toJson:
  "m_name (Node_fromJson lib (Node_toJson i n)) = m_name n"
  "m_type (Node_fromJson lib (Node_toJson i n)) = m_type n"
  "pos (Node_fromJson lib (Node_toJson i n)) = pos n"
  "m_inputPortCount (Node_fromJson lib (Node_toJson i n)) = max 0 (m_inputPortCount n)"
  "m_outputPortCount (Node_fromJson lib (Node_toJson i n)) = max 0 (m_outputPortCount n)"
  unfolding Node_fromJson_def Let_def split_beta
  by (simp_all add: attribute_setters_fields setSize_fields setPortCount_fields Node_new_fields
      Node_toJson_reads toString_def toDouble_def toInt_of_int cong: if_cong)

lemma built_group_name:
  "m_name (setOriginalPositions M (setExternalConnections exts
      (setInternalConnections ints (setInternalNodes S (GroupNode_new lib name center))))) = name"
  "m_type (setOriginalPositions M (setExternalConnections exts
      (setInternalConnections ints (setInternalNodes S (GroupNode_new lib name center))))) = ''group''"
  by (simp_all add: setOriginalPositions_def setExternalConnections_def
      setInternalConnections_def setInternalNodes_def mapGroup_def GroupNode_new_def
      setDisplayTypeName_def setCustomColor_def Node_new_def Let_def)

lemma builtGroupNode_fields:
  fixes s S ints exts
  defines "M \<equiv> fold (\<lambda>node m. qmapInsert node (pos (nodeHeap s node)) m) S []"
  defines "d \<equiv> GroupData_empty\<lparr>m_internalNodes := S, m_internalConnections := ints,
            m_externalConnections := exts, m_originalPositions := M\<rparr>"
  shows "m_group (builtGroupNode s S ints exts)
           = Some (d\<lparr>m_inputPortMappings := inputMappingsOf (nodeHeap s) (connectionHeap s) d,
                     m_outputPortMappings := outputMappingsOf (nodeHeap s) (connectionHeap s) d\<rparr>)"
    and "m_inputPortCount (builtGroupNode s S ints exts)
           = max 1 (int (length (inputMappingsOf (nodeHeap s) (connectionHeap s) d)))"
    and "m_outputPortCount (builtGroupNode s S ints exts)
           = max 1 (int (length (outputMappingsOf (nodeHeap s) (connectionHeap s) d)))"
    and "m_name (builtGroupNode s S ints exts) = groupName"
    and "m_type (builtGroupNode s S ints exts) = ''group''"
  unfolding builtGroupNode_def M_def [symmetric]
  using calcPortMappings_fields [OF built_group_fields(1),
      of "nodeHeap s" "connectionHeap s" M exts ints S "nodeLibrary s" groupName
         "centerOf (map (\<lambda>node. pos (nodeHeap s node)) S)"]
  by (simp_all add: d_def built_group_name)

lemma chainScene_names:
  "m_name (nodeHeap chainScene 12) = nodeNamePrefix @ ''3''"
  "nodeLibrary chainScene = Map.empty"
  "m_inputPortCount (nodeHeap chainScene 12) = 1"
  "m_outputPortCount (nodeHeap chainScene 12) = 1"
  "m_group (nodeHeap chainScene 12) = None"
  by (simp_all add: chainScene_def scene_eval conn_eval digitChar_def)

lemma chain_selection:
  "selectedNodesOf [NodeItem 10, NodeItem 11] = [10, 11]"
  "filter (isInternalConnection chainScene [10, 11]) [13, 14] = [13]"
  "filter (isExternalConnection chainScene [10, 11]) [13, 14] = [14]"
  "map (externalOf chainScene [10, 11]) [14] = chainExternal"
  by (simp_all add: selectedNodesOf_def isInternalConnection_def isExternalConnection_def
      externalOf_def chainScene_facts chainExternal_def)

lemma chain_mappings:
  fixes M
  defines "d \<equiv> GroupData_empty\<lparr>m_internalNodes := [10, 11], m_internalConnections := [13],
            m_externalConnections := chainExternal, m_originalPositions := M\<rparr>"
  shows "map mappedPort (inputMappingsOf (nodeHeap chainScene) (connectionHeap chainScene) d) = [(10, 0)]"
    and "map mappedPort (outputMappingsOf (nodeHeap chainScene) (connectionHeap chainScene) d) = [(11, 0)]"
  by (simp_all add: d_def inputMappingsOf_def outputMappingsOf_def connectedPortsOf_def
      internalKeys_def externalKey_def danglingPorts_def chainScene_facts chainExternal_def
      GroupData_empty_def mappedPort_def externalMapping_def danglingMapping_def)

lemma findGroupPort_first:
  "map mappedPort om = (n, i) # rest \<Longrightarrow> findGroupPort om n i j = j"
  by (cases om) (auto simp add: mappedPort_def)

lemma chainGrouped_facts:
  "m_nodes chainGrouped = [12, 15]"
  "m_sceneConnections chainGrouped = [16]"
  "nextPtr chainGrouped = 17"
  "nodeLibrary chainGrouped = Map.empty"
  "connectionHeap chainGrouped 16 =
     \<lparr>m_fromNode = 15, m_toNode = 12, m_fromPortIndex = 0, m_toPortIndex = 0, m_lineType = Bezier\<rparr>"
  "nodeBody (nodeHeap chainGrouped 12) = nodeBody (nodeHeap chainScene 12)"
  "pos (nodeHeap chainGrouped 12) = (400, 0)"
  "nodeBody (nodeHeap chainGrouped 15) = nodeBody (builtGroupNode chainScene [10, 11] [13] chainExternal)"
  "pos (nodeHeap chainGrouped 15) = (25, 25)"
proof -
  have sel: "2 \<le> length (selectedNodesOf [NodeItem 10, NodeItem 11])"
    "set (selectedNodesOf [NodeItem 10, NodeItem 11]) \<subseteq> set (m_nodes chainScene)"
    by (simp_all add: chain_selection chainScene_more)
  note g = groupSelected_scene [of chainScene "[NodeItem 10, NodeItem 11]", OF chainScene_ok sel,
      folded chainGrouped_def, unfolded chainScene_more chainScene_facts chain_selection]
  show "m_nodes chainGrouped = [12, 15]"
    using g(1) by simp
  show "m_sceneConnections chainGrouped = [16]"
    using g(2) by (simp add: chainExternal_def upt_rec)
  show "nextPtr chainGrouped = 17"
    using g(3) by (simp add: chainExternal_def)
  show "nodeLibrary chainGrouped = Map.empty"
    using g(11) by (simp add: chainScene_names)
  have om: "map mappedPort (outputPortMappings (builtGroupNode chainScene [10, 11] [13] chainExternal))
      = [(11, 0)]"
    by (simp add: outputPortMappings_def builtGroupNode_fields chain_mappings)
  have e0: "length chainExternal = 1"
    "chainExternal ! 0 = \<lparr>externalNode = 12, externalPortIndex = 0, internalNode = 11,
       internalPortIndex = 0, isInput = False, originalConnection = 14\<rparr>"
    by (simp_all add: chainExternal_def)
  from g(5) [of 0]
  show "connectionHeap chainGrouped 16 =
     \<lparr>m_fromNode = 15, m_toNode = 12, m_fromPortIndex = 0, m_toPortIndex = 0, m_lineType = Bezier\<rparr>"
    by (simp add: e0 groupConnection_def findGroupPort_first [OF om])
  show "nodeBody (nodeHeap chainGrouped 12) = nodeBody (nodeHeap chainScene 12)"
    using g(6) [of 12] by simp
  show "pos (nodeHeap chainGrouped 12) = (400, 0)"
    using g(7) [of 12] by (simp add: chainScene_more)
  show "nodeBody (nodeHeap chainGrouped 15) = nodeBody (builtGroupNode chainScene [10, 11] [13] chainExternal)"
    using g(8) by simp
  show "pos (nodeHeap chainGrouped 15) = (25, 25)"
    using g(10) by (simp add: centerOf_def padd_def pdiv_def chainScene_more)
qed

lemma nodeBody_eq_fields:
  assumes "nodeBody a = nodeBody b"
  shows "m_name a = m_name b" and "m_type a = m_type b" and "m_group a = m_group b"
    and "m_inputPortCount a = m_inputPortCount b" and "m_outputPortCount a = m_outputPortCount b"
proof -
  have "m_name (nodeBody a) = m_name (nodeBody b)" "m_type (nodeBody a) = m_type (nodeBody b)"
    "m_group (nodeBody a) = m_group (nodeBody b)"
    "m_inputPortCount (nodeBody a) = m_inputPortCount (nodeBody b)"
    "m_outputPortCount (nodeBody a) = m_outputPortCount (nodeBody b)"
    by (simp_all add: assms)
  then show "m_name a = m_name b" and "m_type a = m_type b" and "m_group a = m_group b"
    and "m_inputPortCount a = m_inputPortCount b" and "m_outputPortCount a = m_outputPortCount b"
    by (simp_all add: nodeBody_def)
qed

lemma chainGrouped_ok: "sceneOk chainGrouped"
  by (simp add: sceneOk_def chainGrouped_facts nullptr_def)

lemma nested_selection:
  "selectedNodesOf [NodeItem 15, NodeItem 12] = [15, 12]"
  "filter (isInternalConnection chainGrouped [15, 12]) [16] = [16]"
  "filter (isExternalConnection chainGrouped [15, 12]) [16] = []"
  by (simp_all add: selectedNodesOf_def isInternalConnection_def isExternalConnection_def
      chainGrouped_facts)

lemma chainGrouped_ports:
  "m_inputPortCount (nodeHeap chainGrouped 15) = 1"
  "m_outputPortCount (nodeHeap chainGrouped 15) = 1"
  "m_inputPortCount (nodeHeap chainGrouped 12) = 1"
  "m_outputPortCount (nodeHeap chainGrouped 12) = 1"
  "m_name (nodeHeap chainGrouped 15) = groupName"
  "m_name (nodeHeap chainGrouped 12) = nodeNamePrefix @ ''3''"
  "m_internalNodes (groupDataOf (nodeHeap chainGrouped 15)) = [10, 11]"
  "isGroupNode chainGrouped 15"
proof -
  note b15 = nodeBody_eq_fields [OF chainGrouped_facts(8)]
  note b12 = nodeBody_eq_fields [OF chainGrouped_facts(6)]
  have len: "length (inputMappingsOf (nodeHeap chainScene) (connectionHeap chainScene) d) = 1"
    "length (outputMappingsOf (nodeHeap chainScene) (connectionHeap chainScene) d) = 1"
    if "d = GroupData_empty\<lparr>m_internalNodes := [10, 11], m_internalConnections := [13],
            m_externalConnections := chainExternal, m_originalPositions := M\<rparr>" for d M
    using chain_mappings [of M, THEN arg_cong, of length] by (simp_all add: that)
  show "m_inputPortCount (nodeHeap chainGrouped 15) = 1"
    unfolding b15 builtGroupNode_fields by (simp add: len)
  show "m_outputPortCount (nodeHeap chainGrouped 15) = 1"
    unfolding b15 builtGroupNode_fields by (simp add: len)
  show "m_inputPortCount (nodeHeap chainGrouped 12) = 1"
    unfolding b12 by (rule chainScene_names)
  show "m_outputPortCount (nodeHeap chainGrouped 12) = 1"
    unfolding b12 by (rule chainScene_names)
  show "m_name (nodeHeap chainGrouped 15) = groupName"
    unfolding b15 by (rule builtGroupNode_fields)
  show "m_name (nodeHeap chainGrouped 12) = nodeNamePrefix @ ''3''"
    unfolding b12 by (rule chainScene_names)
  show "m_internalNodes (groupDataOf (nodeHeap chainGrouped 15)) = [10, 11]"
    unfolding groupDataOf_def b15 builtGroupNode_fields by simp
  show "isGroupNode chainGrouped 15"
    unfolding isGroupNode_def b15 builtGroupNode_fields by simp
qed

lemma nestedScene_facts:
  "m_nodes nestedScene = [17]"
  "m_sceneConnections nestedScene = []"
  "nextPtr nestedScene = 18"
  "nodeLibrary nestedScene = Map.empty"
  "connectionHeap nestedScene 16 =
     \<lparr>m_fromNode = 15, m_toNode = 12, m_fromPortIndex = 0, m_toPortIndex = 0, m_lineType = Bezier\<rparr>"
  "nodeBody (nodeHeap nestedScene 15) = nodeBody (nodeHeap chainGrouped 15)"
  "nodeBody (nodeHeap nestedScene 12) = nodeBody (nodeHeap chainGrouped 12)"
  "pos (nodeHeap nestedScene 15) = (25, 25)"
  "pos (nodeHeap nestedScene 12) = (400, 0)"
  "nodeBody (nodeHeap nestedScene 17) = nodeBody (builtGroupNode chainGrouped [15, 12] [16] [])"
  "pos (nodeHeap nestedScene 17) = (425 / 2, 25 / 2)"
proof -
  have sel: "2 \<le> length (selectedNodesOf [NodeItem 15, NodeItem 12])"
    "set (selectedNodesOf [NodeItem 15, NodeItem 12]) \<subseteq> set (m_nodes chainGrouped)"
    by (simp_all add: nested_selection chainGrouped_facts)
  note g = groupSelected_scene [of chainGrouped "[NodeItem 15, NodeItem 12]",
      OF chainGrouped_ok sel, folded nestedScene_def,
      unfolded chainGrouped_facts nested_selection list.map(1)]
  show "m_nodes nestedScene = [17]"
    using g(1) by simp
  show "m_sceneConnections nestedScene = []"
    using g(2) by simp
  show "nextPtr nestedScene = 18"
    using g(3) by simp
  show "nodeLibrary nestedScene = Map.empty"
    using g(11) by simp
  show "connectionHeap nestedScene 16 =
     \<lparr>m_fromNode = 15, m_toNode = 12, m_fromPortIndex = 0, m_toPortIndex = 0, m_lineType = Bezier\<rparr>"
    using g(4) [of 16] by (simp add: chainGrouped_facts)
  show "nodeBody (nodeHeap nestedScene 15) = nodeBody (nodeHeap chainGrouped 15)"
    using g(6) [of 15] by simp
  show "nodeBody (nodeHeap nestedScene 12) = nodeBody (nodeHeap chainGrouped 12)"
    using g(6) [of 12] by simp
  show "pos (nodeHeap nestedScene 15) = (25, 25)"
    using g(7) [of 15] by (simp add: chainGrouped_facts)
  show "pos (nodeHeap nestedScene 12) = (400, 0)"
    using g(7) [of 12] by (simp add: chainGrouped_facts)
  show "nodeBody (nodeHeap nestedScene 17) = nodeBody (builtGroupNode chainGrouped [15, 12] [16] [])"
    using g(8) by simp
  show "pos (nodeHeap nestedScene 17) = (425 / 2, 25 / 2)"
    using g(10) by (simp add: centerOf_def padd_def pdiv_def chainGrouped_facts)
qed

lemma nested_mappings:
  fixes M
  defines "d \<equiv> GroupData_empty\<lparr>m_internalNodes := [15, 12], m_internalConnections := [16],
            m_externalConnections := [], m_originalPositions := M\<rparr>"
  shows "map mappedPort (inputMappingsOf (nodeHeap chainGrouped) (connectionHeap chainGrouped) d)
           = [(15, 0)]"
    and "map mappedPort (outputMappingsOf (nodeHeap chainGrouped) (connectionHeap chainGrouped) d)
           = [(12, 0)]"
  by (simp_all add: d_def inputMappingsOf_def outputMappingsOf_def connectedPortsOf_def
      internalKeys_def externalKey_def danglingPorts_def chainGrouped_facts chainGrouped_ports
      GroupData_empty_def mappedPort_def externalMapping_def danglingMapping_def)

lemma nestedScene_group:
  "isGroupNode nestedScene 17"
  "m_internalNodes (groupDataOf (nodeHeap nestedScene 17)) = [15, 12]"
  "m_internalConnections (groupDataOf (nodeHeap nestedScene 17)) = [16]"
  "m_originalPositions (groupDataOf (nodeHeap nestedScene 17)) = [(12, (400, 0)), (15, (25, 25))]"
  "m_inputPortCount (nodeHeap nestedScene 17) = 1"
  "m_outputPortCount (nodeHeap nestedScene 17) = 1"
  "m_name (nodeHeap nestedScene 17) = groupName"
  "isGroupNode nestedScene 15"
  "m_internalNodes (groupDataOf (nodeHeap nestedScene 15)) = [10, 11]"
  "m_name (nodeHeap nestedScene 15) = groupName"
  "m_name (nodeHeap nestedScene 12) = nodeNamePrefix @ ''3''"
  "m_inputPortCount (nodeHeap nestedScene 15) = 1"
  "m_outputPortCount (nodeHeap nestedScene 15) = 1"
  "m_inputPortCount (nodeHeap nestedScene 12) = 1"
  "m_outputPortCount (nodeHeap nestedScene 12) = 1"
proof -
  note b17 = nodeBody_eq_fields [OF nestedScene_facts(10)]
  note b15 = nodeBody_eq_fields [OF nestedScene_facts(6)]
  note b12 = nodeBody_eq_fields [OF nestedScene_facts(7)]
  have len: "length (inputMappingsOf (nodeHeap chainGrouped) (connectionHeap chainGrouped) d) = 1"
    "length (outputMappingsOf (nodeHeap chainGrouped) (connectionHeap chainGrouped) d) = 1"
    if "d = GroupData_empty\<lparr>m_internalNodes := [15, 12], m_internalConnections := [16],
            m_externalConnections := [], m_originalPositions := M\<rparr>" for d M
    using nested_mappings [of M, THEN arg_cong, of length] by (simp_all add: that)
  show "isGroupNode nestedScene 17"
    unfolding isGroupNode_def b17 builtGroupNode_fields by simp
  show "m_internalNodes (groupDataOf (nodeHeap nestedScene 17)) = [15, 12]"
    unfolding groupDataOf_def b17 builtGroupNode_fields by simp
  show "m_internalConnections (groupDataOf (nodeHeap nestedScene 17)) = [16]"
    unfolding groupDataOf_def b17 builtGroupNode_fields by simp
  show "m_originalPositions (groupDataOf (nodeHeap nestedScene 17)) = [(12, (400, 0)), (15, (25, 25))]"
    unfolding groupDataOf_def b17 builtGroupNode_fields by (simp add: chainGrouped_facts)
  show "m_inputPortCount (nodeHeap nestedScene 17) = 1"
    unfolding b17 builtGroupNode_fields by (simp add: len)
  show "m_outputPortCount (nodeHeap nestedScene 17) = 1"
    unfolding b17 builtGroupNode_fields by (simp add: len)
  show "m_name (nodeHeap nestedScene 17) = groupName"
    unfolding b17 by (rule builtGroupNode_fields)
  show "isGroupNode nestedScene 15"
    using chainGrouped_ports(8) unfolding isGroupNode_def b15 .
  show "m_internalNodes (groupDataOf (nodeHeap nestedScene 15)) = [10, 11]"
    using chainGrouped_ports(7) unfolding groupDataOf_def b15 .
  show "m_name (nodeHeap nestedScene 15) = groupName"
    unfolding b15 by (rule chainGrouped_ports)
  show "m_name (nodeHeap nestedScene 12) = nodeNamePrefix @ ''3''"
    unfolding b12 by (rule chainGrouped_ports)
  show "m_inputPortCount (nodeHeap nestedScene 15) = 1"
    unfolding b15 by (rule chainGrouped_ports)
  show "m_outputPortCount (nodeHeap nestedScene 15) = 1"
    unfolding b15 by (rule chainGrouped_ports)
  show "m_inputPortCount (nodeHeap nestedScene 12) = 1"
    unfolding b12 by (rule chainGrouped_ports)
  show "m_outputPortCount (nodeHeap nestedScene 12) = 1"
    unfolding b12 by (rule chainGrouped_ports)
qed

lemma group_some: "isGroupNode s n \<Longrightarrow> m_group (nodeHeap s n) = Some (groupDataOf (nodeHeap s n))"
  by (auto simp add: isGroupNode_def groupDataOf_def)

lemma nested_lookups:
  "lookupNode [(nodeNamePrefix @ ''3'', 20), (groupName, 19)] (showNat 15) = nullptr"
  "lookupNode [(nodeNamePrefix @ ''3'', 20), (groupName, 19)] (showNat 12) = nullptr"
  "lookupNode [(nodeNamePrefix @ ''3'', 20), (groupName, 19)] (nodeNamePrefix @ ''3'') = 20"
  "lookupNode [(nodeNamePrefix @ ''3'', 20), (groupName, 19)] groupName = 19"
  by (simp_all add: lookupNode_def nodeNamePrefix_def groupName_def digitChar_def nullptr_def)

lemma nested_connection_lost:
  "fold (loadInternalConnection [(nodeNamePrefix @ ''3'', 20), (groupName, 19)])
     [JObject (Connection_toJson (connectionHeap nestedScene 16))] ([], s) = ([], s)"
  by (simp add: loadInternalConnection_def Connection_toJson_def nestedScene_facts
      toObject_def toString_def jget_Cons nested_lookups Let_def del: showNat.simps)

lemma nested_positions:
  "fold (loadOriginalPosition [(nodeNamePrefix @ ''3'', 20), (groupName, 19)])
     (map (originalPositionJson nestedScene) [(12, (400, 0)), (15, (25, 25))]) []
   = [(19, (25, 25)), (20, (400, 0))]"
  by (simp add: loadOriginalPosition_def originalPositionJson_def jget_Cons
      toObject_def toString_def toDouble_def Let_def nullptr_def nestedScene_group
      nested_lookups)

lemma nested_document:
  "toArray (jget (getFlowData created nestedScene) ''nodes'') = [flowNodeJson nestedScene 17]"
  "toArray (jget (getFlowData created nestedScene) ''connections'') = []"
  by (simp_all add: getFlowData_def jget_Cons toArray_def nestedScene_facts)

lemma upt_19: "[19 ..< 21] = [19, 20::nat]"
  by (simp add: upt_rec)

lemma nestedReloaded_facts:
  "m_nodes nestedReloaded = [18]"
  "m_sceneConnections nestedReloaded = []"
  "isGroupNode nestedReloaded 18"
  "m_internalNodes (groupDataOf (nodeHeap nestedReloaded 18)) = [19, 20]"
  "m_internalConnections (groupDataOf (nodeHeap nestedReloaded 18)) = []"
  "m_originalPositions (groupDataOf (nodeHeap nestedReloaded 18)) = [(19, (25, 25)), (20, (400, 0))]"
  "nodeHeap nestedReloaded 19 = Node_fromJson Map.empty (Node_toJson 15 (nodeHeap nestedScene 15))"
  "nodeHeap nestedReloaded 20 = Node_fromJson Map.empty (Node_toJson 12 (nodeHeap nestedScene 12))"
  "m_inputPortCount (nodeHeap nestedReloaded 18) = 2"
  "m_outputPortCount (nodeHeap nestedReloaded 18) = 2"
proof -
  let ?j = "toObject (flowNodeJson nestedScene 17)"
  let ?xs = "[JObject (Node_toJson 15 (nodeHeap nestedScene 15)),
              JObject (Node_toJson 12 (nodeHeap nestedScene 12))]"
  let ?imap = "[(nodeNamePrefix @ ''3'', 20), (groupName, 19)]"
  define s00 where "s00 = nestedScene\<lparr>m_nodes := [], m_sceneConnections := []\<rparr>"
  define sg where "sg = snd (newNode (GroupNode_new Map.empty groupName (425 / 2, 25 / 2)) s00)"
  define st where "st = fold loadInternalNode ?xs ([], [], sg)"
  define s1 where "s1 = snd (snd st)"
  define s2b where "s2b = updNode 18 (setOriginalPositions [(19, (25, 25)), (20, (400, 0))])
      (updNode 18 (setInternalConnections []) (updNode 18 (setInternalNodes [19, 20]) s1))"
  define s3 where "s3 = updNode 18 (calcPortMappings (nodeHeap s2b) (connectionHeap s2b)) s2b"
  note reads = flowNodeJson_group [OF group_some [OF nestedScene_group(1)],
      unfolded nestedScene_group nestedScene_facts list.map fst_conv snd_conv]
  have s00: "nextPtr s00 = 18" "nodeLibrary s00 = Map.empty" "m_nodes s00 = []"
    "m_sceneConnections s00 = []"
    by (simp_all add: s00_def nestedScene_facts)
  have sg: "nextPtr sg = 19" "nodeLibrary sg = Map.empty" "m_nodes sg = []"
    "m_sceneConnections sg = []" "nodeHeap sg 18 = GroupNode_new Map.empty groupName (425 / 2, 25 / 2)"
    by (simp_all add: sg_def s00)
  note f = loadInternalNode_fold [of ?xs "[]" "[]" sg, folded st_def, folded s1_def]
  have st: "st = ([19, 20], ?imap, s1)"
    using f by (simp add: prod_eq_iff s1_def sg toObject_def Node_toJson_name upt_19
        nestedScene_group)
  have s1: "m_nodes s1 = []" "m_sceneConnections s1 = []" "nodeHeap s1 18 = nodeHeap sg 18"
    using f by (simp_all add: sg)
  have n19: "nodeHeap s1 19 = Node_fromJson Map.empty (Node_toJson 15 (nodeHeap nestedScene 15))"
    using f [THEN conjunct2, THEN conjunct2, THEN conjunct2, THEN conjunct2, THEN conjunct2,
        THEN conjunct2, THEN conjunct2, THEN conjunct2, THEN conjunct2, rule_format, of 0]
    by (simp add: sg toObject_def)
  have n20: "nodeHeap s1 20 = Node_fromJson Map.empty (Node_toJson 12 (nodeHeap nestedScene 12))"
    using f [THEN conjunct2, THEN conjunct2, THEN conjunct2, THEN conjunct2, THEN conjunct2,
        THEN conjunct2, THEN conjunct2, THEN conjunct2, THEN conjunct2, rule_format, of 1]
    by (simp add: sg toObject_def)
  have ld: "loadNode (flowNodeJson nestedScene 17) ([], s00)
      = ([(''node_'' @ showNat 17, 18)], s3\<lparr>m_nodes := m_nodes s3 @ [18]\<rparr>)"
  proof -
    have a: "toBool (jget ?j ''isGroup'') False"
      by (rule reads)
    have b: "fold loadInternalNode (toArray (jget ?j ''internalNodes''))
        ([], [], snd (newNode (GroupNode_new (nodeLibrary s00) (toString (jget ?j ''name''))
           (toDouble (jget (toObject (jget ?j ''position'')) ''x''),
            toDouble (jget (toObject (jget ?j ''position'')) ''y''))) s00))
        = ([19, 20], ?imap, s1)"
      unfolding reads s00 sg_def [symmetric] st_def [symmetric] by (rule st)
    have c: "fold (loadInternalConnection ?imap) (toArray (jget ?j ''internalConnections''))
        ([], updNode (nextPtr s00) (setInternalNodes [19, 20]) s1)
        = ([], updNode 18 (setInternalNodes [19, 20]) s1)"
      unfolding reads s00 by (rule nested_connection_lost [unfolded nestedScene_facts])
    from loadNode_group [OF a b c, of "[]"] show ?thesis
      unfolding reads s00 nested_positions [unfolded list.map] s2b_def [symmetric] s3_def [symmetric] .
  qed
  have ts: "nestedReloaded = s3\<lparr>m_nodes := m_nodes s3 @ [18]\<rparr>"
    by (simp add: nestedReloaded_def loadFlowData_def Let_def s00_def [symmetric] nested_document ld)
  have g2b: "nodeHeap s2b 18 = setOriginalPositions [(19, (25, 25)), (20, (400, 0))]
      (setInternalConnections [] (setInternalNodes [19, 20]
         (GroupNode_new Map.empty groupName (425 / 2, 25 / 2))))"
    by (simp add: s2b_def s1 sg)
  note cf = calcPortMappings_fields [OF group_setters_data, of "nodeHeap s2b" "connectionHeap s2b"
      "[(19, (25, 25)), (20, (400, 0))]" "[]" "[19, 20]" Map.empty groupName "(425 / 2, 25 / 2)"]
  have g3: "nodeHeap s3 18 = calcPortMappings (nodeHeap s2b) (connectionHeap s2b) (nodeHeap s2b 18)"
    by (simp add: s3_def)
  have h19: "nodeHeap s2b 19 = nodeHeap s1 19" and h20: "nodeHeap s2b 20 = nodeHeap s1 20"
    by (simp_all add: s2b_def)
  have ports: "m_inputPortCount (nodeHeap s2b 19) = 1" "m_outputPortCount (nodeHeap s2b 19) = 1"
    "m_inputPortCount (nodeHeap s2b 20) = 1" "m_outputPortCount (nodeHeap s2b 20) = 1"
    by (simp_all add: h19 h20 n19 n20 Node_fromJson_toJson nestedScene_group)
  show "m_nodes nestedReloaded = [18]"
    by (simp add: ts s3_def s2b_def s1)
  show "m_sceneConnections nestedReloaded = []"
    by (simp add: ts s3_def s2b_def s1)
  show "isGroupNode nestedReloaded 18"
    by (simp add: isGroupNode_def ts g3 g2b cf)
  show "m_internalNodes (groupDataOf (nodeHeap nestedReloaded 18)) = [19, 20]"
    by (simp add: groupDataOf_def ts g3 g2b cf)
  show "m_internalConnections (groupDataOf (nodeHeap nestedReloaded 18)) = []"
    by (simp add: groupDataOf_def ts g3 g2b cf)
  show "m_originalPositions (groupDataOf (nodeHeap nestedReloaded 18)) = [(19, (25, 25)), (20, (400, 0))]"
    by (simp add: groupDataOf_def ts g3 g2b cf)
  show "nodeHeap nestedReloaded 19 = Node_fromJson Map.empty (Node_toJson 15 (nodeHeap nestedScene 15))"
    by (simp add: ts s3_def s2b_def n19)
  show "nodeHeap nestedReloaded 20 = Node_fromJson Map.empty (Node_toJson 12 (nodeHeap nestedScene 12))"
    by (simp add: ts s3_def s2b_def n20)
  show "m_inputPortCount (nodeHeap nestedReloaded 18) = 2"
    by (simp add: ts g3 g2b cf inputMappingsOf_def connectedPortsOf_def internalKeys_def
        danglingPorts_def GroupData_empty_def ports)
  show "m_outputPortCount (nodeHeap nestedReloaded 18) = 2"
    by (simp add: ts g3 g2b cf outputMappingsOf_def connectedPortsOf_def internalKeys_def
        danglingPorts_def GroupData_empty_def ports)
qed

lemma nested_inner_type: "m_type (nodeHeap nestedScene 15) = ''group''"
  unfolding nodeBody_eq_fields(2) [OF nestedScene_facts(6)]
    nodeBody_eq_fields(2) [OF chainGrouped_facts(8)]
  by (rule builtGroupNode_fields)

text \<open>
  C3 fails for the chain scene with its nodes grouped twice. Before saving, the outer
  group (17) holds the inner group (15, with the nodes 10 and 11) and node 12, and the
  connection 16 between them, and shows one input and one output port. \<open>getFlowData\<close>
  writes the internal nodes with \<open>Node::toJson\<close> and the internal connection with
  \<open>Connection::toJson\<close>; \<open>loadFlowData\<close> rebuilds the internal nodes with \<open>Node::fromJson\<close>
  and looks the ends of an internal connection up by node name. After loading, the
  outer group (18) holds two plain nodes (19, still of type \<open>group\<close> and named as a group,
  but no group node and without internal nodes; and 20), no internal connection, and
  shows two input and two output ports.
\<close>

theorem nested_group_not_reloaded:
  "m_nodes nestedScene = [17] \<and>
   isGroupNode nestedScene 17 \<and>
   m_internalNodes (groupDataOf (nodeHeap nestedScene 17)) = [15, 12] \<and>
   m_internalConnections (groupDataOf (nodeHeap nestedScene 17)) = [16] \<and>
   isGroupNode nestedScene 15 \<and>
   m_internalNodes (groupDataOf (nodeHeap nestedScene 15)) = [10, 11] \<and>
   m_inputPortCount (nodeHeap nestedScene 17) = 1 \<and>
   m_outputPortCount (nodeHeap nestedScene 17) = 1 \<and>
   m_nodes nestedReloaded = [18] \<and>
   isGroupNode nestedReloaded 18 \<and>
   m_internalNodes (groupDataOf (nodeHeap nestedReloaded 18)) = [19, 20] \<and>
   m_internalConnections (groupDataOf (nodeHeap nestedReloaded 18)) = [] \<and>
   m_name (nodeHeap nestedReloaded 19) = groupName \<and>
   m_type (nodeHeap nestedReloaded 19) = ''group'' \<and>
   \<not> isGroupNode nestedReloaded 19 \<and>
   m_inputPortCount (nodeHeap nestedReloaded 18) = 2 \<and>
   m_outputPortCount (nodeHeap nestedReloaded 18) = 2"
proof -
  have a: "m_name (nodeHeap nestedReloaded 19) = groupName"
    by (simp add: nestedReloaded_facts Node_fromJson_toJson nestedScene_group)
  have b: "m_type (nodeHeap nestedReloaded 19) = ''group''"
    by (simp add: nestedReloaded_facts Node_fromJson_toJson nested_inner_type)
  have c: "\<not> isGroupNode nestedReloaded 19"
    by (simp add: isGroupNode_def nestedReloaded_facts Node_fromJson_plain)
  show ?thesis
    by (intro conjI) (rule a b c nestedScene_facts nestedScene_group nestedReloaded_facts)+
qed

end
